theory Spec2Isabelle
  imports Complex_Main "HOL-Library.AList"
begin

section \<open>Scalars, vectors and matrices\<close>

text \<open>
  The renderer computes in single-precision floating point. A value of type \<open>float\<close> is
  the real number the float denotes. Copies, transpositions and comparisons are exact;
  the result of an arithmetic operation on floats is rounded to the nearest float
  (\<open>binary32\<close> below). The matrices of the camera and the output of the wave simulator
  come from code outside the source file and are inputs.

  A 4x4 matrix is four rows of four scalars, so that an ill-shaped matrix cannot be written.
\<close>

type_synonym float = real
type_synonym XMFLOAT2 = "float \<times> float"
type_synonym XMFLOAT3 = "float \<times> float \<times> float"
type_synonym XMFLOAT4 = "float \<times> float \<times> float \<times> float"
type_synonym XMFLOAT4X4 = "XMFLOAT4 \<times> XMFLOAT4 \<times> XMFLOAT4 \<times> XMFLOAT4"

text \<open>
  IEEE 754 single precision, round to nearest, ties to even: a float has a significand of
  24 bits, so the floats of magnitude in \<open>[2^e, 2^(e+1))\<close> are the multiples of
  \<open>2^(e-23)\<close>. \<open>binary32 x\<close> is the float an operation returns whose exact result is
  \<open>x\<close>, for \<open>x\<close> in the range of normal floats (magnitude from \<open>2^-126\<close> to below
  \<open>2^128\<close>), or zero. A literal such as \<open>0.1f\<close> is \<open>binary32 0.1\<close>.
\<close>

definition binary32 :: "real \<Rightarrow> float" where
  "binary32 x =
     (if x = 0 then 0
      else
        let ulp = 2 powr (of_int \<lfloor>log 2 \<bar>x\<bar>\<rfloor> - 23);
            q = x / ulp;
            n = \<lfloor>q\<rfloor>
        in (if q - of_int n < 1 / 2 then of_int n
            else if 1 / 2 < q - of_int n then of_int (n + 1)
            else if even n then of_int n
            else of_int (n + 1)) * ulp)"

definition gNumFrameResources :: nat where
  "gNumFrameResources = 3"

definition Identity4x4 :: XMFLOAT4X4 where
  "Identity4x4 = ((1, 0, 0, 0), (0, 1, 0, 0), (0, 0, 1, 0), (0, 0, 0, 1))"

fun XMMatrixScaling :: "float \<Rightarrow> float \<Rightarrow> float \<Rightarrow> XMFLOAT4X4" where
  "XMMatrixScaling sx sy sz = ((sx, 0, 0, 0), (0, sy, 0, 0), (0, 0, sz, 0), (0, 0, 0, 1))"

fun XMMatrixTranspose :: "XMFLOAT4X4 \<Rightarrow> XMFLOAT4X4" where
  "XMMatrixTranspose ((a00, a01, a02, a03), (a10, a11, a12, a13),
                      (a20, a21, a22, a23), (a30, a31, a32, a33)) =
     ((a00, a10, a20, a30), (a01, a11, a21, a31),
      (a02, a12, a22, a32), (a03, a13, a23, a33))"

text \<open>Element access \<open>M(i, j)\<close>, used to say what a transposition is.\<close>

fun component :: "XMFLOAT4 \<Rightarrow> nat \<Rightarrow> float" where
  "component (x, y, z, w) j = (if j = 0 then x else if j = 1 then y else if j = 2 then z else w)"

fun matrix_row :: "XMFLOAT4X4 \<Rightarrow> nat \<Rightarrow> XMFLOAT4" where
  "matrix_row (r0, r1, r2, r3) i = (if i = 0 then r0 else if i = 1 then r1 else if i = 2 then r2 else r3)"

definition entry :: "XMFLOAT4X4 \<Rightarrow> nat \<Rightarrow> nat \<Rightarrow> float" where
  "entry M i j = component (matrix_row M i) j"

section \<open>Data model\<close>

datatype topology = TRIANGLELIST | POINTLIST

datatype RenderLayer = Opaque | Transparent | AlphaTested | AlphaTestedTreeSprites

text \<open>
  \<open>Material\<close>, \<open>MeshGeometry\<close> and the constant records are declared in headers that are
  not part of the source file; their fields are the ones the source file reads and writes.
  A \<open>Material*\<close> or \<open>MeshGeometry*\<close> held by a render item is the key of the object in
  \<open>mMaterials\<close> or \<open>mGeometries\<close>; a \<open>RenderItem*\<close> is a position in \<open>mAllRitems\<close>.
\<close>

record Material =
  Name :: string
  MatCBIndex :: nat
  DiffuseSrvHeapIndex :: nat
  NumFramesDirty :: int
  DiffuseAlbedo :: XMFLOAT4
  FresnelR0 :: XMFLOAT3
  Roughness :: float
  MatTransform :: XMFLOAT4X4

record MaterialConstants =
  DiffuseAlbedo :: XMFLOAT4
  FresnelR0 :: XMFLOAT3
  Roughness :: float
  MatTransform :: XMFLOAT4X4

record SubmeshGeometry =
  IndexCount :: nat
  StartIndexLocation :: nat
  BaseVertexLocation :: int

record MeshGeometry =
  VertexBufferGPU :: "nat option"
  IndexBufferGPU :: "nat option"
  DrawArgs :: "string \<Rightarrow> SubmeshGeometry"

record RenderItem =
  World :: XMFLOAT4X4
  TexTransform :: XMFLOAT4X4
  NumFramesDirty :: int
  ObjCBIndex :: nat
  Mat :: string
  Geo :: string
  PrimitiveType :: topology
  IndexCount :: nat
  StartIndexLocation :: nat
  BaseVertexLocation :: int

record ObjectConstants =
  World :: XMFLOAT4X4
  TexTransform :: XMFLOAT4X4

record Vertex =
  Pos :: XMFLOAT3
  Normal :: XMFLOAT3
  TexC :: XMFLOAT2

record Light =
  Strength :: XMFLOAT3
  Direction :: XMFLOAT3
  Position :: XMFLOAT3

record PassConstants =
  View :: XMFLOAT4X4
  InvView :: XMFLOAT4X4
  Proj :: XMFLOAT4X4
  InvProj :: XMFLOAT4X4
  ViewProj :: XMFLOAT4X4
  InvViewProj :: XMFLOAT4X4
  EyePosW :: XMFLOAT3
  RenderTargetSize :: XMFLOAT2
  InvRenderTargetSize :: XMFLOAT2
  NearZ :: float
  FarZ :: float
  TotalTime :: float
  DeltaTime :: float
  AmbientLight :: XMFLOAT4
  FogColor :: XMFLOAT4
  Lights :: "Light list"

subsection \<open>The wave simulator\<close>

text \<open>
  Modelled from the spec: \<open>Waves.h\<close> is not part of the source file. The simulator is
  created once with fixed dimensions (\<open>create(rows, cols, ...)\<close>) and exposes its row and
  column count, its vertex count, its spatial extents and, per vertex, a position and a
  normal. What \<open>Disturb\<close> and \<open>Update\<close> compute is a parameter of the model
  (\<open>WavesImpl\<close>).
\<close>

record Waves =
  RowCount :: int
  ColumnCount :: int
  VertexCount :: int
  Width :: float
  Depth :: float
  Position :: "nat \<Rightarrow> XMFLOAT3"
  Normal :: "nat \<Rightarrow> XMFLOAT3"

record WavesImpl =
  Disturb :: "int \<Rightarrow> int \<Rightarrow> float \<Rightarrow> Waves \<Rightarrow> Waves"
  Waves_Update :: "float \<Rightarrow> Waves \<Rightarrow> Waves"

text \<open>
  Modelled from the spec: \<open>disturb(row, col, magnitude)\<close> perturbs one grid cell and its
  4-neighbourhood and never the boundary; indices outside the interior are a contract
  violation. The cell and its four neighbours are off the boundary exactly when the cell is
  at distance two or more from every edge.
\<close>

definition Disturb_contract :: "Waves \<Rightarrow> int \<Rightarrow> int \<Rightarrow> bool" where
  "Disturb_contract w i j \<longleftrightarrow>
     1 < i \<and> i < Waves.RowCount w - 2 \<and> 1 < j \<and> j < Waves.ColumnCount w - 2"

text \<open>
  Modelled from the spec: \<open>MathHelper::Rand(a, b)\<close> and \<open>MathHelper::RandF(a, b)\<close>
  (\<open>MathHelper.h\<close> is not part of the source file) return a number drawn from the closed
  range from \<open>a\<close> to \<open>b\<close>. The raw draw \<open>x\<close> of the C library's \<open>rand()\<close> is an input
  of the tick; \<open>RAND_MAX\<close> bounds it.
\<close>

definition RAND_MAX :: nat where
  "RAND_MAX = 32767"

definition Rand :: "int \<Rightarrow> int \<Rightarrow> nat \<Rightarrow> int" where
  "Rand a b x = a + int (x mod (RAND_MAX + 1)) mod ((b - a) + 1)"

definition RandF :: "float \<Rightarrow> float \<Rightarrow> nat \<Rightarrow> float" where
  "RandF a b x = a + (real (x mod (RAND_MAX + 1)) / real RAND_MAX) * (b - a)"

subsection \<open>Upload buffers and frame resources\<close>

datatype buffer_kind = ObjectCBs | MaterialCBs | PassCBs | WavesVBs

datatype error =
    OutOfBounds buffer_kind
  | InvalidPointer
  | DxException
  | WaitNeverReturns

text \<open>
  Modelled from the spec: \<open>UploadBuffer.h\<close> is not part of the source file. An upload
  buffer has a fixed capacity chosen when it is created; \<open>CopyData(i, x)\<close> stores the record
  \<open>x\<close> at element \<open>i\<close>. An element is \<open>None\<close> until it is first written. A write
  outside the capacity has no defined behaviour in the program; the model reports it.
  \<open>Resource\<close> is the GPU virtual address of the buffer.
\<close>

record 'a UploadBuffer =
  Resource :: nat
  mMappedData :: "'a option list"

definition NewUploadBuffer :: "nat \<Rightarrow> nat \<Rightarrow> 'a UploadBuffer" where
  "NewUploadBuffer addr elementCount = \<lparr>Resource = addr, mMappedData = replicate elementCount None\<rparr>"

definition CopyData :: "buffer_kind \<Rightarrow> int \<Rightarrow> 'a \<Rightarrow> 'a UploadBuffer \<Rightarrow> error + 'a UploadBuffer" where
  "CopyData kind elementIndex data ub =
     (if 0 \<le> elementIndex \<and> nat elementIndex < length (mMappedData ub)
      then Inr (ub\<lparr>mMappedData := (mMappedData ub)[nat elementIndex := Some data]\<rparr>)
      else Inl (OutOfBounds kind))"

text \<open>
  Modelled from the spec: \<open>FrameResource.h\<close> is not part of the source file. A frame
  resource owns an object-constant buffer sized to the render-item count, a material-constant
  buffer sized to the material count, a pass-constant buffer, a dynamic vertex buffer sized
  to the wave grid's vertex count, and a fence value, zero until the slot is first submitted.
\<close>

record FrameResource =
  PassCB :: "PassConstants UploadBuffer"
  MaterialCB :: "MaterialConstants UploadBuffer"
  ObjectCB :: "ObjectConstants UploadBuffer"
  WavesVB :: "Vertex UploadBuffer"
  Fence :: nat

definition NewFrameResource ::
  "(buffer_kind \<Rightarrow> nat) \<Rightarrow> nat \<Rightarrow> nat \<Rightarrow> nat \<Rightarrow> nat \<Rightarrow> FrameResource" where
  "NewFrameResource addr passCount objectCount materialCount waveVertCount =
     \<lparr>PassCB = NewUploadBuffer (addr PassCBs) passCount,
      MaterialCB = NewUploadBuffer (addr MaterialCBs) materialCount,
      ObjectCB = NewUploadBuffer (addr ObjectCBs) objectCount,
      WavesVB = NewUploadBuffer (addr WavesVBs) waveVertCount,
      Fence = 0\<rparr>"

subsection \<open>Observable actions\<close>

text \<open>
  The application state carries a log of what the CPU thread did, in program order: slot
  selection, the fence check and the wait, every write into an upload buffer (with the slot
  written), the calls into the simulator, and the commands recorded and submitted.
\<close>

datatype command =
    RSSetViewports
  | RSSetScissorRects
  | ResourceBarrier_PresentToRenderTarget
  | ResourceBarrier_RenderTargetToPresent
  | ClearRenderTargetView XMFLOAT4
  | ClearDepthStencilView
  | OMSetRenderTargets
  | SetDescriptorHeaps
  | SetGraphicsRootSignature
  | SetGraphicsRootConstantBufferView nat nat
  | SetGraphicsRootDescriptorTable nat nat
  | SetPipelineState string
  | IASetVertexBuffers nat
  | IASetIndexBuffer nat
  | IASetPrimitiveTopology topology
  | DrawIndexedInstanced nat nat nat int nat

datatype event =
    SelectSlot nat
  | FenceCheck nat nat nat
  | WaitForSingleObject nat nat
  | WriteObjectCB nat nat ObjectConstants
  | WriteMaterialCB nat nat MaterialConstants
  | WritePassCB nat nat PassConstants
  | WriteWavesVB nat nat Vertex
  | RebindWavesVB nat nat
  | DisturbCall int int float
  | WavesUpdateCall float
  | AllocatorReset nat
  | CommandListReset string
  | Record command
  | CommandListClose
  | ExecuteCommandLists
  | Present
  | Signal nat

subsection \<open>Application state and the inputs of a tick\<close>

record App =
  mFrameResources :: "FrameResource list"
  mCurrFrameResource :: "nat option"
  mCurrFrameResourceIndex :: nat
  mGeometries :: "string \<Rightarrow> MeshGeometry option"
  mMaterials :: "(string \<times> Material) list"
  mWavesRitem :: "nat option"
  mAllRitems :: "RenderItem list"
  mRitemLayer :: "RenderLayer \<Rightarrow> nat list"
  mWaves :: Waves
  mMainPassCB :: PassConstants
  mCurrentFence :: nat
  t_base :: float
  log :: "event list"

text \<open>
  What a tick reads from outside the source file: the timer, the device's completed fence
  value, whether the calls that can fail succeed, whether the blocking wait returns, the raw
  random draws, and the camera's matrices (the camera is an external collaborator;
  \<open>OnKeyboardInput\<close> only moves it).
\<close>

record TickInput =
  gt_DeltaTime :: float
  gt_TotalTime :: float
  GetCompletedValue :: nat
  SetEventOnCompletion_succeeds :: bool
  WaitForSingleObject_returns :: bool
  rand_i :: nat
  rand_j :: nat
  rand_r :: nat
  cam_View :: XMFLOAT4X4
  cam_Proj :: XMFLOAT4X4
  cam_ViewProj :: XMFLOAT4X4
  cam_InvView :: XMFLOAT4X4
  cam_InvProj :: XMFLOAT4X4
  cam_InvViewProj :: XMFLOAT4X4
  cam_Position3f :: XMFLOAT3
  mClientWidth :: int
  mClientHeight :: int
  cmdListAlloc_Reset_succeeds :: bool
  mCommandList_Reset_succeeds :: bool
  mCommandList_Close_succeeds :: bool
  Present_succeeds :: bool

text \<open>
  What the device fixes at start-up: the aligned sizes of the two constant records, the
  descriptor increment and the start of the shader-resource descriptor heap.
\<close>

record Device =
  objCBByteSize :: nat
  matCBByteSize :: nat
  mCbvSrvDescriptorSize :: nat
  SrvHeapStart :: nat

section \<open>The per-tick update\<close>

subsection \<open>AnimateMaterials\<close>

text \<open>
  The scrolling of the water texture: \<open>tu\<close> and \<open>tv\<close> are the elements (3, 0) and (3, 1)
  of the material's texture transform.
\<close>

fun scroll_water :: "float \<Rightarrow> XMFLOAT4X4 \<Rightarrow> XMFLOAT4X4" where
  "scroll_water dt (r0, r1, r2, (m30, m31, m32, m33)) =
     (let tu = binary32 (m30 + binary32 (binary32 0.1 * dt));
          tv = binary32 (m31 + binary32 (binary32 0.02 * dt));
          tu = (if tu \<ge> 1 then binary32 (tu - 1) else tu);
          tv = (if tv \<ge> 1 then binary32 (tv - 1) else tv)
      in (r0, r1, r2, (tu, tv, m32, m33)))"

definition AnimateMaterials :: "TickInput \<Rightarrow> App \<Rightarrow> error + App" where
  "AnimateMaterials gt s =
     (case map_of (mMaterials s) ''water'' of
        None \<Rightarrow> Inl InvalidPointer
      | Some waterMat \<Rightarrow>
          Inr (s\<lparr>mMaterials :=
                 AList.update ''water''
                   (waterMat\<lparr>Material.MatTransform :=
                               scroll_water (gt_DeltaTime gt) (Material.MatTransform waterMat),
                             Material.NumFramesDirty := int gNumFrameResources\<rparr>)
                   (mMaterials s)\<rparr>))"

subsection \<open>UpdateObjectCBs\<close>

definition objConstants_of :: "RenderItem \<Rightarrow> ObjectConstants" where
  "objConstants_of e =
     \<lparr>ObjectConstants.World = XMMatrixTranspose (RenderItem.World e),
      ObjectConstants.TexTransform = XMMatrixTranspose (RenderItem.TexTransform e)\<rparr>"

text \<open>
  The loop over \<open>mAllRitems\<close>, writing into the buffer \<open>cb\<close> of slot \<open>k\<close>. It returns the
  items with their counters updated, the buffer, and the writes it made, in order.
\<close>

fun UpdateObjectCBs_loop ::
  "nat \<Rightarrow> RenderItem list \<Rightarrow> ObjectConstants UploadBuffer \<Rightarrow>
   error + (RenderItem list \<times> ObjectConstants UploadBuffer \<times> event list)" where
  "UpdateObjectCBs_loop k [] cb = Inr ([], cb, [])"
| "UpdateObjectCBs_loop k (e # es) cb =
     (if RenderItem.NumFramesDirty e > 0 then
        (case CopyData ObjectCBs (int (ObjCBIndex e)) (objConstants_of e) cb of
           Inl err \<Rightarrow> Inl err
         | Inr cb' \<Rightarrow>
             (case UpdateObjectCBs_loop k es cb' of
                Inl err \<Rightarrow> Inl err
              | Inr (es', cb'', evs) \<Rightarrow>
                  Inr (e\<lparr>RenderItem.NumFramesDirty := RenderItem.NumFramesDirty e - 1\<rparr> # es',
                       cb'',
                       WriteObjectCB k (ObjCBIndex e) (objConstants_of e) # evs)))
      else
        (case UpdateObjectCBs_loop k es cb of
           Inl err \<Rightarrow> Inl err
         | Inr (es', cb', evs) \<Rightarrow> Inr (e # es', cb', evs)))"

definition UpdateObjectCBs :: "App \<Rightarrow> error + App" where
  "UpdateObjectCBs s =
     (case mCurrFrameResource s of
        None \<Rightarrow> Inl InvalidPointer
      | Some k \<Rightarrow>
          if \<not> k < length (mFrameResources s) then Inl InvalidPointer
          else
            let fr = mFrameResources s ! k in
            (case UpdateObjectCBs_loop k (mAllRitems s) (ObjectCB fr) of
               Inl err \<Rightarrow> Inl err
             | Inr (es', cb', evs) \<Rightarrow>
                 Inr (s\<lparr>mAllRitems := es',
                        mFrameResources := (mFrameResources s)[k := fr\<lparr>ObjectCB := cb'\<rparr>],
                        log := log s @ evs\<rparr>)))"

subsection \<open>UpdateMaterialCBs\<close>

definition matConstants_of :: "Material \<Rightarrow> MaterialConstants" where
  "matConstants_of mat =
     \<lparr>MaterialConstants.DiffuseAlbedo = Material.DiffuseAlbedo mat,
      MaterialConstants.FresnelR0 = Material.FresnelR0 mat,
      MaterialConstants.Roughness = Material.Roughness mat,
      MaterialConstants.MatTransform = XMMatrixTranspose (Material.MatTransform mat)\<rparr>"

text \<open>
  \<open>mMaterials\<close> is an unordered map: the loop visits its entries in an order the program
  does not choose. The model visits them in the order of the association list, which is
  arbitrary in every statement about this loop.
\<close>

fun UpdateMaterialCBs_loop ::
  "nat \<Rightarrow> (string \<times> Material) list \<Rightarrow> MaterialConstants UploadBuffer \<Rightarrow>
   error + ((string \<times> Material) list \<times> MaterialConstants UploadBuffer \<times> event list)" where
  "UpdateMaterialCBs_loop k [] cb = Inr ([], cb, [])"
| "UpdateMaterialCBs_loop k ((name, mat) # es) cb =
     (if Material.NumFramesDirty mat > 0 then
        (case CopyData MaterialCBs (int (MatCBIndex mat)) (matConstants_of mat) cb of
           Inl err \<Rightarrow> Inl err
         | Inr cb' \<Rightarrow>
             (case UpdateMaterialCBs_loop k es cb' of
                Inl err \<Rightarrow> Inl err
              | Inr (es', cb'', evs) \<Rightarrow>
                  Inr ((name, mat\<lparr>Material.NumFramesDirty := Material.NumFramesDirty mat - 1\<rparr>) # es',
                       cb'',
                       WriteMaterialCB k (MatCBIndex mat) (matConstants_of mat) # evs)))
      else
        (case UpdateMaterialCBs_loop k es cb of
           Inl err \<Rightarrow> Inl err
         | Inr (es', cb', evs) \<Rightarrow> Inr ((name, mat) # es', cb', evs)))"

definition UpdateMaterialCBs :: "App \<Rightarrow> error + App" where
  "UpdateMaterialCBs s =
     (case mCurrFrameResource s of
        None \<Rightarrow> Inl InvalidPointer
      | Some k \<Rightarrow>
          if \<not> k < length (mFrameResources s) then Inl InvalidPointer
          else
            let fr = mFrameResources s ! k in
            (case UpdateMaterialCBs_loop k (mMaterials s) (MaterialCB fr) of
               Inl err \<Rightarrow> Inl err
             | Inr (es', cb', evs) \<Rightarrow>
                 Inr (s\<lparr>mMaterials := es',
                        mFrameResources := (mFrameResources s)[k := fr\<lparr>MaterialCB := cb'\<rparr>],
                        log := log s @ evs\<rparr>)))"

subsection \<open>UpdateMainPassCB\<close>

definition main_pass_constants :: "TickInput \<Rightarrow> PassConstants \<Rightarrow> PassConstants" where
  "main_pass_constants gt cb =
     cb\<lparr>View := XMMatrixTranspose (cam_View gt),
        InvView := XMMatrixTranspose (cam_InvView gt),
        Proj := XMMatrixTranspose (cam_Proj gt),
        InvProj := XMMatrixTranspose (cam_InvProj gt),
        ViewProj := XMMatrixTranspose (cam_ViewProj gt),
        InvViewProj := XMMatrixTranspose (cam_InvViewProj gt),
        EyePosW := cam_Position3f gt,
        RenderTargetSize := (binary32 (real_of_int (mClientWidth gt)),
                             binary32 (real_of_int (mClientHeight gt))),
        InvRenderTargetSize := (binary32 (1 / binary32 (real_of_int (mClientWidth gt))),
                                binary32 (1 / binary32 (real_of_int (mClientHeight gt)))),
        NearZ := 1,
        FarZ := 1000,
        TotalTime := gt_TotalTime gt,
        DeltaTime := gt_DeltaTime gt,
        AmbientLight := (binary32 0.97, binary32 0.98, binary32 0.06, 1),
        Lights := (Lights cb)
          [0 := \<lparr>Strength = (1, 0, 0),
                 Direction = (binary32 0.57735, - binary32 0.57735, binary32 0.57735),
                 Position = (24, 33, - 40.5)\<rparr>,
           1 := \<lparr>Strength = (1, 1, 1),
                 Direction = (- binary32 0.57735, - binary32 0.57735, binary32 0.57735),
                 Position = (24, 33, 40.5)\<rparr>]\<rparr>"

definition UpdateMainPassCB :: "TickInput \<Rightarrow> App \<Rightarrow> error + App" where
  "UpdateMainPassCB gt s =
     (let cb = main_pass_constants gt (mMainPassCB s) in
      case mCurrFrameResource s of
        None \<Rightarrow> Inl InvalidPointer
      | Some k \<Rightarrow>
          if \<not> k < length (mFrameResources s) then Inl InvalidPointer
          else
            let fr = mFrameResources s ! k in
            (case CopyData PassCBs 0 cb (PassCB fr) of
               Inl err \<Rightarrow> Inl err
             | Inr pcb \<Rightarrow>
                 Inr (s\<lparr>mMainPassCB := cb,
                        mFrameResources := (mFrameResources s)[k := fr\<lparr>PassCB := pcb\<rparr>],
                        log := log s @ [WritePassCB k 0 cb]\<rparr>)))"

subsection \<open>UpdateWaves\<close>

definition wave_vertex :: "Waves \<Rightarrow> nat \<Rightarrow> Vertex" where
  "wave_vertex w i =
     (case Waves.Position w i of
        (x, y, z) \<Rightarrow>
          \<lparr>Pos = (x, y, z),
           Vertex.Normal = Waves.Normal w i,
           TexC = (binary32 (0.5 + binary32 (x / Width w)),
                   binary32 (0.5 - binary32 (z / Depth w)))\<rparr>)"

fun UpdateWaves_loop ::
  "nat \<Rightarrow> Waves \<Rightarrow> nat list \<Rightarrow> Vertex UploadBuffer \<Rightarrow>
   error + (Vertex UploadBuffer \<times> event list)" where
  "UpdateWaves_loop k w [] vb = Inr (vb, [])"
| "UpdateWaves_loop k w (i # is) vb =
     (case CopyData WavesVBs (int i) (wave_vertex w i) vb of
        Inl err \<Rightarrow> Inl err
      | Inr vb' \<Rightarrow>
          (case UpdateWaves_loop k w is vb' of
             Inl err \<Rightarrow> Inl err
           | Inr (vb'', evs) \<Rightarrow> Inr (vb'', WriteWavesVB k i (wave_vertex w i) # evs)))"

text \<open>
  The random disturbance: \<open>t_base\<close> is the function's static local, a \<open>float\<close>, zero at
  start-up. \<open>mTimer.TotalTime()\<close> returns a \<open>float\<close>; the difference and the sum are
  single-precision operations.
\<close>

definition UpdateWaves_disturb :: "WavesImpl \<Rightarrow> TickInput \<Rightarrow> App \<Rightarrow> App" where
  "UpdateWaves_disturb W gt s =
     (if binary32 (gt_TotalTime gt - t_base s) \<ge> 0.25 then
        let i = Rand 4 (RowCount (mWaves s) - 5) (rand_i gt);
            j = Rand 4 (ColumnCount (mWaves s) - 5) (rand_j gt);
            r = RandF (binary32 0.2) 0.5 (rand_r gt)
        in s\<lparr>t_base := binary32 (t_base s + 0.25),
             mWaves := Disturb W i j r (mWaves s),
             log := log s @ [DisturbCall i j r]\<rparr>
      else s)"

definition UpdateWaves :: "WavesImpl \<Rightarrow> TickInput \<Rightarrow> App \<Rightarrow> error + App" where
  "UpdateWaves W gt s0 =
     (let s1 = UpdateWaves_disturb W gt s0;
          w = Waves_Update W (gt_DeltaTime gt) (mWaves s1);
          s2 = s1\<lparr>mWaves := w, log := log s1 @ [WavesUpdateCall (gt_DeltaTime gt)]\<rparr>
      in
      case mCurrFrameResource s2 of
        None \<Rightarrow> Inl InvalidPointer
      | Some k \<Rightarrow>
          if \<not> k < length (mFrameResources s2) then Inl InvalidPointer
          else
            let fr = mFrameResources s2 ! k in
            (case UpdateWaves_loop k w [0 ..< nat (VertexCount w)] (WavesVB fr) of
               Inl err \<Rightarrow> Inl err
             | Inr (vb, evs) \<Rightarrow>
                 (case mWavesRitem s2 of
                    None \<Rightarrow> Inl InvalidPointer
                  | Some p \<Rightarrow>
                      if \<not> p < length (mAllRitems s2) then Inl InvalidPointer
                      else
                        (case mGeometries s2 (Geo (mAllRitems s2 ! p)) of
                           None \<Rightarrow> Inl InvalidPointer
                         | Some geo \<Rightarrow>
                             Inr (s2\<lparr>mFrameResources := (mFrameResources s2)[k := fr\<lparr>WavesVB := vb\<rparr>],
                                     mGeometries := (mGeometries s2)
                                       (Geo (mAllRitems s2 ! p) \<mapsto> geo\<lparr>VertexBufferGPU := Some (Resource vb)\<rparr>),
                                     log := log s2 @ evs @ [RebindWavesVB p (Resource vb)]\<rparr>)))))"

subsection \<open>Update\<close>

text \<open>
  The fence check of \<open>Update\<close>. \<open>CreateEventEx\<close> and \<open>CloseHandle\<close> only manage the
  event handle. A wait with no time-out that never returns is the value
  \<open>Inl WaitNeverReturns\<close>: the program does nothing after it.
\<close>

definition Update :: "WavesImpl \<Rightarrow> TickInput \<Rightarrow> App \<Rightarrow> error + App" where
  "Update W gt s0 =
     (let idx = (mCurrFrameResourceIndex s0 + 1) mod gNumFrameResources in
      if \<not> idx < length (mFrameResources s0) then Inl InvalidPointer
      else
        let s1 = s0\<lparr>mCurrFrameResourceIndex := idx,
                    mCurrFrameResource := Some idx,
                    log := log s0 @ [SelectSlot idx]\<rparr>;
            fence = Fence (mFrameResources s1 ! idx);
            s2 = s1\<lparr>log := log s1 @ [FenceCheck idx fence (GetCompletedValue gt)]\<rparr>
        in
        (case (if fence \<noteq> 0 \<and> GetCompletedValue gt < fence then
                 (if \<not> SetEventOnCompletion_succeeds gt then Inl DxException
                  else if \<not> WaitForSingleObject_returns gt then Inl WaitNeverReturns
                  else Inr (s2\<lparr>log := log s2 @ [WaitForSingleObject idx fence]\<rparr>))
               else Inr s2) of
           Inl err \<Rightarrow> Inl err
         | Inr s3 \<Rightarrow>
        (case AnimateMaterials gt s3 of
           Inl err \<Rightarrow> Inl err
         | Inr s4 \<Rightarrow>
        (case UpdateObjectCBs s4 of
           Inl err \<Rightarrow> Inl err
         | Inr s5 \<Rightarrow>
        (case UpdateMaterialCBs s5 of
           Inl err \<Rightarrow> Inl err
         | Inr s6 \<Rightarrow>
        (case UpdateMainPassCB gt s6 of
           Inl err \<Rightarrow> Inl err
         | Inr s7 \<Rightarrow> UpdateWaves W gt s7))))))"

section \<open>Recording and submitting a frame\<close>

subsection \<open>DrawRenderItems\<close>

text \<open>
  The commands recorded for one render item. The constant-buffer addresses are computed
  as in the program: the product of a 32-bit index and a 32-bit record size is a 32-bit
  product, added to a 64-bit address; the descriptor handle is offset in 64 bits. A render
  item whose geometry has no vertex or index buffer, or whose pointers lead nowhere, cannot
  be drawn.
\<close>

definition item_commands :: "Device \<Rightarrow> nat \<Rightarrow> nat \<Rightarrow> nat \<Rightarrow> nat \<Rightarrow> RenderItem \<Rightarrow> Material \<Rightarrow> command list" where
  "item_commands dev objectCB matCB vb ib ri mat =
     (let tex = (SrvHeapStart dev + DiffuseSrvHeapIndex mat * mCbvSrvDescriptorSize dev) mod 2 ^ 64;
          objCBAddress = (objectCB + (ObjCBIndex ri * objCBByteSize dev) mod 2 ^ 32) mod 2 ^ 64;
          matCBAddress = (matCB + (MatCBIndex mat * matCBByteSize dev) mod 2 ^ 32) mod 2 ^ 64
      in [IASetVertexBuffers vb,
          IASetIndexBuffer ib,
          IASetPrimitiveTopology (PrimitiveType ri),
          SetGraphicsRootDescriptorTable 0 tex,
          SetGraphicsRootConstantBufferView 1 objCBAddress,
          SetGraphicsRootConstantBufferView 3 matCBAddress,
          DrawIndexedInstanced (RenderItem.IndexCount ri) 1 (RenderItem.StartIndexLocation ri)
            (RenderItem.BaseVertexLocation ri) 0])"

fun DrawRenderItems_loop ::
  "Device \<Rightarrow> App \<Rightarrow> nat \<Rightarrow> nat \<Rightarrow> nat list \<Rightarrow> error + command list" where
  "DrawRenderItems_loop dev s objectCB matCB [] = Inr []"
| "DrawRenderItems_loop dev s objectCB matCB (p # ps) =
     (if \<not> p < length (mAllRitems s) then Inl InvalidPointer
      else
        let ri = mAllRitems s ! p in
        (case mGeometries s (Geo ri) of
           None \<Rightarrow> Inl InvalidPointer
         | Some geo \<Rightarrow>
        (case VertexBufferGPU geo of
           None \<Rightarrow> Inl InvalidPointer
         | Some vb \<Rightarrow>
        (case IndexBufferGPU geo of
           None \<Rightarrow> Inl InvalidPointer
         | Some ib \<Rightarrow>
        (case map_of (mMaterials s) (Mat ri) of
           None \<Rightarrow> Inl InvalidPointer
         | Some mat \<Rightarrow>
        (case DrawRenderItems_loop dev s objectCB matCB ps of
           Inl err \<Rightarrow> Inl err
         | Inr cs \<Rightarrow> Inr (item_commands dev objectCB matCB vb ib ri mat @ cs)))))))"

definition DrawRenderItems :: "Device \<Rightarrow> App \<Rightarrow> nat list \<Rightarrow> error + command list" where
  "DrawRenderItems dev s ritems =
     (case mCurrFrameResource s of
        None \<Rightarrow> Inl InvalidPointer
      | Some k \<Rightarrow>
          if \<not> k < length (mFrameResources s) then Inl InvalidPointer
          else
            DrawRenderItems_loop dev s
              (Resource (ObjectCB (mFrameResources s ! k)))
              (Resource (MaterialCB (mFrameResources s ! k)))
              ritems)"

subsection \<open>Draw\<close>

text \<open>
  The back-buffer bookkeeping of the presenter is left out. The fence counter is an
  unsigned 64-bit integer.
\<close>

definition Draw :: "Device \<Rightarrow> TickInput \<Rightarrow> App \<Rightarrow> error + App" where
  "Draw dev gt s =
     (case mCurrFrameResource s of
        None \<Rightarrow> Inl InvalidPointer
      | Some k \<Rightarrow>
          if \<not> k < length (mFrameResources s) then Inl InvalidPointer
          else if \<not> cmdListAlloc_Reset_succeeds gt then Inl DxException
          else if \<not> mCommandList_Reset_succeeds gt then Inl DxException
          else
            let fr = mFrameResources s ! k;
                prologue =
                  [RSSetViewports,
                   RSSetScissorRects,
                   ResourceBarrier_PresentToRenderTarget,
                   ClearRenderTargetView (FogColor (mMainPassCB s)),
                   ClearDepthStencilView,
                   OMSetRenderTargets,
                   SetDescriptorHeaps,
                   SetGraphicsRootSignature,
                   SetGraphicsRootConstantBufferView 2 (Resource (PassCB fr))]
            in
            (case DrawRenderItems dev s (mRitemLayer s Opaque) of
               Inl err \<Rightarrow> Inl err
             | Inr opaque \<Rightarrow>
            (case DrawRenderItems dev s (mRitemLayer s AlphaTested) of
               Inl err \<Rightarrow> Inl err
             | Inr alphaTested \<Rightarrow>
            (case DrawRenderItems dev s (mRitemLayer s AlphaTestedTreeSprites) of
               Inl err \<Rightarrow> Inl err
             | Inr treeSprites \<Rightarrow>
            (case DrawRenderItems dev s (mRitemLayer s Transparent) of
               Inl err \<Rightarrow> Inl err
             | Inr transparent \<Rightarrow>
                 if \<not> mCommandList_Close_succeeds gt then Inl DxException
                 else if \<not> Present_succeeds gt then Inl DxException
                 else
                   let fence = (mCurrentFence s + 1) mod 2 ^ 64 in
                   Inr (s\<lparr>mCurrentFence := fence,
                          mFrameResources := (mFrameResources s)[k := fr\<lparr>Fence := fence\<rparr>],
                          log := log s
                            @ [AllocatorReset k, CommandListReset ''opaque'']
                            @ map Record
                                (prologue
                                 @ opaque
                                 @ [SetPipelineState ''alphaTested''] @ alphaTested
                                 @ [SetPipelineState ''treeSprites''] @ treeSprites
                                 @ [SetPipelineState ''transparent''] @ transparent
                                 @ [ResourceBarrier_RenderTargetToPresent])
                            @ [CommandListClose, ExecuteCommandLists, Present, Signal fence]\<rparr>))))))"

subsection \<open>The main loop\<close>

text \<open>
  Modelled from the spec: the loop that calls \<open>Update\<close> and \<open>Draw\<close> is not part of the
  source file. Per tick the scheduler selects the next slot, waits if the GPU is behind,
  stages the data, then records, submits and signals: \<open>Update\<close>, then \<open>Draw\<close>.
\<close>

definition tick :: "WavesImpl \<Rightarrow> Device \<Rightarrow> TickInput \<Rightarrow> App \<Rightarrow> error + App" where
  "tick W dev gt s = (case Update W gt s of Inl err \<Rightarrow> Inl err | Inr s' \<Rightarrow> Draw dev gt s')"

fun run :: "WavesImpl \<Rightarrow> Device \<Rightarrow> TickInput list \<Rightarrow> App \<Rightarrow> error + App" where
  "run W dev [] s = Inr s"
| "run W dev (gt # gts) s =
     (case tick W dev gt s of Inl err \<Rightarrow> Inl err | Inr s' \<Rightarrow> run W dev gts s')"

subsection \<open>Reading a recorded command stream\<close>

text \<open>
  What is bound when a draw call executes: the GPU executes a command list in recording
  order, so each draw call sees the last pipeline state, buffers, topology and root
  arguments set before it.
\<close>

record Bindings =
  pipelineState :: string
  vertexBuffer :: "nat option"
  indexBuffer :: "nat option"
  primitiveTopology :: "topology option"
  descriptorTable :: "nat \<Rightarrow> nat option"
  constantBufferView :: "nat \<Rightarrow> nat option"

record DrawCall =
  bound :: Bindings
  indexCount :: nat
  instanceCount :: nat
  startIndexLocation :: nat
  baseVertexLocation :: int
  startInstanceLocation :: nat

definition initial_bindings :: "string \<Rightarrow> Bindings" where
  "initial_bindings pso =
     \<lparr>pipelineState = pso, vertexBuffer = None, indexBuffer = None, primitiveTopology = None,
      descriptorTable = (\<lambda>_. None), constantBufferView = (\<lambda>_. None)\<rparr>"

fun bind :: "command \<Rightarrow> Bindings \<Rightarrow> Bindings" where
  "bind (SetPipelineState pso) b = b\<lparr>pipelineState := pso\<rparr>"
| "bind (IASetVertexBuffers vb) b = b\<lparr>vertexBuffer := Some vb\<rparr>"
| "bind (IASetIndexBuffer ib) b = b\<lparr>indexBuffer := Some ib\<rparr>"
| "bind (IASetPrimitiveTopology t) b = b\<lparr>primitiveTopology := Some t\<rparr>"
| "bind (SetGraphicsRootDescriptorTable i a) b = b\<lparr>descriptorTable := (descriptorTable b)(i \<mapsto> a)\<rparr>"
| "bind (SetGraphicsRootConstantBufferView i a) b = b\<lparr>constantBufferView := (constantBufferView b)(i \<mapsto> a)\<rparr>"
| "bind _ b = b"

fun draw_calls :: "Bindings \<Rightarrow> command list \<Rightarrow> DrawCall list" where
  "draw_calls b [] = []"
| "draw_calls b (DrawIndexedInstanced n inst start base startInst # cs) =
     \<lparr>bound = b, indexCount = n, instanceCount = inst, startIndexLocation = start,
      baseVertexLocation = base, startInstanceLocation = startInst\<rparr> # draw_calls b cs"
| "draw_calls b (c # cs) = draw_calls (bind c b) cs"

fun final_bindings :: "Bindings \<Rightarrow> command list \<Rightarrow> Bindings" where
  "final_bindings b [] = b"
| "final_bindings b (c # cs) = final_bindings (bind c b) cs"

section \<open>Start-up\<close>

subsection \<open>BuildMaterials\<close>

text \<open>
  Modelled from the spec: the declaration of \<open>Material\<close> is not part of the source file.
  A new material starts with its frames-dirty counter at the frame-resource count, as a
  render item does, so that every ring slot observes it; its texture transform is taken to
  start as the identity, as a render item's transforms do.

  \<open>make_Material\<close> is one block of \<open>BuildMaterials\<close>: it reads the two running counters
  and increments each.
\<close>

definition make_Material ::
  "string \<Rightarrow> XMFLOAT4 \<Rightarrow> XMFLOAT3 \<Rightarrow> float \<Rightarrow> nat \<times> nat \<Rightarrow> Material \<times> (nat \<times> nat)" where
  "make_Material name albedo fresnel rough counters =
     (case counters of
        (MatCBIndex_counter, DiffuseSrvHeapIndex_counter) \<Rightarrow>
          (\<lparr>Name = name,
            MatCBIndex = MatCBIndex_counter,
            DiffuseSrvHeapIndex = DiffuseSrvHeapIndex_counter,
            Material.NumFramesDirty = int gNumFrameResources,
            Material.DiffuseAlbedo = albedo,
            Material.FresnelR0 = fresnel,
            Material.Roughness = rough,
            Material.MatTransform = Identity4x4\<rparr>,
           (MatCBIndex_counter + 1, DiffuseSrvHeapIndex_counter + 1)))"

definition BuildMaterials :: "(string \<times> Material) list" where
  "BuildMaterials =
     (let c = (0, 0);
          (grass, c) = make_Material ''grass'' (1, 1, 1, 1) (binary32 0.01, binary32 0.01, binary32 0.01) 0.125 c;
          (grasswall, c) = make_Material ''grass'' (1, 1, 1, 1) (binary32 0.01, binary32 0.01, binary32 0.01) 0.125 c;
          (water, c) = make_Material ''water'' (1, 1, 1, 0.5) (binary32 0.1, binary32 0.1, binary32 0.1) 0 c;
          (bricks, c) = make_Material ''bricks'' (1, 1, 1, 1) (binary32 0.02, binary32 0.02, binary32 0.02) 0.25 c;
          (wedge, c) = make_Material ''bricks2'' (1, 1, 1, 1) (binary32 0.02, binary32 0.02, binary32 0.02) 0.25 c;
          (cylinder, c) = make_Material ''bricks3'' (1, 1, 1, 1) (binary32 0.02, binary32 0.02, binary32 0.02) 0.25 c;
          (sphere, c) = make_Material ''ice'' (1, 1, 1, 0.5) (binary32 0.1, binary32 0.1, binary32 0.1) 0 c;
          (cone, c) = make_Material ''tile'' (1, 1, 1, 1) (binary32 0.02, binary32 0.02, binary32 0.02) 0.25 c;
          (pyramid, c) = make_Material ''sand'' (1, 1, 1, 1) (binary32 0.02, binary32 0.02, binary32 0.02) 0.25 c;
          (prism, c) = make_Material ''checkboard'' (1, 1, 1, 1) (binary32 0.02, binary32 0.02, binary32 0.02) 0.25 c;
          (diamond, c) = make_Material ''shiny'' (1, 1, 1, 0.5) (binary32 0.1, binary32 0.1, binary32 0.1) 0 c;
          (treeSprites, c) = make_Material ''treeSprites'' (1, 1, 1, 1) (binary32 0.01, binary32 0.01, binary32 0.01) 0.125 c
      in [(''grass'', grass),
          (''grass2'', grasswall),
          (''water'', water),
          (''bricks'', bricks),
          (''bricks2'', wedge),
          (''bricks3'', cylinder),
          (''ice'', sphere),
          (''tile'', cone),
          (''sand'', pyramid),
          (''checkboard'', prism),
          (''shiny'', diamond),
          (''treeSprites'', treeSprites)])"

subsection \<open>BuildRenderItems\<close>

text \<open>
  One block of \<open>BuildRenderItems\<close> creates a render item, gives it the running value of
  \<open>objCBIndex\<close> and increments the counter, points it to a material and a geometry, copies
  the draw arguments of a submesh, and pushes it to one layer and to \<open>mAllRitems\<close>.

  The world transforms of the scene are products of translations, scalings and rotations of
  literal numbers; they are scene content and a parameter here (\<open>placement\<close>, by creation
  number), except where the source assigns the identity.
\<close>

record RitemBlock =
  block_World :: "XMFLOAT4X4 option"
  block_TexTransform :: XMFLOAT4X4
  block_Mat :: string
  block_Geo :: string
  block_Submesh :: string
  block_PrimitiveType :: topology
  block_Layer :: RenderLayer

definition ritem_block ::
  "XMFLOAT4X4 option \<Rightarrow> XMFLOAT4X4 \<Rightarrow> string \<Rightarrow> string \<Rightarrow> string \<Rightarrow> topology \<Rightarrow> RenderLayer \<Rightarrow> RitemBlock" where
  "ritem_block w t m g sub prim layer =
     \<lparr>block_World = w, block_TexTransform = t, block_Mat = m, block_Geo = g,
      block_Submesh = sub, block_PrimitiveType = prim, block_Layer = layer\<rparr>"

definition AddRitem ::
  "(nat \<Rightarrow> XMFLOAT4X4) \<Rightarrow> RitemBlock \<Rightarrow> nat \<times> App \<Rightarrow> error + (nat \<times> App)" where
  "AddRitem placement b st =
     (case st of
        (objCBIndex, s) \<Rightarrow>
          (case mGeometries s (block_Geo b) of
             None \<Rightarrow> Inl InvalidPointer
           | Some geo \<Rightarrow>
               let args = DrawArgs geo (block_Submesh b);
                   ri = \<lparr>RenderItem.World =
                           (case block_World b of Some w \<Rightarrow> w | None \<Rightarrow> placement objCBIndex),
                         RenderItem.TexTransform = block_TexTransform b,
                         RenderItem.NumFramesDirty = int gNumFrameResources,
                         ObjCBIndex = objCBIndex,
                         Mat = block_Mat b,
                         Geo = block_Geo b,
                         PrimitiveType = block_PrimitiveType b,
                         RenderItem.IndexCount = SubmeshGeometry.IndexCount args,
                         RenderItem.StartIndexLocation = SubmeshGeometry.StartIndexLocation args,
                         RenderItem.BaseVertexLocation = SubmeshGeometry.BaseVertexLocation args\<rparr>
               in Inr (objCBIndex + 1,
                       s\<lparr>mRitemLayer := (mRitemLayer s)
                            (block_Layer b := mRitemLayer s (block_Layer b) @ [length (mAllRitems s)]),
                          mAllRitems := mAllRitems s @ [ri]\<rparr>)))"

fun AddRitems ::
  "(nat \<Rightarrow> XMFLOAT4X4) \<Rightarrow> RitemBlock list \<Rightarrow> nat \<times> App \<Rightarrow> error + (nat \<times> App)" where
  "AddRitems placement [] st = Inr st"
| "AddRitems placement (b # bs) st =
     (case AddRitem placement b st of Inl err \<Rightarrow> Inl err | Inr st' \<Rightarrow> AddRitems placement bs st')"

text \<open>
  The blocks of \<open>BuildRenderItems\<close> in the order in which the program runs them. A loop
  whose body creates the same items on every pass (up to the world transform) is the
  repetition of its body.
\<close>

definition repeat :: "nat \<Rightarrow> 'a list \<Rightarrow> 'a list" where
  "repeat n xs = concat (replicate n xs)"

definition opaque_block :: "string \<Rightarrow> string \<Rightarrow> string \<Rightarrow> RitemBlock" where
  "opaque_block m g sub = ritem_block None Identity4x4 m g sub TRIANGLELIST Opaque"

definition scene_blocks :: "RitemBlock list" where
  "scene_blocks =
     (let wavesRitem = ritem_block (Some Identity4x4) (XMMatrixScaling 5 5 1)
                         ''water'' ''waterGeo'' ''grid'' TRIANGLELIST Transparent;
          gridRitem = ritem_block (Some Identity4x4) (XMMatrixScaling 5 5 1)
                         ''grass'' ''landGeo'' ''grid'' TRIANGLELIST Opaque;
          box = opaque_block ''bricks'' ''boxGeo'' ''box'';
          wedge = opaque_block ''bricks2'' ''wedgeGeo'' ''wedge'';
          Cylinder = opaque_block ''bricks3'' ''cylinderGeo'' ''cylinder'';
          Cone = opaque_block ''tile'' ''coneGeo'' ''cone'';
          SphereRitem = ritem_block None Identity4x4 ''ice'' ''sphereGeo'' ''sphere''
                          TRIANGLELIST Transparent;
          CenterPyramid = opaque_block ''sand'' ''pyramidGeo'' ''pyramid'';
          GatePrism = opaque_block ''checkboard'' ''prismGeo'' ''prism'';
          grasswall = opaque_block ''grass2'' ''grasswallGeo'' ''grasswall'';
          Diamond = opaque_block ''shiny'' ''diamondGeo'' ''diamond'';
          treeSpritesRitem = ritem_block (Some Identity4x4) Identity4x4
                               ''treeSprites'' ''treeSpritesGeo'' ''points''
                               POINTLIST AlphaTestedTreeSprites
      in [wavesRitem, gridRitem, box]
         @ repeat 2 [box]
         @ [box, box, box]
         @ repeat 2 (repeat 10 [wedge, wedge])
         @ repeat 6 [wedge, wedge]
         @ repeat 2 [wedge, wedge]
         @ repeat 2 [wedge, wedge]
         @ repeat 2 (repeat 2 [Cylinder, Cone, SphereRitem])
         @ repeat 2 (repeat 4 [wedge, wedge])
         @ repeat 2 (repeat 4 [wedge, wedge])
         @ [CenterPyramid]
         @ repeat 2 [GatePrism, GatePrism, GatePrism, box, wedge, wedge]
         @ repeat 6 [grasswall]
         @ repeat 10 [grasswall]
         @ [Diamond]
         @ [treeSpritesRitem])"

definition BuildRenderItems :: "(nat \<Rightarrow> XMFLOAT4X4) \<Rightarrow> App \<Rightarrow> error + App" where
  "BuildRenderItems placement s =
     (case AddRitems placement scene_blocks (0, s) of
        Inl err \<Rightarrow> Inl err
      | Inr (objCBIndex, s') \<Rightarrow> Inr (s'\<lparr>mWavesRitem := Some 0\<rparr>))"

subsection \<open>BuildFrameResources and Initialize\<close>

definition BuildFrameResources :: "(nat \<Rightarrow> buffer_kind \<Rightarrow> nat) \<Rightarrow> App \<Rightarrow> App" where
  "BuildFrameResources addr s =
     s\<lparr>mFrameResources := mFrameResources s @
          map (\<lambda>i. NewFrameResource (addr i) 1 (length (mAllRitems s)) (length (mMaterials s))
                     (nat (VertexCount (mWaves s))))
              [0 ..< gNumFrameResources]\<rparr>"

text \<open>
  What start-up takes from outside the source file's core: the geometries registered by the
  geometry builders, the world transforms, the extents and first solution of the simulator,
  the addresses of the buffers the device allocates, and the initial pass constants.
\<close>

record SceneData =
  geometries :: "string \<Rightarrow> MeshGeometry option"
  placement :: "nat \<Rightarrow> XMFLOAT4X4"
  waves_Width :: float
  waves_Depth :: float
  waves_Position :: "nat \<Rightarrow> XMFLOAT3"
  waves_Normal :: "nat \<Rightarrow> XMFLOAT3"
  buffer_address :: "nat \<Rightarrow> buffer_kind \<Rightarrow> nat"
  initial_PassConstants :: PassConstants

definition Initialize :: "SceneData \<Rightarrow> error + App" where
  "Initialize scene =
     (let s = \<lparr>mFrameResources = [],
               mCurrFrameResource = None,
               mCurrFrameResourceIndex = 0,
               mGeometries = geometries scene,
               mMaterials = [],
               mWavesRitem = None,
               mAllRitems = [],
               mRitemLayer = (\<lambda>_. []),
               mWaves = \<lparr>RowCount = 305, ColumnCount = 150, VertexCount = 305 * 150,
                          Width = waves_Width scene, Depth = waves_Depth scene,
                          Waves.Position = waves_Position scene,
                          Waves.Normal = waves_Normal scene\<rparr>,
               mMainPassCB = initial_PassConstants scene,
               mCurrentFence = 0,
               t_base = 0,
               log = []\<rparr>;
          s = s\<lparr>mMaterials := BuildMaterials\<rparr>
      in case BuildRenderItems (placement scene) s of
           Inl err \<Rightarrow> Inl err
         | Inr s \<Rightarrow> Inr (BuildFrameResources (buffer_address scene) s))"

section \<open>Reading the model\<close>

subsection \<open>What one pass of the dirty-constant loops does to an entity\<close>

definition ritem_dirty :: "RenderItem \<Rightarrow> bool" where
  "ritem_dirty e \<longleftrightarrow> RenderItem.NumFramesDirty e > 0"

definition ritem_tick :: "RenderItem \<Rightarrow> RenderItem" where
  "ritem_tick e =
     (if ritem_dirty e then e\<lparr>RenderItem.NumFramesDirty := RenderItem.NumFramesDirty e - 1\<rparr> else e)"

definition obj_write :: "nat \<Rightarrow> RenderItem \<Rightarrow> event" where
  "obj_write k e = WriteObjectCB k (ObjCBIndex e) (objConstants_of e)"

definition mat_dirty :: "Material \<Rightarrow> bool" where
  "mat_dirty m \<longleftrightarrow> Material.NumFramesDirty m > 0"

definition mat_tick :: "Material \<Rightarrow> Material" where
  "mat_tick m =
     (if mat_dirty m then m\<lparr>Material.NumFramesDirty := Material.NumFramesDirty m - 1\<rparr> else m)"

definition mat_write :: "nat \<Rightarrow> Material \<Rightarrow> event" where
  "mat_write k m = WriteMaterialCB k (MatCBIndex m) (matConstants_of m)"

definition wave_write :: "nat \<Rightarrow> Waves \<Rightarrow> nat \<Rightarrow> event" where
  "wave_write k w i = WriteWavesVB k i (wave_vertex w i)"

text \<open>What \<open>AnimateMaterials\<close> does to the water material.\<close>

definition water_rearm :: "TickInput \<Rightarrow> Material \<Rightarrow> Material" where
  "water_rearm gt m =
     m\<lparr>Material.MatTransform := scroll_water (gt_DeltaTime gt) (Material.MatTransform m),
       Material.NumFramesDirty := int gNumFrameResources\<rparr>"

text \<open>What one tick does to an entry of \<open>mMaterials\<close>.\<close>

definition mat_step :: "TickInput \<Rightarrow> string \<times> Material \<Rightarrow> string \<times> Material" where
  "mat_step gt nm =
     (fst nm, mat_tick (if fst nm = ''water'' then water_rearm gt (snd nm) else snd nm))"

text \<open>The material as \<open>UpdateMaterialCBs\<close> sees it on a tick.\<close>

definition mat_seen :: "TickInput \<Rightarrow> string \<times> Material \<Rightarrow> Material" where
  "mat_seen gt nm = (if fst nm = ''water'' then water_rearm gt (snd nm) else snd nm)"

subsection \<open>Reading the log\<close>

fun select_of :: "event \<Rightarrow> nat list" where
  "select_of (SelectSlot k) = [k]"
| "select_of _ = []"

definition selected_slots :: "event list \<Rightarrow> nat list" where
  "selected_slots evs = concat (map select_of evs)"

text \<open>The slot an event writes into, if the event is a CPU write into an upload buffer.\<close>

fun written_slot :: "event \<Rightarrow> nat option" where
  "written_slot (WriteObjectCB k i d) = Some k"
| "written_slot (WriteMaterialCB k i d) = Some k"
| "written_slot (WritePassCB k i d) = Some k"
| "written_slot (WriteWavesVB k i d) = Some k"
| "written_slot _ = None"

text \<open>The slots into which the object record of index \<open>i\<close> was written, with the record.\<close>

fun object_write_of :: "nat \<Rightarrow> event \<Rightarrow> (nat \<times> ObjectConstants) list" where
  "object_write_of i (WriteObjectCB k j d) = (if j = i then [(k, d)] else [])"
| "object_write_of i _ = []"

definition object_writes :: "nat \<Rightarrow> event list \<Rightarrow> (nat \<times> ObjectConstants) list" where
  "object_writes i evs = concat (map (object_write_of i) evs)"

fun material_write_of :: "nat \<Rightarrow> event \<Rightarrow> (nat \<times> MaterialConstants) list" where
  "material_write_of i (WriteMaterialCB k j d) = (if j = i then [(k, d)] else [])"
| "material_write_of i _ = []"

definition material_writes :: "nat \<Rightarrow> event list \<Rightarrow> (nat \<times> MaterialConstants) list" where
  "material_writes i evs = concat (map (material_write_of i) evs)"

fun disturb_of :: "event \<Rightarrow> (int \<times> int \<times> float) list" where
  "disturb_of (DisturbCall i j r) = [(i, j, r)]"
| "disturb_of _ = []"

definition disturb_calls :: "event list \<Rightarrow> (int \<times> int \<times> float) list" where
  "disturb_calls evs = concat (map disturb_of evs)"

fun record_of :: "event \<Rightarrow> command list" where
  "record_of (Record c) = [c]"
| "record_of _ = []"

definition recorded :: "event list \<Rightarrow> command list" where
  "recorded evs = concat (map record_of evs)"

subsection \<open>The wait-then-write discipline, as a property of a log\<close>

text \<open>
  A monitor reads a log from left to right. It keeps the slot selected last, whether the
  gate of that slot is open, and the fence value recorded last for every slot (zero for a
  slot never submitted). Selecting a slot closes the gate. The gate opens when the fence
  check finds the slot's recorded fence zero or not above the device's completed value, or
  when the blocking wait for the recorded fence returns. A write into a slot's buffers is
  accepted only into the selected slot and only while the gate is open. The signal that
  follows the submission records the new fence for the selected slot and closes the gate.
\<close>

record Monitor =
  selected :: "nat option"
  gate_open :: bool
  recorded_fence :: "nat \<Rightarrow> nat"

definition monitor_write :: "nat \<Rightarrow> Monitor \<Rightarrow> Monitor option" where
  "monitor_write k mon = (if selected mon = Some k \<and> gate_open mon then Some mon else None)"

fun monitor_step :: "event \<Rightarrow> Monitor \<Rightarrow> Monitor option" where
  "monitor_step (SelectSlot k) mon = Some (mon\<lparr>selected := Some k, gate_open := False\<rparr>)"
| "monitor_step (FenceCheck k f c) mon =
     (if selected mon = Some k \<and> f = recorded_fence mon k \<and> (f = 0 \<or> f \<le> c)
      then Some (mon\<lparr>gate_open := True\<rparr>) else Some mon)"
| "monitor_step (WaitForSingleObject k f) mon =
     (if selected mon = Some k \<and> f = recorded_fence mon k
      then Some (mon\<lparr>gate_open := True\<rparr>) else Some mon)"
| "monitor_step (WriteObjectCB k i d) mon = monitor_write k mon"
| "monitor_step (WriteMaterialCB k i d) mon = monitor_write k mon"
| "monitor_step (WritePassCB k i d) mon = monitor_write k mon"
| "monitor_step (WriteWavesVB k i d) mon = monitor_write k mon"
| "monitor_step (Signal f) mon =
     (case selected mon of
        None \<Rightarrow> Some mon
      | Some k \<Rightarrow> Some (mon\<lparr>gate_open := False, recorded_fence := (recorded_fence mon)(k := f)\<rparr>))"
| "monitor_step _ mon = Some mon"

fun monitor :: "event list \<Rightarrow> Monitor \<Rightarrow> Monitor option" where
  "monitor [] mon = Some mon"
| "monitor (e # evs) mon =
     (case monitor_step e mon of None \<Rightarrow> None | Some mon' \<Rightarrow> monitor evs mon')"

definition initial_monitor :: Monitor where
  "initial_monitor = \<lparr>selected = None, gate_open = False, recorded_fence = (\<lambda>_. 0)\<rparr>"

definition wait_then_write :: "event list \<Rightarrow> bool" where
  "wait_then_write evs \<longleftrightarrow> monitor evs initial_monitor \<noteq> None"

subsection \<open>The program from start-up\<close>

text \<open>\<open>WinMain\<close>: initialise, then run the loop over the inputs of the ticks.\<close>

definition WinMain :: "WavesImpl \<Rightarrow> Device \<Rightarrow> SceneData \<Rightarrow> TickInput list \<Rightarrow> error + App" where
  "WinMain W dev scene gts =
     (case Initialize scene of Inl err \<Rightarrow> Inl err | Inr s \<Rightarrow> run W dev gts s)"

subsection \<open>Well-formed states\<close>

text \<open>
  Every index a tick uses lies inside the buffer it indexes: the object-constant index of
  every render item and the material-constant index of every material in every frame
  resource, the one pass record, and the vertices of the wave grid.
\<close>

definition buffers_fit :: "App \<Rightarrow> bool" where
  "buffers_fit s \<longleftrightarrow>
     (\<forall>fr\<in>set (mFrameResources s).
        (\<forall>e\<in>set (mAllRitems s). ObjCBIndex e < length (mMappedData (ObjectCB fr))) \<and>
        (\<forall>nm\<in>set (mMaterials s). MatCBIndex (snd nm) < length (mMappedData (MaterialCB fr))) \<and>
        0 < length (mMappedData (PassCB fr)) \<and>
        nat (VertexCount (mWaves s)) \<le> length (mMappedData (WavesVB fr)))"

text \<open>
  Every pointer a tick follows leads somewhere: there are \<open>gNumFrameResources\<close> frame
  resources, the keys of the material map are unique and include the water material, the
  wave render item exists and has a geometry, and every render item of every layer exists,
  has a material, and has a geometry with an index buffer and with a vertex buffer (the wave
  geometry gets its vertex buffer from \<open>UpdateWaves\<close>).
\<close>

definition drawable :: "App \<Rightarrow> bool \<Rightarrow> nat \<Rightarrow> bool" where
  "drawable s waves_bound p \<longleftrightarrow>
     p < length (mAllRitems s) \<and>
     map_of (mMaterials s) (Mat (mAllRitems s ! p)) \<noteq> None \<and>
     (\<exists>geo. mGeometries s (Geo (mAllRitems s ! p)) = Some geo \<and>
            IndexBufferGPU geo \<noteq> None \<and>
            (VertexBufferGPU geo \<noteq> None \<or>
             (\<not> waves_bound \<and>
              (\<exists>q. mWavesRitem s = Some q \<and> Geo (mAllRitems s ! p) = Geo (mAllRitems s ! q)))))"

definition pointers_valid :: "App \<Rightarrow> bool \<Rightarrow> bool" where
  "pointers_valid s waves_bound \<longleftrightarrow>
     length (mFrameResources s) = gNumFrameResources \<and>
     distinct (map fst (mMaterials s)) \<and>
     map_of (mMaterials s) ''water'' \<noteq> None \<and>
     (\<exists>p. mWavesRitem s = Some p \<and> p < length (mAllRitems s) \<and>
          mGeometries s (Geo (mAllRitems s ! p)) \<noteq> None) \<and>
     (\<forall>layer. \<forall>p\<in>set (mRitemLayer s layer). drawable s waves_bound p)"

definition well_formed :: "App \<Rightarrow> bool" where
  "well_formed s \<longleftrightarrow> buffers_fit s \<and> pointers_valid s False"

text \<open>
  Modelled from the spec: the wave field is created once with fixed dimensions and never
  resized, whatever \<open>Disturb\<close> and \<open>Update\<close> compute.
\<close>

definition never_resized :: "WavesImpl \<Rightarrow> bool" where
  "never_resized W \<longleftrightarrow>
     (\<forall>dt w. RowCount (Waves_Update W dt w) = RowCount w \<and>
             ColumnCount (Waves_Update W dt w) = ColumnCount w \<and>
             VertexCount (Waves_Update W dt w) = VertexCount w) \<and>
     (\<forall>i j r w. RowCount (Disturb W i j r w) = RowCount w \<and>
                ColumnCount (Disturb W i j r w) = ColumnCount w \<and>
                VertexCount (Disturb W i j r w) = VertexCount w)"

text \<open>A tick in which no device call fails and the wait, if any, returns.\<close>

definition device_responds :: "TickInput \<Rightarrow> bool" where
  "device_responds gt \<longleftrightarrow>
     SetEventOnCompletion_succeeds gt \<and> WaitForSingleObject_returns gt \<and>
     cmdListAlloc_Reset_succeeds gt \<and> mCommandList_Reset_succeeds gt \<and>
     mCommandList_Close_succeeds gt \<and> Present_succeeds gt"

text \<open>What is fixed about a frame resource when it is created: where its buffers are and how many elements each holds.\<close>

definition capacities :: "FrameResource \<Rightarrow> (nat \<times> nat) \<times> (nat \<times> nat) \<times> (nat \<times> nat) \<times> (nat \<times> nat)" where
  "capacities fr =
     ((Resource (ObjectCB fr), length (mMappedData (ObjectCB fr))),
      (Resource (MaterialCB fr), length (mMappedData (MaterialCB fr))),
      (Resource (PassCB fr), length (mMappedData (PassCB fr))),
      (Resource (WavesVB fr), length (mMappedData (WavesVB fr))))"

subsection \<open>The scene after start-up\<close>

text \<open>The render item a block of \<open>BuildRenderItems\<close> creates when the counter stands at \<open>i\<close>.\<close>

definition block_item ::
  "(nat \<Rightarrow> XMFLOAT4X4) \<Rightarrow> (string \<Rightarrow> MeshGeometry option) \<Rightarrow> nat \<Rightarrow> RitemBlock \<Rightarrow> RenderItem" where
  "block_item P geos i b =
     (let args = DrawArgs (the (geos (block_Geo b))) (block_Submesh b)
      in \<lparr>RenderItem.World = (case block_World b of Some w \<Rightarrow> w | None \<Rightarrow> P i),
          RenderItem.TexTransform = block_TexTransform b,
          RenderItem.NumFramesDirty = int gNumFrameResources,
          ObjCBIndex = i,
          Mat = block_Mat b,
          Geo = block_Geo b,
          PrimitiveType = block_PrimitiveType b,
          RenderItem.IndexCount = SubmeshGeometry.IndexCount args,
          RenderItem.StartIndexLocation = SubmeshGeometry.StartIndexLocation args,
          RenderItem.BaseVertexLocation = SubmeshGeometry.BaseVertexLocation args\<rparr>)"

text \<open>The positions, from \<open>n\<close> on, of the blocks that push to a layer.\<close>

fun layer_positions :: "RenderLayer \<Rightarrow> nat \<Rightarrow> RitemBlock list \<Rightarrow> nat list" where
  "layer_positions layer n [] = []"
| "layer_positions layer n (b # bs) =
     (if block_Layer b = layer then [n] else []) @ layer_positions layer (Suc n) bs"

text \<open>
  The geometries the geometry builders register, by name. Each gets its index buffer and
  its vertex buffer from the builder, except the wave geometry, whose vertex buffer is set
  on every tick.
\<close>

definition geometry_names :: "string list" where
  "geometry_names =
     [''landGeo'', ''waterGeo'', ''boxGeo'', ''grasswallGeo'', ''wedgeGeo'', ''sphereGeo'',
      ''cylinderGeo'', ''coneGeo'', ''pyramidGeo'', ''prismGeo'', ''treeSpritesGeo'', ''diamondGeo'']"

definition geometries_built :: "(string \<Rightarrow> MeshGeometry option) \<Rightarrow> bool" where
  "geometries_built geos \<longleftrightarrow>
     (\<forall>name\<in>set geometry_names.
        \<exists>geo. geos name = Some geo \<and> IndexBufferGPU geo \<noteq> None \<and>
              (name = ''waterGeo'' \<or> VertexBufferGPU geo \<noteq> None))"

subsection \<open>Reading the outcome of a run\<close>

definition slots_selected_in :: "error + App \<Rightarrow> nat list option" where
  "slots_selected_in r = (case r of Inl err \<Rightarrow> None | Inr s \<Rightarrow> Some (selected_slots (log s)))"

subsection \<open>A concrete scene, device and tick\<close>

text \<open>
  A run of the real scene: every geometry builder has registered its geometry, the water is
  still, the device answers every call.
\<close>

definition example_geometry :: MeshGeometry where
  "example_geometry =
     \<lparr>VertexBufferGPU = Some 4096, IndexBufferGPU = Some 8192,
      DrawArgs = (\<lambda>_. \<lparr>SubmeshGeometry.IndexCount = 36,
                        SubmeshGeometry.StartIndexLocation = 0,
                        SubmeshGeometry.BaseVertexLocation = 0\<rparr>)\<rparr>"

definition example_PassConstants :: PassConstants where
  "example_PassConstants =
     \<lparr>View = Identity4x4, InvView = Identity4x4, Proj = Identity4x4, InvProj = Identity4x4,
      ViewProj = Identity4x4, InvViewProj = Identity4x4, EyePosW = (0, 0, 0),
      RenderTargetSize = (0, 0), InvRenderTargetSize = (0, 0), NearZ = 0, FarZ = 0,
      TotalTime = 0, DeltaTime = 0, AmbientLight = (0, 0, 0, 1), FogColor = (0.7, 0.7, 0.7, 1),
      Lights = replicate 16 \<lparr>Strength = (0.5, 0.5, 0.5), Direction = (0, - 1, 0), Position = (0, 0, 0)\<rparr>\<rparr>"

definition example_scene :: SceneData where
  "example_scene =
     \<lparr>geometries = (\<lambda>name. if name = ''waterGeo'' then Some (example_geometry\<lparr>VertexBufferGPU := None\<rparr>)
                           else if name \<in> set geometry_names then Some example_geometry
                           else None),
      placement = (\<lambda>_. Identity4x4),
      waves_Width = 150,
      waves_Depth = 305,
      waves_Position = (\<lambda>_. (0, 0, 0)),
      waves_Normal = (\<lambda>_. (0, 1, 0)),
      buffer_address = (\<lambda>i kind. 16777216 * (4 * i +
         (case kind of ObjectCBs \<Rightarrow> 1 | MaterialCBs \<Rightarrow> 2 | PassCBs \<Rightarrow> 3 | WavesVBs \<Rightarrow> 4))),
      initial_PassConstants = example_PassConstants\<rparr>"

definition still_water :: WavesImpl where
  "still_water = \<lparr>Disturb = (\<lambda>i j r w. w), Waves_Update = (\<lambda>dt w. w)\<rparr>"

definition example_device :: Device where
  "example_device =
     \<lparr>objCBByteSize = 256, matCBByteSize = 256, mCbvSrvDescriptorSize = 32, SrvHeapStart = 1024\<rparr>"

definition example_tick :: "float \<Rightarrow> TickInput" where
  "example_tick t =
     \<lparr>gt_DeltaTime = 0.1, gt_TotalTime = t, GetCompletedValue = 0,
      SetEventOnCompletion_succeeds = True, WaitForSingleObject_returns = True,
      rand_i = 41, rand_j = 18467, rand_r = 6334,
      cam_View = Identity4x4, cam_Proj = Identity4x4, cam_ViewProj = Identity4x4,
      cam_InvView = Identity4x4, cam_InvProj = Identity4x4, cam_InvViewProj = Identity4x4,
      cam_Position3f = (0, 40, - 100), mClientWidth = 800, mClientHeight = 600,
      cmdListAlloc_Reset_succeeds = True, mCommandList_Reset_succeeds = True,
      mCommandList_Close_succeeds = True, Present_succeeds = True\<rparr>"

subsection \<open>What start-up fixes for the whole run\<close>

text \<open>
  The indices, materials and geometries of the render items, the keys and indices of the
  materials, the buffers of the frame resources, and the layers.
\<close>

definition layout ::
  "App \<Rightarrow> (nat \<times> string \<times> string) list \<times> (string \<times> nat \<times> nat) list \<times>
          ((nat \<times> nat) \<times> (nat \<times> nat) \<times> (nat \<times> nat) \<times> (nat \<times> nat)) list \<times>
          (RenderLayer \<Rightarrow> nat list) \<times> nat option" where
  "layout s =
     (map (\<lambda>e. (ObjCBIndex e, Mat e, Geo e)) (mAllRitems s),
      map (\<lambda>nm. (fst nm, MatCBIndex (snd nm), DiffuseSrvHeapIndex (snd nm))) (mMaterials s),
      map capacities (mFrameResources s),
      mRitemLayer s,
      mWavesRitem s)"

text \<open>
  The monitor agrees with a state between two ticks when it has the state's current slot,
  holds for every slot the fence the state has recorded for it, and its gate is closed.
\<close>

definition agrees :: "Monitor \<Rightarrow> App \<Rightarrow> bool" where
  "agrees mon s \<longleftrightarrow>
     selected mon = mCurrFrameResource s \<and>
     \<not> gate_open mon \<and>
     (\<forall>k < length (mFrameResources s). recorded_fence mon k = Fence (mFrameResources s ! k))"

text \<open>A log in which a slot is selected and written with no fence check between.\<close>

definition unfenced_log :: "event list" where
  "unfenced_log =
     [SelectSlot 1,
      WriteObjectCB 1 0 \<lparr>ObjectConstants.World = Identity4x4, ObjectConstants.TexTransform = Identity4x4\<rparr>]"

text \<open>
  A log in which slot 1 is submitted with fence 4 and written again although the device
  has completed only fence 3 and nobody waited.
\<close>

definition early_log :: "event list" where
  "early_log =
     [SelectSlot 1, FenceCheck 1 0 0,
      WriteObjectCB 1 0 \<lparr>ObjectConstants.World = Identity4x4, ObjectConstants.TexTransform = Identity4x4\<rparr>,
      Signal 4,
      SelectSlot 1, FenceCheck 1 4 3,
      WriteObjectCB 1 0 \<lparr>ObjectConstants.World = Identity4x4, ObjectConstants.TexTransform = Identity4x4\<rparr>]"

subsection \<open>The disturbances a run makes\<close>

text \<open>The number of \<open>Disturb\<close> calls of a run.\<close>

definition disturbances_in :: "error + App \<Rightarrow> nat option" where
  "disturbances_in r = (case r of Inl err \<Rightarrow> None | Inr s \<Rightarrow> Some (length (disturb_calls (log s))))"

text \<open>
  A session that ticks once every quarter second: tick number \<open>k\<close>, counted from 1, reads
  a total time of \<open>k / 4\<close> seconds. After \<open>2^24\<close> such ticks the timer reads
  \<open>2^22 = 4194304\<close> seconds; the next float above is \<open>4194304.5\<close>.
\<close>

definition quarter_second_ticks :: "nat \<Rightarrow> TickInput list" where
  "quarter_second_ticks n = map example_tick (map (\<lambda>k. real k / 4) [1 ..< Suc n])"

definition late_tick :: TickInput where
  "late_tick = example_tick 4194304.5"


subsection \<open>The water material over a run\<close>

text \<open>
  The water material after a sequence of ticks, and the writes of its constant record that
  the ticks make when the current slot index stands at \<open>c\<close>: every tick first re-arms and
  scrolls the material, then writes it into the slot of the tick and decrements its counter.
\<close>

fun water_after :: "TickInput list \<Rightarrow> Material \<Rightarrow> Material" where
  "water_after [] m = m"
| "water_after (gt # gts) m = water_after gts (mat_tick (water_rearm gt m))"

fun water_writes :: "nat \<Rightarrow> TickInput list \<Rightarrow> Material \<Rightarrow> (nat \<times> MaterialConstants) list" where
  "water_writes c [] m = []"
| "water_writes c (gt # gts) m =
     ((c + 1) mod gNumFrameResources, matConstants_of (water_rearm gt m))
       # water_writes ((c + 1) mod gNumFrameResources) gts (mat_tick (water_rearm gt m))"

section \<open>The loops\<close>

lemma CopyData_Inr:
  "CopyData kind (int i) d ub = Inr ub' \<longleftrightarrow>
     i < length (mMappedData ub) \<and> ub' = ub\<lparr>mMappedData := (mMappedData ub)[i := Some d]\<rparr>"
  by (auto simp: CopyData_def)

lemma CopyData_Inl:
  "CopyData kind (int i) d ub = Inl err \<longleftrightarrow> \<not> i < length (mMappedData ub) \<and> err = OutOfBounds kind"
  by (auto simp: CopyData_def)

lemma UpdateObjectCBs_loop_Inr:
  "UpdateObjectCBs_loop k es cb = Inr (es', cb', evs) \<Longrightarrow>
     es' = map ritem_tick es \<and>
     evs = map (obj_write k) (filter ritem_dirty es) \<and>
     Resource cb' = Resource cb \<and>
     length (mMappedData cb') = length (mMappedData cb) \<and>
     (\<forall>e\<in>set es. ritem_dirty e \<longrightarrow> ObjCBIndex e < length (mMappedData cb))"
proof (induction es arbitrary: cb es' cb' evs)
  case Nil
  then show ?case by simp
next
  case (Cons e es)
  show ?case
  proof (cases "ritem_dirty e")
    case True
    with Cons.prems obtain cb1 es1 evs1 where
      c: "CopyData ObjectCBs (int (ObjCBIndex e)) (objConstants_of e) cb = Inr cb1" and
      r: "UpdateObjectCBs_loop k es cb1 = Inr (es1, cb', evs1)" and
      e: "es' = e\<lparr>RenderItem.NumFramesDirty := RenderItem.NumFramesDirty e - 1\<rparr> # es1"
         "evs = WriteObjectCB k (ObjCBIndex e) (objConstants_of e) # evs1"
      by (auto simp: ritem_dirty_def split: sum.splits)
    from c have b: "ObjCBIndex e < length (mMappedData cb)" "Resource cb1 = Resource cb"
      "length (mMappedData cb1) = length (mMappedData cb)"
      by (auto simp: CopyData_Inr)
    from Cons.IH[OF r] True e b show ?thesis
      by (simp add: ritem_tick_def obj_write_def)
  next
    case False
    with Cons.prems obtain es1 evs1 where
      r: "UpdateObjectCBs_loop k es cb = Inr (es1, cb', evs1)" and
      e: "es' = e # es1" "evs = evs1"
      by (auto simp: ritem_dirty_def split: sum.splits)
    from Cons.IH[OF r] False e show ?thesis
      by (simp add: ritem_tick_def)
  qed
qed

lemma UpdateObjectCBs_loop_Inl:
  "UpdateObjectCBs_loop k es cb = Inl err \<Longrightarrow> err = OutOfBounds ObjectCBs"
proof (induction es arbitrary: cb)
  case Nil
  then show ?case by simp
next
  case (Cons e es)
  then show ?case
    by (auto simp: CopyData_def split: if_splits sum.splits)
qed

lemma UpdateObjectCBs_loop_succeeds:
  "(\<forall>e\<in>set es. ritem_dirty e \<longrightarrow> ObjCBIndex e < length (mMappedData cb)) \<Longrightarrow>
   \<exists>r. UpdateObjectCBs_loop k es cb = Inr r"
proof (induction es arbitrary: cb)
  case Nil
  then show ?case by simp
next
  case (Cons e es)
  show ?case
  proof (cases "ritem_dirty e")
    case True
    with Cons.prems have b: "ObjCBIndex e < length (mMappedData cb)" by simp
    then obtain cb1 where c: "CopyData ObjectCBs (int (ObjCBIndex e)) (objConstants_of e) cb = Inr cb1"
      and l: "length (mMappedData cb1) = length (mMappedData cb)"
      by (auto simp: CopyData_def)
    from Cons.prems l have "\<forall>e\<in>set es. ritem_dirty e \<longrightarrow> ObjCBIndex e < length (mMappedData cb1)"
      by simp
    from Cons.IH[OF this] obtain r where "UpdateObjectCBs_loop k es cb1 = Inr r" by blast
    with True c show ?thesis by (cases r) (auto simp: ritem_dirty_def)
  next
    case False
    from Cons.prems have "\<forall>e\<in>set es. ritem_dirty e \<longrightarrow> ObjCBIndex e < length (mMappedData cb)"
      by simp
    from Cons.IH[OF this] obtain r where "UpdateObjectCBs_loop k es cb = Inr r" by blast
    with False show ?thesis by (cases r) (auto simp: ritem_dirty_def)
  qed
qed


lemma UpdateMaterialCBs_loop_Inr:
  "UpdateMaterialCBs_loop k ms cb = Inr (ms', cb', evs) \<Longrightarrow>
     ms' = map (\<lambda>(name, m). (name, mat_tick m)) ms \<and>
     evs = map (mat_write k) (filter mat_dirty (map snd ms)) \<and>
     Resource cb' = Resource cb \<and>
     length (mMappedData cb') = length (mMappedData cb) \<and>
     (\<forall>m\<in>snd ` set ms. mat_dirty m \<longrightarrow> MatCBIndex m < length (mMappedData cb))"
proof (induction ms arbitrary: cb ms' cb' evs)
  case Nil
  then show ?case by simp
next
  case (Cons nm ms)
  obtain name m where nm: "nm = (name, m)" by (cases nm)
  show ?case
  proof (cases "mat_dirty m")
    case True
    with Cons.prems nm obtain cb1 ms1 evs1 where
      c: "CopyData MaterialCBs (int (MatCBIndex m)) (matConstants_of m) cb = Inr cb1" and
      r: "UpdateMaterialCBs_loop k ms cb1 = Inr (ms1, cb', evs1)" and
      e: "ms' = (name, m\<lparr>Material.NumFramesDirty := Material.NumFramesDirty m - 1\<rparr>) # ms1"
         "evs = WriteMaterialCB k (MatCBIndex m) (matConstants_of m) # evs1"
      by (auto simp: mat_dirty_def split: sum.splits)
    from c have b: "MatCBIndex m < length (mMappedData cb)" "Resource cb1 = Resource cb"
      "length (mMappedData cb1) = length (mMappedData cb)"
      by (auto simp: CopyData_Inr)
    from Cons.IH[OF r] True e b nm show ?thesis
      by (simp add: mat_tick_def mat_write_def)
  next
    case False
    with Cons.prems nm obtain ms1 evs1 where
      r: "UpdateMaterialCBs_loop k ms cb = Inr (ms1, cb', evs1)" and
      e: "ms' = (name, m) # ms1" "evs = evs1"
      by (auto simp: mat_dirty_def split: sum.splits)
    from Cons.IH[OF r] False e nm show ?thesis
      by (simp add: mat_tick_def)
  qed
qed

lemma UpdateMaterialCBs_loop_Inl:
  "UpdateMaterialCBs_loop k ms cb = Inl err \<Longrightarrow> err = OutOfBounds MaterialCBs"
proof (induction ms arbitrary: cb)
  case Nil
  then show ?case by simp
next
  case (Cons nm ms)
  then show ?case
    by (cases nm) (auto simp: CopyData_def split: if_splits sum.splits)
qed

lemma UpdateMaterialCBs_loop_succeeds:
  "(\<forall>m\<in>snd ` set ms. mat_dirty m \<longrightarrow> MatCBIndex m < length (mMappedData cb)) \<Longrightarrow>
   \<exists>r. UpdateMaterialCBs_loop k ms cb = Inr r"
proof (induction ms arbitrary: cb)
  case Nil
  then show ?case by simp
next
  case (Cons nm ms)
  obtain name m where nm: "nm = (name, m)" by (cases nm)
  show ?case
  proof (cases "mat_dirty m")
    case True
    with Cons.prems nm have b: "MatCBIndex m < length (mMappedData cb)" by simp
    then obtain cb1 where c: "CopyData MaterialCBs (int (MatCBIndex m)) (matConstants_of m) cb = Inr cb1"
      and l: "length (mMappedData cb1) = length (mMappedData cb)"
      by (auto simp: CopyData_def)
    from Cons.prems l have "\<forall>m\<in>snd ` set ms. mat_dirty m \<longrightarrow> MatCBIndex m < length (mMappedData cb1)"
      by simp
    from Cons.IH[OF this] obtain r where "UpdateMaterialCBs_loop k ms cb1 = Inr r" by blast
    with True c nm show ?thesis by (cases r) (auto simp: mat_dirty_def)
  next
    case False
    from Cons.prems have "\<forall>m\<in>snd ` set ms. mat_dirty m \<longrightarrow> MatCBIndex m < length (mMappedData cb)"
      by simp
    from Cons.IH[OF this] obtain r where "UpdateMaterialCBs_loop k ms cb = Inr r" by blast
    with False nm show ?thesis by (cases r) (auto simp: mat_dirty_def)
  qed
qed

lemma UpdateMaterialCBs_loop_data:
  "UpdateMaterialCBs_loop k ms cb = Inr (ms', cb', evs) \<Longrightarrow>
   distinct (map MatCBIndex (map snd ms)) \<Longrightarrow>
   mMappedData cb' ! i =
     (case find (\<lambda>m. MatCBIndex m = i) (map snd ms) of
        Some m \<Rightarrow> if mat_dirty m then Some (matConstants_of m) else mMappedData cb ! i
      | None \<Rightarrow> mMappedData cb ! i)"
proof (induction ms arbitrary: cb ms' cb' evs)
  case Nil
  then show ?case by simp
next
  case (Cons nm ms)
  obtain name m where nm: "nm = (name, m)" by (cases nm)
  from Cons.prems(2) nm have d: "distinct (map MatCBIndex (map snd ms))"
    and n: "MatCBIndex m \<notin> MatCBIndex ` snd ` set ms"
    by auto
  have f: "i = MatCBIndex m \<Longrightarrow> find (\<lambda>m. MatCBIndex m = i) (map snd ms) = None"
    using n by (force simp: find_None_iff image_iff)
  show ?case
  proof (cases "mat_dirty m")
    case True
    with Cons.prems nm obtain cb1 ms1 evs1 where
      c: "CopyData MaterialCBs (int (MatCBIndex m)) (matConstants_of m) cb = Inr cb1" and
      r: "UpdateMaterialCBs_loop k ms cb1 = Inr (ms1, cb', evs1)"
      by (auto simp: mat_dirty_def split: sum.splits)
    from c have b: "MatCBIndex m < length (mMappedData cb)"
      "mMappedData cb1 = (mMappedData cb)[MatCBIndex m := Some (matConstants_of m)]"
      by (auto simp: CopyData_Inr)
    from Cons.IH[OF r d] True b f nm show ?thesis
      by (auto split: option.splits)
  next
    case False
    with Cons.prems nm obtain ms1 evs1 where
      r: "UpdateMaterialCBs_loop k ms cb = Inr (ms1, cb', evs1)"
      by (auto simp: mat_dirty_def split: sum.splits)
    from Cons.IH[OF r d] False f nm show ?thesis
      by (auto split: option.splits)
  qed
qed

lemma UpdateWaves_loop_Inr:
  "UpdateWaves_loop k w ns vb = Inr (vb', evs) \<Longrightarrow>
     evs = map (wave_write k w) ns \<and>
     Resource vb' = Resource vb \<and>
     length (mMappedData vb') = length (mMappedData vb) \<and>
     (\<forall>i\<in>set ns. i < length (mMappedData vb) \<and> mMappedData vb' ! i = Some (wave_vertex w i)) \<and>
     (\<forall>i. i \<notin> set ns \<longrightarrow> mMappedData vb' ! i = mMappedData vb ! i)"
proof (induction ns arbitrary: vb vb' evs)
  case Nil
  then show ?case by simp
next
  case (Cons n ns)
  from Cons.prems obtain vb1 evs1 where
    c: "CopyData WavesVBs (int n) (wave_vertex w n) vb = Inr vb1" and
    r: "UpdateWaves_loop k w ns vb1 = Inr (vb', evs1)" and
    e: "evs = WriteWavesVB k n (wave_vertex w n) # evs1"
    by (auto split: sum.splits)
  from c have b: "n < length (mMappedData vb)" "Resource vb1 = Resource vb"
    "mMappedData vb1 = (mMappedData vb)[n := Some (wave_vertex w n)]"
    by (auto simp: CopyData_Inr)
  from Cons.IH[OF r] have ih:
    "evs1 = map (wave_write k w) ns" "Resource vb' = Resource vb1"
    "length (mMappedData vb') = length (mMappedData vb1)"
    "\<forall>i\<in>set ns. i < length (mMappedData vb1) \<and> mMappedData vb' ! i = Some (wave_vertex w i)"
    "\<forall>i. i \<notin> set ns \<longrightarrow> mMappedData vb' ! i = mMappedData vb1 ! i"
    by auto
  have "mMappedData vb' ! n = Some (wave_vertex w n)"
  proof (cases "n \<in> set ns")
    case True
    with ih(4) show ?thesis by blast
  next
    case False
    with ih(5) b show ?thesis by simp
  qed
  moreover have "\<forall>i. i \<notin> set (n # ns) \<longrightarrow> mMappedData vb' ! i = mMappedData vb ! i"
    using ih(5) b by auto
  ultimately show ?case
    using ih b e by (auto simp: wave_write_def)
qed

lemma UpdateWaves_loop_Inl:
  "UpdateWaves_loop k w ns vb = Inl err \<Longrightarrow> err = OutOfBounds WavesVBs"
proof (induction ns arbitrary: vb)
  case Nil
  then show ?case by simp
next
  case (Cons n ns)
  then show ?case
    by (auto simp: CopyData_def split: if_splits sum.splits)
qed

lemma UpdateWaves_loop_succeeds:
  "(\<forall>i\<in>set ns. i < length (mMappedData vb)) \<Longrightarrow> \<exists>r. UpdateWaves_loop k w ns vb = Inr r"
proof (induction ns arbitrary: vb)
  case Nil
  then show ?case by simp
next
  case (Cons n ns)
  from Cons.prems have b: "n < length (mMappedData vb)" by simp
  then obtain vb1 where c: "CopyData WavesVBs (int n) (wave_vertex w n) vb = Inr vb1"
    and l: "length (mMappedData vb1) = length (mMappedData vb)"
    by (auto simp: CopyData_def)
  from Cons.prems l have "\<forall>i\<in>set ns. i < length (mMappedData vb1)" by simp
  from Cons.IH[OF this] obtain r where "UpdateWaves_loop k w ns vb1 = Inr r" by blast
  with c show ?case by (cases r) auto
qed

section \<open>The steps of Update\<close>

lemma AList_update_distinct:
  "distinct (map fst al) \<Longrightarrow> map_of al k = Some v0 \<Longrightarrow>
   AList.update k v al = map (\<lambda>(k', v'). if k' = k then (k', v) else (k', v')) al"
proof (induction al)
  case Nil
  then show ?case by simp
next
  case (Cons a al)
  obtain k1 v1 where a: "a = (k1, v1)" by (cases a)
  show ?case
  proof (cases "k1 = k")
    case True
    with Cons.prems a have "k \<notin> fst ` set al" by auto
    then have "map (\<lambda>(k', v'). if k' = k then (k', v) else (k', v')) al = al"
      by (induction al) auto
    with True a show ?thesis by simp
  next
    case False
    with Cons a show ?thesis by simp
  qed
qed

lemma AnimateMaterials_Inr:
  assumes "AnimateMaterials gt s = Inr s'"
  shows "\<exists>waterMat. map_of (mMaterials s) ''water'' = Some waterMat \<and>
           s' = s\<lparr>mMaterials := AList.update ''water''
                   (waterMat\<lparr>Material.MatTransform :=
                               scroll_water (gt_DeltaTime gt) (Material.MatTransform waterMat),
                             Material.NumFramesDirty := int gNumFrameResources\<rparr>)
                   (mMaterials s)\<rparr>"
  using assms by (auto simp: AnimateMaterials_def split: option.splits)

lemma AnimateMaterials_succeeds:
  "map_of (mMaterials s) ''water'' \<noteq> None \<Longrightarrow> \<exists>s'. AnimateMaterials gt s = Inr s'"
  by (auto simp: AnimateMaterials_def split: option.splits)

lemma AnimateMaterials_Inl:
  "AnimateMaterials gt s = Inl err \<Longrightarrow> err = InvalidPointer"
  by (auto simp: AnimateMaterials_def split: option.splits)

lemma UpdateObjectCBs_Inr:
  assumes "UpdateObjectCBs s = Inr s'"
  shows "\<exists>k cb'. mCurrFrameResource s = Some k \<and> k < length (mFrameResources s) \<and>
           UpdateObjectCBs_loop k (mAllRitems s) (ObjectCB (mFrameResources s ! k)) =
             Inr (map ritem_tick (mAllRitems s), cb',
                  map (obj_write k) (filter ritem_dirty (mAllRitems s))) \<and>
           s' = s\<lparr>mAllRitems := map ritem_tick (mAllRitems s),
                  mFrameResources := (mFrameResources s)
                    [k := (mFrameResources s ! k)\<lparr>ObjectCB := cb'\<rparr>],
                  log := log s @ map (obj_write k) (filter ritem_dirty (mAllRitems s))\<rparr>"
proof -
  from assms obtain k where k: "mCurrFrameResource s = Some k" "k < length (mFrameResources s)"
    by (auto simp: UpdateObjectCBs_def split: option.splits if_splits)
  with assms obtain es' cb' evs where
    l: "UpdateObjectCBs_loop k (mAllRitems s) (ObjectCB (mFrameResources s ! k)) = Inr (es', cb', evs)"
    and s': "s' = s\<lparr>mAllRitems := es',
                    mFrameResources := (mFrameResources s)[k := (mFrameResources s ! k)\<lparr>ObjectCB := cb'\<rparr>],
                    log := log s @ evs\<rparr>"
    by (auto simp: UpdateObjectCBs_def Let_def split: sum.splits)
  from UpdateObjectCBs_loop_Inr[OF l] l s' k show ?thesis by auto
qed

lemma UpdateObjectCBs_Inl:
  "UpdateObjectCBs s = Inl err \<Longrightarrow> err = InvalidPointer \<or> err = OutOfBounds ObjectCBs"
  by (auto simp: UpdateObjectCBs_def Let_def split: option.splits if_splits sum.splits
           dest: UpdateObjectCBs_loop_Inl)

lemma UpdateMaterialCBs_Inr:
  assumes "UpdateMaterialCBs s = Inr s'"
  shows "\<exists>k cb'. mCurrFrameResource s = Some k \<and> k < length (mFrameResources s) \<and>
           UpdateMaterialCBs_loop k (mMaterials s) (MaterialCB (mFrameResources s ! k)) =
             Inr (map (\<lambda>(name, m). (name, mat_tick m)) (mMaterials s), cb',
                  map (mat_write k) (filter mat_dirty (map snd (mMaterials s)))) \<and>
           s' = s\<lparr>mMaterials := map (\<lambda>(name, m). (name, mat_tick m)) (mMaterials s),
                  mFrameResources := (mFrameResources s)
                    [k := (mFrameResources s ! k)\<lparr>MaterialCB := cb'\<rparr>],
                  log := log s @ map (mat_write k) (filter mat_dirty (map snd (mMaterials s)))\<rparr>"
proof -
  from assms obtain k where k: "mCurrFrameResource s = Some k" "k < length (mFrameResources s)"
    by (auto simp: UpdateMaterialCBs_def split: option.splits if_splits)
  with assms obtain es' cb' evs where
    l: "UpdateMaterialCBs_loop k (mMaterials s) (MaterialCB (mFrameResources s ! k)) = Inr (es', cb', evs)"
    and s': "s' = s\<lparr>mMaterials := es',
                    mFrameResources := (mFrameResources s)[k := (mFrameResources s ! k)\<lparr>MaterialCB := cb'\<rparr>],
                    log := log s @ evs\<rparr>"
    by (auto simp: UpdateMaterialCBs_def Let_def split: sum.splits)
  from UpdateMaterialCBs_loop_Inr[OF l] l s' k show ?thesis by auto
qed

lemma UpdateMaterialCBs_Inl:
  "UpdateMaterialCBs s = Inl err \<Longrightarrow> err = InvalidPointer \<or> err = OutOfBounds MaterialCBs"
  by (auto simp: UpdateMaterialCBs_def Let_def split: option.splits if_splits sum.splits
           dest: UpdateMaterialCBs_loop_Inl)

lemma UpdateMainPassCB_Inr:
  assumes "UpdateMainPassCB gt s = Inr s'"
  shows "\<exists>k. mCurrFrameResource s = Some k \<and> k < length (mFrameResources s) \<and>
           0 < length (mMappedData (PassCB (mFrameResources s ! k))) \<and>
           s' = s\<lparr>mMainPassCB := main_pass_constants gt (mMainPassCB s),
                  mFrameResources := (mFrameResources s)
                    [k := (mFrameResources s ! k)
                       \<lparr>PassCB := (PassCB (mFrameResources s ! k))
                          \<lparr>mMappedData := (mMappedData (PassCB (mFrameResources s ! k)))
                             [0 := Some (main_pass_constants gt (mMainPassCB s))]\<rparr>\<rparr>],
                  log := log s @ [WritePassCB k 0 (main_pass_constants gt (mMainPassCB s))]\<rparr>"
proof -
  from assms obtain k where k: "mCurrFrameResource s = Some k" "k < length (mFrameResources s)"
    by (auto simp: UpdateMainPassCB_def Let_def split: option.splits if_splits)
  with assms show ?thesis
    by (auto simp: UpdateMainPassCB_def Let_def CopyData_def split: sum.splits if_splits)
qed

lemma UpdateMainPassCB_Inl:
  "UpdateMainPassCB gt s = Inl err \<Longrightarrow> err = InvalidPointer \<or> err = OutOfBounds PassCBs"
  by (auto simp: UpdateMainPassCB_def Let_def CopyData_def split: option.splits if_splits sum.splits)

lemma UpdateWaves_Inr:
  assumes "UpdateWaves W gt s = Inr s'"
  shows "\<exists>k vb p geo.
           mCurrFrameResource s = Some k \<and> k < length (mFrameResources s) \<and>
           mWavesRitem s = Some p \<and> p < length (mAllRitems s) \<and>
           mGeometries s (Geo (mAllRitems s ! p)) = Some geo \<and>
           UpdateWaves_loop k (mWaves s') [0 ..< nat (VertexCount (mWaves s'))]
               (WavesVB (mFrameResources s ! k)) =
             Inr (vb, map (wave_write k (mWaves s')) [0 ..< nat (VertexCount (mWaves s'))]) \<and>
           mWaves s' = Waves_Update W (gt_DeltaTime gt) (mWaves (UpdateWaves_disturb W gt s)) \<and>
           s' = (UpdateWaves_disturb W gt s)
                  \<lparr>mWaves := mWaves s',
                   mFrameResources := (mFrameResources s)[k := (mFrameResources s ! k)\<lparr>WavesVB := vb\<rparr>],
                   mGeometries := (mGeometries s)
                     (Geo (mAllRitems s ! p) \<mapsto> geo\<lparr>VertexBufferGPU := Some (Resource vb)\<rparr>),
                   log := log (UpdateWaves_disturb W gt s)
                     @ [WavesUpdateCall (gt_DeltaTime gt)]
                     @ map (wave_write k (mWaves s')) [0 ..< nat (VertexCount (mWaves s'))]
                     @ [RebindWavesVB p (Resource vb)]\<rparr>"
proof -
  define s1 where "s1 = UpdateWaves_disturb W gt s"
  define w where "w = Waves_Update W (gt_DeltaTime gt) (mWaves s1)"
  have same: "mCurrFrameResource s1 = mCurrFrameResource s" "mFrameResources s1 = mFrameResources s"
    "mWavesRitem s1 = mWavesRitem s" "mAllRitems s1 = mAllRitems s" "mGeometries s1 = mGeometries s"
    by (simp_all add: s1_def UpdateWaves_disturb_def Let_def)
  from assms obtain k where k: "mCurrFrameResource s = Some k" "k < length (mFrameResources s)"
    using same by (auto simp: UpdateWaves_def Let_def s1_def[symmetric] split: option.splits if_splits)
  from assms k same obtain vb evs where
    l: "UpdateWaves_loop k w [0 ..< nat (VertexCount w)] (WavesVB (mFrameResources s ! k)) = Inr (vb, evs)"
    by (auto simp: UpdateWaves_def Let_def s1_def[symmetric] w_def[symmetric] split: sum.splits)
  from assms k same l obtain p where p: "mWavesRitem s = Some p" "p < length (mAllRitems s)"
    by (auto simp: UpdateWaves_def Let_def s1_def[symmetric] w_def[symmetric] split: option.splits if_splits)
  from assms k same l p obtain geo where g: "mGeometries s (Geo (mAllRitems s ! p)) = Some geo"
    by (auto simp: UpdateWaves_def Let_def s1_def[symmetric] w_def[symmetric] split: option.splits)
  from assms k same l p g have s': "s' = s1
                  \<lparr>mWaves := w,
                   mFrameResources := (mFrameResources s)[k := (mFrameResources s ! k)\<lparr>WavesVB := vb\<rparr>],
                   mGeometries := (mGeometries s)
                     (Geo (mAllRitems s ! p) \<mapsto> geo\<lparr>VertexBufferGPU := Some (Resource vb)\<rparr>),
                   log := log s1 @ [WavesUpdateCall (gt_DeltaTime gt)] @ evs @ [RebindWavesVB p (Resource vb)]\<rparr>"
    by (auto simp: UpdateWaves_def Let_def s1_def[symmetric] w_def[symmetric])
  then have w': "mWaves s' = w" by simp
  from UpdateWaves_loop_Inr[OF l] have "evs = map (wave_write k w) [0 ..< nat (VertexCount w)]"
    by simp
  with k p g l s' w' show ?thesis
    unfolding s1_def[symmetric] w_def[symmetric] by auto
qed

lemma UpdateWaves_Inl:
  "UpdateWaves W gt s = Inl err \<Longrightarrow> err = InvalidPointer \<or> err = OutOfBounds WavesVBs"
  by (auto simp: UpdateWaves_def Let_def split: option.splits if_splits sum.splits
           dest: UpdateWaves_loop_Inl)

section \<open>Update as a whole\<close>

lemma Update_chain:
  assumes "Update W gt s = Inr s'"
  shows "\<exists>s3 s4 s5 s6 s7 waited.
           (mCurrFrameResourceIndex s + 1) mod gNumFrameResources < length (mFrameResources s) \<and>
           waited = (Fence (mFrameResources s ! ((mCurrFrameResourceIndex s + 1) mod gNumFrameResources)) \<noteq> 0
                     \<and> GetCompletedValue gt
                         < Fence (mFrameResources s ! ((mCurrFrameResourceIndex s + 1) mod gNumFrameResources))) \<and>
           (waited \<longrightarrow> SetEventOnCompletion_succeeds gt \<and> WaitForSingleObject_returns gt) \<and>
           s3 = s\<lparr>mCurrFrameResourceIndex := (mCurrFrameResourceIndex s + 1) mod gNumFrameResources,
                  mCurrFrameResource := Some ((mCurrFrameResourceIndex s + 1) mod gNumFrameResources),
                  log := log s
                    @ [SelectSlot ((mCurrFrameResourceIndex s + 1) mod gNumFrameResources),
                       FenceCheck ((mCurrFrameResourceIndex s + 1) mod gNumFrameResources)
                         (Fence (mFrameResources s ! ((mCurrFrameResourceIndex s + 1) mod gNumFrameResources)))
                         (GetCompletedValue gt)]
                    @ (if waited
                       then [WaitForSingleObject ((mCurrFrameResourceIndex s + 1) mod gNumFrameResources)
                               (Fence (mFrameResources s ! ((mCurrFrameResourceIndex s + 1) mod gNumFrameResources)))]
                       else [])\<rparr> \<and>
           AnimateMaterials gt s3 = Inr s4 \<and>
           UpdateObjectCBs s4 = Inr s5 \<and>
           UpdateMaterialCBs s5 = Inr s6 \<and>
           UpdateMainPassCB gt s6 = Inr s7 \<and>
           UpdateWaves W gt s7 = Inr s'"
  using assms
  by (auto simp: Update_def Let_def split: if_splits sum.splits)

lemma Update_effect:
  assumes upd: "Update W gt s = Inr s'"
  defines "k \<equiv> (mCurrFrameResourceIndex s + 1) mod gNumFrameResources"
  defines "fr \<equiv> mFrameResources s ! k"
  shows "\<exists>wm cbO cbM vb p geo.
     k < length (mFrameResources s) \<and>
     map_of (mMaterials s) ''water'' = Some wm \<and>
     mWavesRitem s = Some p \<and> p < length (mAllRitems s) \<and>
     mGeometries s (Geo (mAllRitems s ! p)) = Some geo \<and>
     UpdateObjectCBs_loop k (mAllRitems s) (ObjectCB fr) =
       Inr (map ritem_tick (mAllRitems s), cbO, map (obj_write k) (filter ritem_dirty (mAllRitems s))) \<and>
     UpdateMaterialCBs_loop k
         (AList.update ''water''
            (wm\<lparr>Material.MatTransform := scroll_water (gt_DeltaTime gt) (Material.MatTransform wm),
                Material.NumFramesDirty := int gNumFrameResources\<rparr>) (mMaterials s))
         (MaterialCB fr) =
       Inr (mMaterials s', cbM,
            map (mat_write k) (filter mat_dirty (map snd
              (AList.update ''water''
                 (wm\<lparr>Material.MatTransform := scroll_water (gt_DeltaTime gt) (Material.MatTransform wm),
                     Material.NumFramesDirty := int gNumFrameResources\<rparr>) (mMaterials s))))) \<and>
     0 < length (mMappedData (PassCB fr)) \<and>
     UpdateWaves_loop k (mWaves s') [0 ..< nat (VertexCount (mWaves s'))] (WavesVB fr) =
       Inr (vb, map (wave_write k (mWaves s')) [0 ..< nat (VertexCount (mWaves s'))]) \<and>
     mCurrFrameResourceIndex s' = k \<and>
     mCurrFrameResource s' = Some k \<and>
     mAllRitems s' = map ritem_tick (mAllRitems s) \<and>
     mMaterials s' = map (\<lambda>(name, m). (name, mat_tick m))
        (AList.update ''water''
           (wm\<lparr>Material.MatTransform := scroll_water (gt_DeltaTime gt) (Material.MatTransform wm),
               Material.NumFramesDirty := int gNumFrameResources\<rparr>) (mMaterials s)) \<and>
     mFrameResources s' = (mFrameResources s)
        [k := fr\<lparr>ObjectCB := cbO, MaterialCB := cbM,
                 PassCB := (PassCB fr)\<lparr>mMappedData := (mMappedData (PassCB fr))
                            [0 := Some (main_pass_constants gt (mMainPassCB s))]\<rparr>,
                 WavesVB := vb\<rparr>] \<and>
     mMainPassCB s' = main_pass_constants gt (mMainPassCB s) \<and>
     mWavesRitem s' = mWavesRitem s \<and>
     mRitemLayer s' = mRitemLayer s \<and>
     mCurrentFence s' = mCurrentFence s \<and>
     mWaves s' = Waves_Update W (gt_DeltaTime gt) (mWaves (UpdateWaves_disturb W gt s)) \<and>
     t_base s' = t_base (UpdateWaves_disturb W gt s) \<and>
     mGeometries s' = (mGeometries s)
        (Geo (mAllRitems s ! p) \<mapsto> geo\<lparr>VertexBufferGPU := Some (Resource (WavesVB fr))\<rparr>) \<and>
     log s' = log s
        @ [SelectSlot k, FenceCheck k (Fence fr) (GetCompletedValue gt)]
        @ (if Fence fr \<noteq> 0 \<and> GetCompletedValue gt < Fence fr
           then [WaitForSingleObject k (Fence fr)] else [])
        @ map (obj_write k) (filter ritem_dirty (mAllRitems s))
        @ map (mat_write k) (filter mat_dirty (map snd
              (AList.update ''water''
                 (wm\<lparr>Material.MatTransform := scroll_water (gt_DeltaTime gt) (Material.MatTransform wm),
                     Material.NumFramesDirty := int gNumFrameResources\<rparr>) (mMaterials s))))
        @ [WritePassCB k 0 (main_pass_constants gt (mMainPassCB s))]
        @ (if binary32 (gt_TotalTime gt - t_base s) \<ge> 0.25
           then [DisturbCall (Rand 4 (RowCount (mWaves s) - 5) (rand_i gt))
                             (Rand 4 (ColumnCount (mWaves s) - 5) (rand_j gt))
                             (RandF (binary32 0.2) 0.5 (rand_r gt))]
           else [])
        @ [WavesUpdateCall (gt_DeltaTime gt)]
        @ map (wave_write k (mWaves s')) [0 ..< nat (VertexCount (mWaves s'))]
        @ [RebindWavesVB p (Resource (WavesVB fr))]"
proof -
  from Update_chain[OF upd] obtain s3 s4 s5 s6 s7 where
    kl: "k < length (mFrameResources s)" and
    s3: "s3 = s\<lparr>mCurrFrameResourceIndex := k,
                mCurrFrameResource := Some k,
                log := log s
                  @ [SelectSlot k, FenceCheck k (Fence fr) (GetCompletedValue gt)]
                  @ (if Fence fr \<noteq> 0 \<and> GetCompletedValue gt < Fence fr
                     then [WaitForSingleObject k (Fence fr)] else [])\<rparr>" and
    a: "AnimateMaterials gt s3 = Inr s4" and
    o: "UpdateObjectCBs s4 = Inr s5" and
    m: "UpdateMaterialCBs s5 = Inr s6" and
    pc: "UpdateMainPassCB gt s6 = Inr s7" and
    w: "UpdateWaves W gt s7 = Inr s'"
    unfolding k_def fr_def by blast
  from AnimateMaterials_Inr[OF a] s3 obtain wm where
    wm: "map_of (mMaterials s) ''water'' = Some wm" and
    s4: "s4 = s3\<lparr>mMaterials := AList.update ''water''
                   (wm\<lparr>Material.MatTransform := scroll_water (gt_DeltaTime gt) (Material.MatTransform wm),
                       Material.NumFramesDirty := int gNumFrameResources\<rparr>) (mMaterials s)\<rparr>"
    by auto
  from UpdateObjectCBs_Inr[OF o] s4 s3 obtain cbO where
    lo: "UpdateObjectCBs_loop k (mAllRitems s) (ObjectCB fr) =
           Inr (map ritem_tick (mAllRitems s), cbO, map (obj_write k) (filter ritem_dirty (mAllRitems s)))" and
    s5: "s5 = s4\<lparr>mAllRitems := map ritem_tick (mAllRitems s),
                  mFrameResources := (mFrameResources s)[k := fr\<lparr>ObjectCB := cbO\<rparr>],
                  log := log s4 @ map (obj_write k) (filter ritem_dirty (mAllRitems s))\<rparr>"
    unfolding fr_def by auto
  from UpdateMaterialCBs_Inr[OF m] s5 s4 s3 kl obtain cbM where
    lm: "UpdateMaterialCBs_loop k (mMaterials s4) (MaterialCB fr) =
           Inr (map (\<lambda>(name, m). (name, mat_tick m)) (mMaterials s4), cbM,
                map (mat_write k) (filter mat_dirty (map snd (mMaterials s4))))" and
    s6: "s6 = s5\<lparr>mMaterials := map (\<lambda>(name, m). (name, mat_tick m)) (mMaterials s4),
                  mFrameResources := (mFrameResources s)[k := fr\<lparr>ObjectCB := cbO, MaterialCB := cbM\<rparr>],
                  log := log s5 @ map (mat_write k) (filter mat_dirty (map snd (mMaterials s4)))\<rparr>"
    unfolding fr_def by auto
  from UpdateMainPassCB_Inr[OF pc] s6 s5 s4 s3 kl have
    pl: "0 < length (mMappedData (PassCB fr))" and
    s7: "s7 = s6\<lparr>mMainPassCB := main_pass_constants gt (mMainPassCB s),
                  mFrameResources := (mFrameResources s)
                    [k := fr\<lparr>ObjectCB := cbO, MaterialCB := cbM,
                             PassCB := (PassCB fr)\<lparr>mMappedData := (mMappedData (PassCB fr))
                               [0 := Some (main_pass_constants gt (mMainPassCB s))]\<rparr>\<rparr>],
                  log := log s6 @ [WritePassCB k 0 (main_pass_constants gt (mMainPassCB s))]\<rparr>"
    unfolding fr_def by auto
  have s7f: "mCurrFrameResource s7 = Some k" "mFrameResources s7 ! k =
        fr\<lparr>ObjectCB := cbO, MaterialCB := cbM,
            PassCB := (PassCB fr)\<lparr>mMappedData := (mMappedData (PassCB fr))
               [0 := Some (main_pass_constants gt (mMainPassCB s))]\<rparr>\<rparr>"
    "mWavesRitem s7 = mWavesRitem s" "mAllRitems s7 = map ritem_tick (mAllRitems s)"
    "mGeometries s7 = mGeometries s" "length (mFrameResources s7) = length (mFrameResources s)"
    "mWaves s7 = mWaves s" "t_base s7 = t_base s"
    using kl by (simp_all add: s7 s6 s5 s4 s3)
  have geo_tick: "\<And>e. Geo (ritem_tick e) = Geo e" by (simp add: ritem_tick_def)
  from UpdateWaves_Inr[OF w] s7f obtain vb p geo where
    p: "mWavesRitem s = Some p" "p < length (mAllRitems s)" and
    g: "mGeometries s (Geo (mAllRitems s ! p)) = Some geo" and
    lw: "UpdateWaves_loop k (mWaves s') [0 ..< nat (VertexCount (mWaves s'))] (WavesVB fr) =
           Inr (vb, map (wave_write k (mWaves s')) [0 ..< nat (VertexCount (mWaves s'))])" and
    w': "mWaves s' = Waves_Update W (gt_DeltaTime gt) (mWaves (UpdateWaves_disturb W gt s7))" and
    s': "s' = (UpdateWaves_disturb W gt s7)
                  \<lparr>mWaves := mWaves s',
                   mFrameResources := (mFrameResources s7)[k := (mFrameResources s7 ! k)\<lparr>WavesVB := vb\<rparr>],
                   mGeometries := (mGeometries s)
                     (Geo (mAllRitems s ! p) \<mapsto> geo\<lparr>VertexBufferGPU := Some (Resource vb)\<rparr>),
                   log := log (UpdateWaves_disturb W gt s7)
                     @ [WavesUpdateCall (gt_DeltaTime gt)]
                     @ map (wave_write k (mWaves s')) [0 ..< nat (VertexCount (mWaves s'))]
                     @ [RebindWavesVB p (Resource vb)]\<rparr>"
    by (auto simp: geo_tick)
  from UpdateWaves_loop_Inr[OF lw] have rvb: "Resource vb = Resource (WavesVB fr)" by simp
  have d: "mWaves (UpdateWaves_disturb W gt s7) = mWaves (UpdateWaves_disturb W gt s)"
    "t_base (UpdateWaves_disturb W gt s7) = t_base (UpdateWaves_disturb W gt s)"
    using s7f by (simp_all add: UpdateWaves_disturb_def Let_def)
  have dl: "log (UpdateWaves_disturb W gt s7) = log s7 @
        (if binary32 (gt_TotalTime gt - t_base s) \<ge> 0.25
           then [DisturbCall (Rand 4 (RowCount (mWaves s) - 5) (rand_i gt))
                             (Rand 4 (ColumnCount (mWaves s) - 5) (rand_j gt))
                             (RandF (binary32 0.2) 0.5 (rand_r gt))]
           else [])"
    using s7f by (simp add: UpdateWaves_disturb_def Let_def)
  have df: "mCurrFrameResourceIndex (UpdateWaves_disturb W gt s7) = k"
    "mCurrFrameResource (UpdateWaves_disturb W gt s7) = Some k"
    "mAllRitems (UpdateWaves_disturb W gt s7) = map ritem_tick (mAllRitems s)"
    "mMaterials (UpdateWaves_disturb W gt s7) = map (\<lambda>(name, m). (name, mat_tick m)) (mMaterials s4)"
    "mMainPassCB (UpdateWaves_disturb W gt s7) = main_pass_constants gt (mMainPassCB s)"
    "mWavesRitem (UpdateWaves_disturb W gt s7) = mWavesRitem s"
    "mRitemLayer (UpdateWaves_disturb W gt s7) = mRitemLayer s"
    "mCurrentFence (UpdateWaves_disturb W gt s7) = mCurrentFence s"
    by (simp_all add: UpdateWaves_disturb_def Let_def s7 s6 s5 s4 s3)
  have m4: "mMaterials s4 = AList.update ''water''
                   (wm\<lparr>Material.MatTransform := scroll_water (gt_DeltaTime gt) (Material.MatTransform wm),
                       Material.NumFramesDirty := int gNumFrameResources\<rparr>) (mMaterials s)"
    by (simp add: s4)
  have l7: "log s7 = log s
        @ [SelectSlot k, FenceCheck k (Fence fr) (GetCompletedValue gt)]
        @ (if Fence fr \<noteq> 0 \<and> GetCompletedValue gt < Fence fr
           then [WaitForSingleObject k (Fence fr)] else [])
        @ map (obj_write k) (filter ritem_dirty (mAllRitems s))
        @ map (mat_write k) (filter mat_dirty (map snd (mMaterials s4)))
        @ [WritePassCB k 0 (main_pass_constants gt (mMainPassCB s))]"
    by (simp add: s7 s6 s5 s4 s3)
  have ms': "mMaterials s' = map (\<lambda>(name, m). (name, mat_tick m)) (mMaterials s4)"
    by (subst s') (simp add: df)
  have fr': "mFrameResources s' = (mFrameResources s)
        [k := fr\<lparr>ObjectCB := cbO, MaterialCB := cbM,
                 PassCB := (PassCB fr)\<lparr>mMappedData := (mMappedData (PassCB fr))
                            [0 := Some (main_pass_constants gt (mMainPassCB s))]\<rparr>,
                 WavesVB := vb\<rparr>]"
    using kl by (subst s') (simp add: s7f s7 s6 s5 s4 s3)
  have lg: "log s' = log s7 @
        (if binary32 (gt_TotalTime gt - t_base s) \<ge> 0.25
           then [DisturbCall (Rand 4 (RowCount (mWaves s) - 5) (rand_i gt))
                             (Rand 4 (ColumnCount (mWaves s) - 5) (rand_j gt))
                             (RandF (binary32 0.2) 0.5 (rand_r gt))]
           else [])
        @ [WavesUpdateCall (gt_DeltaTime gt)]
        @ map (wave_write k (mWaves s')) [0 ..< nat (VertexCount (mWaves s'))]
        @ [RebindWavesVB p (Resource (WavesVB fr))]"
    by (subst s') (simp add: dl rvb)
  have others: "mCurrFrameResourceIndex s' = k" "mCurrFrameResource s' = Some k"
     "mAllRitems s' = map ritem_tick (mAllRitems s)"
     "mMainPassCB s' = main_pass_constants gt (mMainPassCB s)"
     "mWavesRitem s' = mWavesRitem s" "mRitemLayer s' = mRitemLayer s"
     "mCurrentFence s' = mCurrentFence s"
     "t_base s' = t_base (UpdateWaves_disturb W gt s)"
     "mGeometries s' = (mGeometries s)
        (Geo (mAllRitems s ! p) \<mapsto> geo\<lparr>VertexBufferGPU := Some (Resource (WavesVB fr))\<rparr>)"
    by (subst s', simp add: df d rvb)+
  show ?thesis
    apply (rule exI[of _ wm], rule exI[of _ cbO], rule exI[of _ cbM], rule exI[of _ vb],
           rule exI[of _ p], rule exI[of _ geo])
    using kl wm p g lo lm pl lw ms' fr' others w' d lg l7 m4
    by simp
qed

section \<open>Draw and the tick\<close>

lemma Draw_Inr:
  assumes "Draw dev gt s = Inr s'"
  shows "\<exists>k opaque alphaTested treeSprites transparent.
           mCurrFrameResource s = Some k \<and> k < length (mFrameResources s) \<and>
           DrawRenderItems dev s (mRitemLayer s Opaque) = Inr opaque \<and>
           DrawRenderItems dev s (mRitemLayer s AlphaTested) = Inr alphaTested \<and>
           DrawRenderItems dev s (mRitemLayer s AlphaTestedTreeSprites) = Inr treeSprites \<and>
           DrawRenderItems dev s (mRitemLayer s Transparent) = Inr transparent \<and>
           s' = s\<lparr>mCurrentFence := (mCurrentFence s + 1) mod 2 ^ 64,
                  mFrameResources := (mFrameResources s)
                    [k := (mFrameResources s ! k)\<lparr>Fence := (mCurrentFence s + 1) mod 2 ^ 64\<rparr>],
                  log := log s
                    @ [AllocatorReset k, CommandListReset ''opaque'']
                    @ map Record
                        ([RSSetViewports, RSSetScissorRects, ResourceBarrier_PresentToRenderTarget,
                          ClearRenderTargetView (FogColor (mMainPassCB s)), ClearDepthStencilView,
                          OMSetRenderTargets, SetDescriptorHeaps, SetGraphicsRootSignature,
                          SetGraphicsRootConstantBufferView 2 (Resource (PassCB (mFrameResources s ! k)))]
                         @ opaque
                         @ [SetPipelineState ''alphaTested''] @ alphaTested
                         @ [SetPipelineState ''treeSprites''] @ treeSprites
                         @ [SetPipelineState ''transparent''] @ transparent
                         @ [ResourceBarrier_RenderTargetToPresent])
                    @ [CommandListClose, ExecuteCommandLists, Present,
                       Signal ((mCurrentFence s + 1) mod 2 ^ 64)]\<rparr>"
  using assms
  by (auto simp: Draw_def Let_def split: option.splits if_splits sum.splits)

lemma DrawRenderItems_loop_Inl:
  "DrawRenderItems_loop dev s objectCB matCB ps = Inl err \<Longrightarrow> err = InvalidPointer"
proof (induction ps)
  case Nil
  then show ?case by simp
next
  case (Cons p ps)
  then show ?case
    by (auto simp: Let_def split: if_splits option.splits sum.splits)
qed

lemma DrawRenderItems_Inl:
  "DrawRenderItems dev s ps = Inl err \<Longrightarrow> err = InvalidPointer"
  by (auto simp: DrawRenderItems_def split: option.splits if_splits dest: DrawRenderItems_loop_Inl)

lemma Draw_Inl:
  "Draw dev gt s = Inl err \<Longrightarrow> err = InvalidPointer \<or> err = DxException"
  by (auto simp: Draw_def Let_def split: option.splits if_splits sum.splits dest: DrawRenderItems_Inl)

lemma Update_Inl:
  "Update W gt s = Inl err \<Longrightarrow>
     err = InvalidPointer \<or> err = DxException \<or> err = WaitNeverReturns \<or>
     err = OutOfBounds ObjectCBs \<or> err = OutOfBounds MaterialCBs \<or>
     err = OutOfBounds PassCBs \<or> err = OutOfBounds WavesVBs"
  by (auto simp: Update_def Let_def split: if_splits sum.splits
           dest: AnimateMaterials_Inl UpdateObjectCBs_Inl UpdateMaterialCBs_Inl
                 UpdateMainPassCB_Inl UpdateWaves_Inl)

lemma tick_Inr:
  "tick W dev gt s = Inr s'' \<Longrightarrow> \<exists>s'. Update W gt s = Inr s' \<and> Draw dev gt s' = Inr s''"
  by (auto simp: tick_def split: sum.splits)

lemma run_append:
  "run W dev (gts @ gts') s =
     (case run W dev gts s of Inl err \<Rightarrow> Inl err | Inr s' \<Rightarrow> run W dev gts' s')"
  by (induction gts arbitrary: s) (auto split: sum.splits)

lemma selected_slots_simps [simp]:
  "selected_slots [] = []"
  "selected_slots (e # evs) = select_of e @ selected_slots evs"
  "selected_slots (evs @ evs') = selected_slots evs @ selected_slots evs'"
  by (simp_all add: selected_slots_def)

lemma selected_slots_obj [simp]: "selected_slots (map (obj_write k) es) = []"
  by (induction es) (simp_all add: obj_write_def)

lemma selected_slots_mat [simp]: "selected_slots (map (mat_write k) ms) = []"
  by (induction ms) (simp_all add: mat_write_def)

lemma selected_slots_wave [simp]: "selected_slots (map (wave_write k w) ns) = []"
  by (induction ns) (simp_all add: wave_write_def)

lemma selected_slots_Record [simp]: "selected_slots (map Record cs) = []"
  by (induction cs) simp_all

lemma Update_selected_slots:
  "Update W gt s = Inr s' \<Longrightarrow>
     selected_slots (log s') =
       selected_slots (log s) @ [(mCurrFrameResourceIndex s + 1) mod gNumFrameResources]"
  by (drule Update_effect) auto

lemma Draw_selected_slots:
  "Draw dev gt s = Inr s' \<Longrightarrow> selected_slots (log s') = selected_slots (log s)"
  by (drule Draw_Inr) auto

lemma tick_selected_slots:
  assumes "tick W dev gt s = Inr s'"
  shows "selected_slots (log s') =
           selected_slots (log s) @ [(mCurrFrameResourceIndex s + 1) mod gNumFrameResources]"
    and "mCurrFrameResourceIndex s' = (mCurrFrameResourceIndex s + 1) mod gNumFrameResources"
proof -
  from tick_Inr[OF assms] obtain s1 where u: "Update W gt s = Inr s1" and d: "Draw dev gt s1 = Inr s'"
    by blast
  from Update_effect[OF u] have i: "mCurrFrameResourceIndex s1 = (mCurrFrameResourceIndex s + 1) mod gNumFrameResources"
    by auto
  from Draw_Inr[OF d] have "mCurrFrameResourceIndex s' = mCurrFrameResourceIndex s1" by auto
  with i show "mCurrFrameResourceIndex s' = (mCurrFrameResourceIndex s + 1) mod gNumFrameResources"
    by simp
  from Update_selected_slots[OF u] Draw_selected_slots[OF d]
  show "selected_slots (log s') =
           selected_slots (log s) @ [(mCurrFrameResourceIndex s + 1) mod gNumFrameResources]"
    by simp
qed

lemma cyclic_shift:
  "map (\<lambda>i. (a + 1 + i) mod (c::nat)) [0 ..< Suc n] =
     ((a + 1) mod c) # map (\<lambda>i. ((a + 1) mod c + 1 + i) mod c) [0 ..< n]"
proof -
  have "\<And>i. ((a + 1) mod c + 1 + i) mod c = (a + 1 + Suc i) mod c"
    by (metis mod_add_left_eq add.assoc add.commute plus_1_eq_Suc)
  then show ?thesis
    by (simp add: map_upt_Suc del: upt_Suc)
qed

lemma run_selected_slots:
  "run W dev gts s = Inr s' \<Longrightarrow>
     selected_slots (log s') =
       selected_slots (log s) @
       map (\<lambda>i. (mCurrFrameResourceIndex s + 1 + i) mod gNumFrameResources) [0 ..< length gts] \<and>
     mCurrFrameResourceIndex s' mod gNumFrameResources =
       (mCurrFrameResourceIndex s + length gts) mod gNumFrameResources"
proof (induction gts arbitrary: s)
  case Nil
  then show ?case by simp
next
  case (Cons gt gts)
  from Cons.prems obtain s1 where t: "tick W dev gt s = Inr s1" and r: "run W dev gts s1 = Inr s'"
    by (auto split: sum.splits)
  note ts = tick_selected_slots[OF t]
  from Cons.IH[OF r] have
    a: "selected_slots (log s') =
       selected_slots (log s1) @
       map (\<lambda>i. (mCurrFrameResourceIndex s1 + 1 + i) mod gNumFrameResources) [0 ..< length gts]" and
    b: "mCurrFrameResourceIndex s' mod gNumFrameResources =
          (mCurrFrameResourceIndex s1 + length gts) mod gNumFrameResources"
    by simp_all
  have "selected_slots (log s') =
       selected_slots (log s) @
       map (\<lambda>i. (mCurrFrameResourceIndex s + 1 + i) mod gNumFrameResources) [0 ..< Suc (length gts)]"
    unfolding cyclic_shift using a ts by simp
  moreover have "mCurrFrameResourceIndex s' mod gNumFrameResources =
       (mCurrFrameResourceIndex s + Suc (length gts)) mod gNumFrameResources"
    using b ts(2) by (simp add: mod_simps)
  ultimately show ?case by simp
qed

section \<open>Ticks of a well-formed state succeed\<close>

lemma UpdateWaves_disturb_fields:
  "mCurrFrameResource (UpdateWaves_disturb W gt s) = mCurrFrameResource s"
  "mCurrFrameResourceIndex (UpdateWaves_disturb W gt s) = mCurrFrameResourceIndex s"
  "mFrameResources (UpdateWaves_disturb W gt s) = mFrameResources s"
  "mWavesRitem (UpdateWaves_disturb W gt s) = mWavesRitem s"
  "mAllRitems (UpdateWaves_disturb W gt s) = mAllRitems s"
  "mGeometries (UpdateWaves_disturb W gt s) = mGeometries s"
  "mMaterials (UpdateWaves_disturb W gt s) = mMaterials s"
  "mRitemLayer (UpdateWaves_disturb W gt s) = mRitemLayer s"
  "mCurrentFence (UpdateWaves_disturb W gt s) = mCurrentFence s"
  "mMainPassCB (UpdateWaves_disturb W gt s) = mMainPassCB s"
  by (simp_all add: UpdateWaves_disturb_def Let_def)

lemma never_resized_disturb:
  "never_resized W \<Longrightarrow>
     RowCount (mWaves (UpdateWaves_disturb W gt s)) = RowCount (mWaves s) \<and>
     ColumnCount (mWaves (UpdateWaves_disturb W gt s)) = ColumnCount (mWaves s) \<and>
     VertexCount (mWaves (UpdateWaves_disturb W gt s)) = VertexCount (mWaves s)"
  by (simp add: UpdateWaves_disturb_def Let_def never_resized_def)

lemma UpdateObjectCBs_succeeds:
  assumes "mCurrFrameResource s = Some k" "k < length (mFrameResources s)"
    "\<forall>e\<in>set (mAllRitems s). ObjCBIndex e < length (mMappedData (ObjectCB (mFrameResources s ! k)))"
  shows "\<exists>s'. UpdateObjectCBs s = Inr s'"
proof -
  from assms(3) have "\<forall>e\<in>set (mAllRitems s). ritem_dirty e \<longrightarrow>
      ObjCBIndex e < length (mMappedData (ObjectCB (mFrameResources s ! k)))" by simp
  from UpdateObjectCBs_loop_succeeds[OF this, of k] obtain r where
    "UpdateObjectCBs_loop k (mAllRitems s) (ObjectCB (mFrameResources s ! k)) = Inr r" by blast
  with assms(1,2) show ?thesis
    by (cases r) (simp add: UpdateObjectCBs_def Let_def)
qed

lemma UpdateMaterialCBs_succeeds:
  assumes "mCurrFrameResource s = Some k" "k < length (mFrameResources s)"
    "\<forall>nm\<in>set (mMaterials s). MatCBIndex (snd nm) < length (mMappedData (MaterialCB (mFrameResources s ! k)))"
  shows "\<exists>s'. UpdateMaterialCBs s = Inr s'"
proof -
  from assms(3) have "\<forall>m\<in>snd ` set (mMaterials s). mat_dirty m \<longrightarrow>
      MatCBIndex m < length (mMappedData (MaterialCB (mFrameResources s ! k)))" by auto
  from UpdateMaterialCBs_loop_succeeds[OF this, of k] obtain r where
    "UpdateMaterialCBs_loop k (mMaterials s) (MaterialCB (mFrameResources s ! k)) = Inr r" by blast
  with assms(1,2) show ?thesis
    by (cases r) (simp add: UpdateMaterialCBs_def Let_def)
qed

lemma UpdateMainPassCB_succeeds:
  assumes "mCurrFrameResource s = Some k" "k < length (mFrameResources s)"
    "0 < length (mMappedData (PassCB (mFrameResources s ! k)))"
  shows "\<exists>s'. UpdateMainPassCB gt s = Inr s'"
  using assms by (simp add: UpdateMainPassCB_def Let_def CopyData_def)

lemma UpdateWaves_succeeds:
  assumes "mCurrFrameResource s = Some k" "k < length (mFrameResources s)"
    "nat (VertexCount (Waves_Update W (gt_DeltaTime gt) (mWaves (UpdateWaves_disturb W gt s))))
       \<le> length (mMappedData (WavesVB (mFrameResources s ! k)))"
    "mWavesRitem s = Some p" "p < length (mAllRitems s)"
    "mGeometries s (Geo (mAllRitems s ! p)) \<noteq> None"
  shows "\<exists>s'. UpdateWaves W gt s = Inr s'"
proof -
  define w where "w = Waves_Update W (gt_DeltaTime gt) (mWaves (UpdateWaves_disturb W gt s))"
  from assms(3) have "\<forall>i\<in>set [0 ..< nat (VertexCount w)].
      i < length (mMappedData (WavesVB (mFrameResources s ! k)))"
    by (auto simp: w_def)
  from UpdateWaves_loop_succeeds[OF this, of k w] obtain r where
    "UpdateWaves_loop k w [0 ..< nat (VertexCount w)] (WavesVB (mFrameResources s ! k)) = Inr r"
    by blast
  with assms show ?thesis
    by (cases r) (auto simp: UpdateWaves_def Let_def UpdateWaves_disturb_fields w_def)
qed

lemma AList_update_keys:
  "map_of al k \<noteq> None \<Longrightarrow> map fst (AList.update k v al) = map fst al"
  by (induction al) auto

lemma AList_update_set:
  "nm \<in> set (AList.update k v al) \<Longrightarrow> nm \<in> set al \<or> nm = (k, v)"
  by (induction al) (auto split: if_splits)

lemma Update_outcome:
  assumes wf: "well_formed s" and nr: "never_resized W"
  shows "\<exists>s'. Update W gt s =
           (if Fence (mFrameResources s ! ((mCurrFrameResourceIndex s + 1) mod gNumFrameResources)) \<noteq> 0 \<and>
               GetCompletedValue gt
                 < Fence (mFrameResources s ! ((mCurrFrameResourceIndex s + 1) mod gNumFrameResources))
            then (if \<not> SetEventOnCompletion_succeeds gt then Inl DxException
                  else if \<not> WaitForSingleObject_returns gt then Inl WaitNeverReturns
                  else Inr s')
            else Inr s')"
proof -
  define k where "k = (mCurrFrameResourceIndex s + 1) mod gNumFrameResources"
  define fence where "fence = Fence (mFrameResources s ! k)"
  from wf have len: "length (mFrameResources s) = gNumFrameResources"
    and water: "map_of (mMaterials s) ''water'' \<noteq> None"
    unfolding well_formed_def pointers_valid_def by blast+
  have kl: "k < length (mFrameResources s)"
    by (simp add: k_def len gNumFrameResources_def)
  then have frk: "mFrameResources s ! k \<in> set (mFrameResources s)" by simp
  from wf frk have fit:
    "\<forall>e\<in>set (mAllRitems s). ObjCBIndex e < length (mMappedData (ObjectCB (mFrameResources s ! k)))"
    "\<forall>nm\<in>set (mMaterials s). MatCBIndex (snd nm) < length (mMappedData (MaterialCB (mFrameResources s ! k)))"
    "0 < length (mMappedData (PassCB (mFrameResources s ! k)))"
    "nat (VertexCount (mWaves s)) \<le> length (mMappedData (WavesVB (mFrameResources s ! k)))"
    unfolding well_formed_def buffers_fit_def by blast+
  from wf obtain p where p: "mWavesRitem s = Some p" "p < length (mAllRitems s)"
    "mGeometries s (Geo (mAllRitems s ! p)) \<noteq> None"
    unfolding well_formed_def pointers_valid_def by blast
  define s3 where "s3 = s\<lparr>mCurrFrameResourceIndex := k,
                mCurrFrameResource := Some k,
                log := log s
                  @ [SelectSlot k, FenceCheck k fence (GetCompletedValue gt)]
                  @ (if fence \<noteq> 0 \<and> GetCompletedValue gt < fence
                     then [WaitForSingleObject k fence] else [])\<rparr>"
  from water obtain s4 where a: "AnimateMaterials gt s3 = Inr s4"
    using AnimateMaterials_succeeds[of s3 gt] by (auto simp: s3_def)
  from AnimateMaterials_Inr[OF a] obtain wm where
    wm: "map_of (mMaterials s) ''water'' = Some wm" and
    s4: "s4 = s3\<lparr>mMaterials := AList.update ''water'' (water_rearm gt wm) (mMaterials s)\<rparr>"
    by (auto simp: s3_def water_rearm_def)
  have "\<exists>s5. UpdateObjectCBs s4 = Inr s5"
    by (rule UpdateObjectCBs_succeeds[of _ k]) (use kl fit in \<open>simp_all add: s4 s3_def\<close>)
  then obtain s5 where o: "UpdateObjectCBs s4 = Inr s5" by blast
  from UpdateObjectCBs_Inr[OF o] obtain cbO where
    lo: "UpdateObjectCBs_loop k (mAllRitems s) (ObjectCB (mFrameResources s ! k)) =
           Inr (map ritem_tick (mAllRitems s), cbO, map (obj_write k) (filter ritem_dirty (mAllRitems s)))" and
    s5: "s5 = s4\<lparr>mAllRitems := map ritem_tick (mAllRitems s),
                  mFrameResources := (mFrameResources s)[k := (mFrameResources s ! k)\<lparr>ObjectCB := cbO\<rparr>],
                  log := log s4 @ map (obj_write k) (filter ritem_dirty (mAllRitems s))\<rparr>"
    by (auto simp: s4 s3_def)
  have wmi: "map_of (mMaterials s) ''water'' = Some wm \<Longrightarrow> (''water'', wm) \<in> set (mMaterials s)"
    by (rule map_of_SomeD)
  have mfit: "\<forall>nm\<in>set (AList.update ''water'' (water_rearm gt wm) (mMaterials s)).
      MatCBIndex (snd nm) < length (mMappedData (MaterialCB (mFrameResources s ! k)))"
  proof
    fix nm assume "nm \<in> set (AList.update ''water'' (water_rearm gt wm) (mMaterials s))"
    then have "nm \<in> set (mMaterials s) \<or> nm = (''water'', water_rearm gt wm)"
      by (rule AList_update_set)
    then show "MatCBIndex (snd nm) < length (mMappedData (MaterialCB (mFrameResources s ! k)))"
    proof
      assume "nm \<in> set (mMaterials s)"
      with fit(2) show ?thesis by blast
    next
      assume "nm = (''water'', water_rearm gt wm)"
      moreover from fit(2) wmi[OF wm] have
        "MatCBIndex wm < length (mMappedData (MaterialCB (mFrameResources s ! k)))" by force
      ultimately show ?thesis by (simp add: water_rearm_def)
    qed
  qed
  have "\<exists>s6. UpdateMaterialCBs s5 = Inr s6"
    by (rule UpdateMaterialCBs_succeeds[of _ k]) (use kl mfit in \<open>simp_all add: s5 s4 s3_def\<close>)
  then obtain s6 where m: "UpdateMaterialCBs s5 = Inr s6" by blast
  from UpdateMaterialCBs_Inr[OF m] kl obtain cbM where
    s6: "s6 = s5\<lparr>mMaterials := map (\<lambda>(name, m). (name, mat_tick m)) (mMaterials s4),
                  mFrameResources := (mFrameResources s)
                     [k := (mFrameResources s ! k)\<lparr>ObjectCB := cbO, MaterialCB := cbM\<rparr>],
                  log := log s5 @ map (mat_write k) (filter mat_dirty (map snd (mMaterials s4)))\<rparr>"
    by (auto simp: s5 s4 s3_def)
  have "\<exists>s7. UpdateMainPassCB gt s6 = Inr s7"
    by (rule UpdateMainPassCB_succeeds[of _ k]) (use kl fit in \<open>simp_all add: s6 s5 s4 s3_def\<close>)
  then obtain s7 where pc: "UpdateMainPassCB gt s6 = Inr s7" by blast
  from UpdateMainPassCB_Inr[OF pc] kl have
    s7: "mCurrFrameResource s7 = Some k" "length (mFrameResources s7) = length (mFrameResources s)"
      "WavesVB (mFrameResources s7 ! k) = WavesVB (mFrameResources s ! k)"
      "mWavesRitem s7 = mWavesRitem s" "mAllRitems s7 = map ritem_tick (mAllRitems s)"
      "mGeometries s7 = mGeometries s" "mWaves s7 = mWaves s"
    by (auto simp: s6 s5 s4 s3_def)
  have vc: "VertexCount (Waves_Update W (gt_DeltaTime gt) (mWaves (UpdateWaves_disturb W gt s7)))
            = VertexCount (mWaves s)"
    using nr never_resized_disturb[OF nr, of gt s7] s7(7) by (simp add: never_resized_def)
  have "\<exists>s'. UpdateWaves W gt s7 = Inr s'"
    by (rule UpdateWaves_succeeds[of _ k _ _ p])
       (use kl fit p s7 vc in \<open>simp_all add: ritem_tick_def\<close>)
  then obtain s' where w: "UpdateWaves W gt s7 = Inr s'" by blast
  have "Update W gt s =
           (if fence \<noteq> 0 \<and> GetCompletedValue gt < fence
            then (if \<not> SetEventOnCompletion_succeeds gt then Inl DxException
                  else if \<not> WaitForSingleObject_returns gt then Inl WaitNeverReturns
                  else Inr s')
            else Inr s')"
    unfolding Update_def Let_def
    using kl[unfolded k_def] a[unfolded s3_def fence_def k_def] o m pc w
    by (cases "fence \<noteq> 0 \<and> GetCompletedValue gt < fence"; auto simp: fence_def k_def)
  then show ?thesis unfolding fence_def k_def by blast
qed

lemma Update_succeeds:
  assumes wf: "well_formed s" and nr: "never_resized W"
    and ok: "SetEventOnCompletion_succeeds gt" "WaitForSingleObject_returns gt"
  shows "\<exists>s'. Update W gt s = Inr s'"
  using Update_outcome[OF wf nr, of gt] ok by (auto split: if_splits)

lemma Update_fails_only_at_the_gate:
  assumes wf: "well_formed s" and nr: "never_resized W" and f: "Update W gt s = Inl err"
  shows "Fence (mFrameResources s ! ((mCurrFrameResourceIndex s + 1) mod gNumFrameResources)) \<noteq> 0 \<and>
         GetCompletedValue gt
           < Fence (mFrameResources s ! ((mCurrFrameResourceIndex s + 1) mod gNumFrameResources)) \<and>
         (err = DxException \<and> \<not> SetEventOnCompletion_succeeds gt \<or>
          err = WaitNeverReturns \<and> \<not> WaitForSingleObject_returns gt)"
  using Update_outcome[OF wf nr, of gt] f by (auto split: if_splits)

section \<open>What a tick keeps\<close>

lemma ritem_tick_fields [simp]:
  "ObjCBIndex (ritem_tick e) = ObjCBIndex e"
  "Geo (ritem_tick e) = Geo e"
  "Mat (ritem_tick e) = Mat e"
  "PrimitiveType (ritem_tick e) = PrimitiveType e"
  "RenderItem.World (ritem_tick e) = RenderItem.World e"
  "RenderItem.TexTransform (ritem_tick e) = RenderItem.TexTransform e"
  "RenderItem.IndexCount (ritem_tick e) = RenderItem.IndexCount e"
  "RenderItem.StartIndexLocation (ritem_tick e) = RenderItem.StartIndexLocation e"
  "RenderItem.BaseVertexLocation (ritem_tick e) = RenderItem.BaseVertexLocation e"
  by (simp_all add: ritem_tick_def)

lemma mat_tick_fields [simp]:
  "MatCBIndex (mat_tick m) = MatCBIndex m"
  "DiffuseSrvHeapIndex (mat_tick m) = DiffuseSrvHeapIndex m"
  "Material.DiffuseAlbedo (mat_tick m) = Material.DiffuseAlbedo m"
  "Material.FresnelR0 (mat_tick m) = Material.FresnelR0 m"
  "Material.Roughness (mat_tick m) = Material.Roughness m"
  "Material.MatTransform (mat_tick m) = Material.MatTransform m"
  by (simp_all add: mat_tick_def)

lemma water_rearm_fields [simp]:
  "MatCBIndex (water_rearm gt m) = MatCBIndex m"
  "DiffuseSrvHeapIndex (water_rearm gt m) = DiffuseSrvHeapIndex m"
  "Material.NumFramesDirty (water_rearm gt m) = int gNumFrameResources"
  by (simp_all add: water_rearm_def)

lemma mat_step_fields [simp]:
  "fst (mat_step gt nm) = fst nm"
  "MatCBIndex (snd (mat_step gt nm)) = MatCBIndex (snd nm)"
  "DiffuseSrvHeapIndex (snd (mat_step gt nm)) = DiffuseSrvHeapIndex (snd nm)"
  by (simp_all add: mat_step_def)

lemma mat_seen_fields [simp]:
  "MatCBIndex (mat_seen gt nm) = MatCBIndex (snd nm)"
  by (simp add: mat_seen_def)

lemma animate_as_map:
  assumes "distinct (map fst ms)" "map_of ms ''water'' = Some wm"
  shows "AList.update ''water'' (water_rearm gt wm) ms =
           map (\<lambda>nm. (fst nm, mat_seen gt nm)) ms"
proof -
  have "AList.update ''water'' (water_rearm gt wm) ms =
          map (\<lambda>(k', v'). if k' = ''water'' then (k', water_rearm gt wm) else (k', v')) ms"
    by (rule AList_update_distinct[OF assms])
  also have "\<dots> = map (\<lambda>nm. (fst nm, mat_seen gt nm)) ms"
  proof (rule map_cong[OF refl])
    fix nm assume "nm \<in> set ms"
    show "(case nm of (k', v') \<Rightarrow> if k' = ''water'' then (k', water_rearm gt wm) else (k', v')) =
          (fst nm, mat_seen gt nm)"
    proof (cases "fst nm = ''water''")
      case True
      from True have "nm = (''water'', snd nm)"
        by (simp add: prod_eq_iff)
      with \<open>nm \<in> set ms\<close> have "(''water'', snd nm) \<in> set ms"
        by simp
      from map_of_is_SomeI[OF assms(1) this] assms(2) have "snd nm = wm"
        by simp
      with True show ?thesis by (cases nm) (simp add: mat_seen_def)
    next
      case False
      then show ?thesis by (cases nm) (simp add: mat_seen_def)
    qed
  qed
  finally show ?thesis .
qed

lemma Update_materials:
  assumes "Update W gt s = Inr s'" "distinct (map fst (mMaterials s))"
  shows "mMaterials s' = map (mat_step gt) (mMaterials s)"
proof -
  from Update_effect[OF assms(1)] obtain wm where
    wm: "map_of (mMaterials s) ''water'' = Some wm" and
    ms: "mMaterials s' = map (\<lambda>(name, m). (name, mat_tick m))
        (AList.update ''water''
           (wm\<lparr>Material.MatTransform := scroll_water (gt_DeltaTime gt) (Material.MatTransform wm),
               Material.NumFramesDirty := int gNumFrameResources\<rparr>) (mMaterials s))"
    by blast
  have up: "AList.update ''water''
           (wm\<lparr>Material.MatTransform := scroll_water (gt_DeltaTime gt) (Material.MatTransform wm),
               Material.NumFramesDirty := int gNumFrameResources\<rparr>) (mMaterials s) =
           map (\<lambda>nm. (fst nm, mat_seen gt nm)) (mMaterials s)"
    using animate_as_map[OF assms(2) wm, of gt] by (simp add: water_rearm_def)
  show "mMaterials s' = map (mat_step gt) (mMaterials s)"
    unfolding ms up by (simp add: mat_step_def mat_seen_def comp_def)
qed

lemma list_update_same_image:
  "k < length xs \<Longrightarrow> f x = f (xs ! k) \<Longrightarrow> map f (xs[k := x]) = map f xs"
  by (simp add: map_update list_update_same_conv)

lemma Update_capacities:
  assumes "Update W gt s = Inr s'"
  shows "map capacities (mFrameResources s') = map capacities (mFrameResources s)"
    and "map Fence (mFrameResources s') = map Fence (mFrameResources s)"
proof -
  define k where "k = (mCurrFrameResourceIndex s + 1) mod gNumFrameResources"
  define fr where "fr = mFrameResources s ! k"
  from Update_effect[OF assms] obtain cbO cbM vb ms' evO evM where
    kl: "k < length (mFrameResources s)" and
    lo: "UpdateObjectCBs_loop k (mAllRitems s) (ObjectCB fr) = Inr (map ritem_tick (mAllRitems s), cbO, evO)" and
    lm: "\<exists>ms. UpdateMaterialCBs_loop k ms (MaterialCB fr) = Inr (ms', cbM, evM)" and
    lw: "UpdateWaves_loop k (mWaves s') [0 ..< nat (VertexCount (mWaves s'))] (WavesVB fr) =
       Inr (vb, map (wave_write k (mWaves s')) [0 ..< nat (VertexCount (mWaves s'))])" and
    fr': "mFrameResources s' = (mFrameResources s)
        [k := fr\<lparr>ObjectCB := cbO, MaterialCB := cbM,
                 PassCB := (PassCB fr)\<lparr>mMappedData := (mMappedData (PassCB fr))
                            [0 := Some (main_pass_constants gt (mMainPassCB s))]\<rparr>,
                 WavesVB := vb\<rparr>]"
    unfolding k_def fr_def by blast
  from lm obtain ms where lm': "UpdateMaterialCBs_loop k ms (MaterialCB fr) = Inr (ms', cbM, evM)"
    by blast
  from UpdateObjectCBs_loop_Inr[OF lo] UpdateMaterialCBs_loop_Inr[OF lm'] UpdateWaves_loop_Inr[OF lw]
  have c: "capacities (fr\<lparr>ObjectCB := cbO, MaterialCB := cbM,
                 PassCB := (PassCB fr)\<lparr>mMappedData := (mMappedData (PassCB fr))
                            [0 := Some (main_pass_constants gt (mMainPassCB s))]\<rparr>,
                 WavesVB := vb\<rparr>) = capacities fr"
    by (simp add: capacities_def)
  have "fr = mFrameResources s ! k" by (simp add: fr_def)
  with c kl show "map capacities (mFrameResources s') = map capacities (mFrameResources s)"
    unfolding fr' by (simp add: list_update_same_image)
  from kl \<open>fr = mFrameResources s ! k\<close>
  show "map Fence (mFrameResources s') = map Fence (mFrameResources s)"
    unfolding fr' by (simp add: list_update_same_image)
qed

lemma Draw_capacities:
  assumes "Draw dev gt s = Inr s'"
  shows "map capacities (mFrameResources s') = map capacities (mFrameResources s)"
proof -
  from Draw_Inr[OF assms] obtain k where
    k: "k < length (mFrameResources s)" and
    fr': "mFrameResources s' = (mFrameResources s)
            [k := (mFrameResources s ! k)\<lparr>Fence := (mCurrentFence s + 1) mod 2 ^ 64\<rparr>]"
    by auto
  from k show ?thesis
    unfolding fr' by (simp add: list_update_same_image capacities_def)
qed

lemma buffers_fit_cong:
  assumes "map capacities (mFrameResources s') = map capacities (mFrameResources s)"
    "map ObjCBIndex (mAllRitems s') = map ObjCBIndex (mAllRitems s)"
    "map (\<lambda>nm. MatCBIndex (snd nm)) (mMaterials s') = map (\<lambda>nm. MatCBIndex (snd nm)) (mMaterials s)"
    "VertexCount (mWaves s') = VertexCount (mWaves s)"
    "buffers_fit s"
  shows "buffers_fit s'"
proof -
  have o: "ObjCBIndex ` set (mAllRitems s') = ObjCBIndex ` set (mAllRitems s)"
    using arg_cong[OF assms(2), of set] by simp
  have m: "(\<lambda>nm. MatCBIndex (snd nm)) ` set (mMaterials s') = (\<lambda>nm. MatCBIndex (snd nm)) ` set (mMaterials s)"
    using arg_cong[OF assms(3), of set] by simp
  have c: "capacities ` set (mFrameResources s') = capacities ` set (mFrameResources s)"
    using arg_cong[OF assms(1), of set] by simp
  show ?thesis
    unfolding buffers_fit_def
  proof
    fix fr' assume "fr' \<in> set (mFrameResources s')"
    then have "capacities fr' \<in> capacities ` set (mFrameResources s)"
      using c by blast
    then obtain fr where fr: "fr \<in> set (mFrameResources s)" "capacities fr' = capacities fr"
      by blast
    from assms(5) fr(1) have f:
      "\<forall>e\<in>set (mAllRitems s). ObjCBIndex e < length (mMappedData (ObjectCB fr))"
      "\<forall>nm\<in>set (mMaterials s). MatCBIndex (snd nm) < length (mMappedData (MaterialCB fr))"
      "0 < length (mMappedData (PassCB fr))"
      "nat (VertexCount (mWaves s)) \<le> length (mMappedData (WavesVB fr))"
      unfolding buffers_fit_def by blast+
    from fr(2) have l: "length (mMappedData (ObjectCB fr')) = length (mMappedData (ObjectCB fr))"
      "length (mMappedData (MaterialCB fr')) = length (mMappedData (MaterialCB fr))"
      "length (mMappedData (PassCB fr')) = length (mMappedData (PassCB fr))"
      "length (mMappedData (WavesVB fr')) = length (mMappedData (WavesVB fr))"
      by (simp_all add: capacities_def)
    have "\<forall>e\<in>set (mAllRitems s'). ObjCBIndex e < length (mMappedData (ObjectCB fr'))"
    proof
      fix e assume "e \<in> set (mAllRitems s')"
      then have "ObjCBIndex e \<in> ObjCBIndex ` set (mAllRitems s)"
        using o by blast
      then obtain e0 where "e0 \<in> set (mAllRitems s)" "ObjCBIndex e = ObjCBIndex e0"
        by blast
      with f(1) l(1) show "ObjCBIndex e < length (mMappedData (ObjectCB fr'))"
        by simp
    qed
    moreover have "\<forall>nm\<in>set (mMaterials s'). MatCBIndex (snd nm) < length (mMappedData (MaterialCB fr'))"
    proof
      fix nm assume "nm \<in> set (mMaterials s')"
      then have "MatCBIndex (snd nm) \<in> (\<lambda>nm. MatCBIndex (snd nm)) ` set (mMaterials s)"
        using m by blast
      then obtain nm0 where "nm0 \<in> set (mMaterials s)" "MatCBIndex (snd nm) = MatCBIndex (snd nm0)"
        by blast
      with f(2) l(2) show "MatCBIndex (snd nm) < length (mMappedData (MaterialCB fr'))"
        by simp
    qed
    ultimately show
      "(\<forall>e\<in>set (mAllRitems s'). ObjCBIndex e < length (mMappedData (ObjectCB fr'))) \<and>
       (\<forall>nm\<in>set (mMaterials s'). MatCBIndex (snd nm) < length (mMappedData (MaterialCB fr'))) \<and>
       0 < length (mMappedData (PassCB fr')) \<and>
       nat (VertexCount (mWaves s')) \<le> length (mMappedData (WavesVB fr'))"
      using f(3,4) l(3,4) assms(4) by simp
  qed
qed

section \<open>Well-formedness is an invariant of the loop\<close>

lemma map_of_keys_cong:
  "map fst ms' = map fst ms \<Longrightarrow> map_of ms' k \<noteq> None \<longleftrightarrow> map_of ms k \<noteq> None"
proof -
  assume a: "map fst ms' = map fst ms"
  have "fst ` set ms' = fst ` set ms"
    using arg_cong[OF a, of set] by simp
  then show ?thesis
    by (simp add: map_of_eq_None_iff)
qed

lemma Update_pointers_valid:
  assumes u: "Update W gt s = Inr s'" and wf: "well_formed s"
  shows "pointers_valid s' True"
proof -
  from wf have pv: "pointers_valid s False" by (simp add: well_formed_def)
  then have len: "length (mFrameResources s) = gNumFrameResources"
    and dist: "distinct (map fst (mMaterials s))"
    and water: "map_of (mMaterials s) ''water'' \<noteq> None"
    and layers: "\<forall>layer. \<forall>p\<in>set (mRitemLayer s layer). drawable s False p"
    unfolding pointers_valid_def by blast+
  from Update_effect[OF u] obtain p geo where
    p: "mWavesRitem s = Some p" "p < length (mAllRitems s)" and
    g: "mGeometries s (Geo (mAllRitems s ! p)) = Some geo" and
    items: "mAllRitems s' = map ritem_tick (mAllRitems s)" and
    wr: "mWavesRitem s' = mWavesRitem s" and
    ly: "mRitemLayer s' = mRitemLayer s" and
    geos: "mGeometries s' = (mGeometries s)
        (Geo (mAllRitems s ! p) \<mapsto> geo\<lparr>VertexBufferGPU := Some (Resource (WavesVB
           (mFrameResources s ! ((mCurrFrameResourceIndex s + 1) mod gNumFrameResources))))\<rparr>)"
    by blast
  note mats = Update_materials[OF u dist]
  have keys: "map fst (mMaterials s') = map fst (mMaterials s)"
    by (simp add: mats comp_def)
  have len': "length (mFrameResources s') = gNumFrameResources"
    using arg_cong[OF Update_capacities(1)[OF u], of length] len by simp
  have water': "map_of (mMaterials s') ''water'' \<noteq> None"
    using map_of_keys_cong[OF keys] water by blast
  have wave': "\<exists>p. mWavesRitem s' = Some p \<and> p < length (mAllRitems s') \<and>
          mGeometries s' (Geo (mAllRitems s' ! p)) \<noteq> None"
    using p by (intro exI[of _ p]) (simp add: wr items geos)
  have "drawable s' True q" if q: "q \<in> set (mRitemLayer s layer)" for q layer
  proof -
    from layers q have d: "drawable s False q" by blast
    then have ql: "q < length (mAllRitems s)"
      and qm: "map_of (mMaterials s) (Mat (mAllRitems s ! q)) \<noteq> None"
      by (simp_all add: drawable_def)
    from d obtain geoq where gq: "mGeometries s (Geo (mAllRitems s ! q)) = Some geoq"
      "IndexBufferGPU geoq \<noteq> None"
      "VertexBufferGPU geoq \<noteq> None \<or>
         (\<exists>r. mWavesRitem s = Some r \<and> Geo (mAllRitems s ! q) = Geo (mAllRitems s ! r))"
      by (auto simp: drawable_def)
    have qm': "map_of (mMaterials s') (Mat (mAllRitems s' ! q)) \<noteq> None"
      using map_of_keys_cong[OF keys] qm ql by (simp add: items)
    have "\<exists>geo'. mGeometries s' (Geo (mAllRitems s' ! q)) = Some geo' \<and>
            IndexBufferGPU geo' \<noteq> None \<and> VertexBufferGPU geo' \<noteq> None"
    proof (cases "Geo (mAllRitems s ! q) = Geo (mAllRitems s ! p)")
      case True
      with gq g have "geoq = geo" by simp
      with True gq(2) ql show ?thesis by (simp add: items geos)
    next
      case False
      with gq(3) p have "VertexBufferGPU geoq \<noteq> None" by auto
      with False gq ql show ?thesis by (simp add: items geos)
    qed
    with ql qm' show ?thesis
      by (auto simp: drawable_def items)
  qed
  then have "\<forall>layer. \<forall>q\<in>set (mRitemLayer s' layer). drawable s' True q"
    by (simp add: ly)
  with len' keys dist water' wave' show ?thesis
    by (simp add: pointers_valid_def)
qed

lemma Update_buffers_fit:
  assumes u: "Update W gt s = Inr s'" and wf: "well_formed s" and nr: "never_resized W"
  shows "buffers_fit s'"
proof (rule buffers_fit_cong)
  from wf show "buffers_fit s" by (simp add: well_formed_def)
  from wf have dist: "distinct (map fst (mMaterials s))"
    by (simp add: well_formed_def pointers_valid_def)
  show "map capacities (mFrameResources s') = map capacities (mFrameResources s)"
    by (rule Update_capacities(1)[OF u])
  from Update_effect[OF u] have
    items: "mAllRitems s' = map ritem_tick (mAllRitems s)" and
    w: "mWaves s' = Waves_Update W (gt_DeltaTime gt) (mWaves (UpdateWaves_disturb W gt s))"
    by blast+
  show "map ObjCBIndex (mAllRitems s') = map ObjCBIndex (mAllRitems s)"
    by (simp add: items comp_def)
  show "map (\<lambda>nm. MatCBIndex (snd nm)) (mMaterials s') = map (\<lambda>nm. MatCBIndex (snd nm)) (mMaterials s)"
    by (simp add: Update_materials[OF u dist] comp_def)
  show "VertexCount (mWaves s') = VertexCount (mWaves s)"
    using nr never_resized_disturb[OF nr, of gt s] by (simp add: w never_resized_def)
qed

lemma DrawRenderItems_loop_succeeds:
  "\<forall>p\<in>set ps. drawable s True p \<Longrightarrow> \<exists>cs. DrawRenderItems_loop dev s objectCB matCB ps = Inr cs"
proof (induction ps)
  case Nil
  then show ?case by simp
next
  case (Cons p ps)
  then obtain cs where cs: "DrawRenderItems_loop dev s objectCB matCB ps = Inr cs" by auto
  from Cons.prems have "drawable s True p" by simp
  then obtain geo vb ib mat where
    "p < length (mAllRitems s)"
    "mGeometries s (Geo (mAllRitems s ! p)) = Some geo"
    "VertexBufferGPU geo = Some vb" "IndexBufferGPU geo = Some ib"
    "map_of (mMaterials s) (Mat (mAllRitems s ! p)) = Some mat"
    by (auto simp: drawable_def)
  with cs show ?case by (simp add: Let_def)
qed

lemma Draw_succeeds:
  assumes pv: "pointers_valid s True" and k: "mCurrFrameResource s = Some k" "k < length (mFrameResources s)"
    and ok: "cmdListAlloc_Reset_succeeds gt" "mCommandList_Reset_succeeds gt"
            "mCommandList_Close_succeeds gt" "Present_succeeds gt"
  shows "\<exists>s'. Draw dev gt s = Inr s'"
proof -
  have "\<exists>cs. DrawRenderItems dev s (mRitemLayer s layer) = Inr cs" for layer
  proof -
    from pv have "\<forall>p\<in>set (mRitemLayer s layer). drawable s True p"
      by (simp add: pointers_valid_def)
    from DrawRenderItems_loop_succeeds[OF this] k show ?thesis
      by (simp add: DrawRenderItems_def)
  qed
  then obtain c1 c2 c3 c4 where
    "DrawRenderItems dev s (mRitemLayer s Opaque) = Inr c1"
    "DrawRenderItems dev s (mRitemLayer s AlphaTested) = Inr c2"
    "DrawRenderItems dev s (mRitemLayer s AlphaTestedTreeSprites) = Inr c3"
    "DrawRenderItems dev s (mRitemLayer s Transparent) = Inr c4"
    by metis
  with k ok show ?thesis
    by (simp add: Draw_def Let_def)
qed

lemma Draw_fails_only_in_the_device:
  assumes pv: "pointers_valid s True" and k: "mCurrFrameResource s = Some k" "k < length (mFrameResources s)"
    and f: "Draw dev gt s = Inl err"
  shows "err = DxException"
proof -
  have "\<exists>cs. DrawRenderItems dev s (mRitemLayer s layer) = Inr cs" for layer
  proof -
    from pv have "\<forall>p\<in>set (mRitemLayer s layer). drawable s True p"
      by (simp add: pointers_valid_def)
    from DrawRenderItems_loop_succeeds[OF this] k show ?thesis
      by (simp add: DrawRenderItems_def)
  qed
  then obtain c1 c2 c3 c4 where
    "DrawRenderItems dev s (mRitemLayer s Opaque) = Inr c1"
    "DrawRenderItems dev s (mRitemLayer s AlphaTested) = Inr c2"
    "DrawRenderItems dev s (mRitemLayer s AlphaTestedTreeSprites) = Inr c3"
    "DrawRenderItems dev s (mRitemLayer s Transparent) = Inr c4"
    by metis
  with k f show ?thesis
    by (auto simp: Draw_def Let_def split: if_splits)
qed

lemma drawable_weaken: "drawable s True p \<Longrightarrow> drawable s False p"
  by (auto simp: drawable_def)

lemma Draw_well_formed:
  assumes d: "Draw dev gt s = Inr s'" and pv: "pointers_valid s True" and bf: "buffers_fit s"
  shows "well_formed s'"
proof -
  from Draw_Inr[OF d] obtain k where
    k: "k < length (mFrameResources s)" and
    same: "mAllRitems s' = mAllRitems s" "mMaterials s' = mMaterials s" "mWaves s' = mWaves s"
      "mGeometries s' = mGeometries s" "mWavesRitem s' = mWavesRitem s" "mRitemLayer s' = mRitemLayer s"
    by auto
  have bf': "buffers_fit s'"
    by (rule buffers_fit_cong[OF Draw_capacities[OF d] _ _ _ bf]) (simp_all add: same)
  have len: "length (mFrameResources s') = length (mFrameResources s)"
    using arg_cong[OF Draw_capacities[OF d], of length] by simp
  have dr: "drawable s' b p = drawable s b p" for b p
    by (simp add: drawable_def same)
  from pv have "pointers_valid s' False"
    unfolding pointers_valid_def dr
    by (auto simp: same len intro: drawable_weaken)
  with bf' show ?thesis by (simp add: well_formed_def)
qed

lemma tick_well_formed:
  assumes t: "tick W dev gt s = Inr s'" and wf: "well_formed s" and nr: "never_resized W"
  shows "well_formed s'"
proof -
  from tick_Inr[OF t] obtain s1 where u: "Update W gt s = Inr s1" and d: "Draw dev gt s1 = Inr s'"
    by blast
  from Draw_well_formed[OF d Update_pointers_valid[OF u wf] Update_buffers_fit[OF u wf nr]]
  show ?thesis .
qed

lemma tick_succeeds:
  assumes wf: "well_formed s" and nr: "never_resized W" and ok: "device_responds gt"
  shows "\<exists>s'. tick W dev gt s = Inr s'"
proof -
  from ok have oks: "SetEventOnCompletion_succeeds gt" "WaitForSingleObject_returns gt"
    "cmdListAlloc_Reset_succeeds gt" "mCommandList_Reset_succeeds gt"
    "mCommandList_Close_succeeds gt" "Present_succeeds gt"
    by (simp_all add: device_responds_def)
  from Update_succeeds[OF wf nr oks(1,2)] obtain s1 where u: "Update W gt s = Inr s1" by blast
  from Update_effect[OF u] have k: "mCurrFrameResource s1 = Some ((mCurrFrameResourceIndex s + 1) mod gNumFrameResources)"
    "(mCurrFrameResourceIndex s + 1) mod gNumFrameResources < length (mFrameResources s)"
    by blast+
  have len: "length (mFrameResources s1) = length (mFrameResources s)"
    using arg_cong[OF Update_capacities(1)[OF u], of length] by simp
  from Draw_succeeds[OF Update_pointers_valid[OF u wf] k(1) _ oks(3-6), of dev] k(2) len
  obtain s' where "Draw dev gt s1 = Inr s'" by auto
  with u show ?thesis by (simp add: tick_def)
qed

lemma run_well_formed:
  "run W dev gts s = Inr s' \<Longrightarrow> well_formed s \<Longrightarrow> never_resized W \<Longrightarrow> well_formed s'"
proof (induction gts arbitrary: s)
  case Nil
  then show ?case by simp
next
  case (Cons gt gts)
  from Cons.prems(1) obtain s1 where t: "tick W dev gt s = Inr s1" and r: "run W dev gts s1 = Inr s'"
    by (auto split: sum.splits)
  from Cons.IH[OF r tick_well_formed[OF t Cons.prems(2,3)] Cons.prems(3)] show ?case .
qed

lemma run_succeeds:
  "well_formed s \<Longrightarrow> never_resized W \<Longrightarrow> \<forall>gt\<in>set gts. device_responds gt \<Longrightarrow>
   \<exists>s'. run W dev gts s = Inr s'"
proof (induction gts arbitrary: s)
  case Nil
  then show ?case by simp
next
  case (Cons gt gts)
  from Cons.prems(3) have "device_responds gt" by simp
  from tick_succeeds[OF Cons.prems(1,2) this] obtain s1 where t: "tick W dev gt s = Inr s1" by blast
  from Cons.prems(3) have "\<forall>gt\<in>set gts. device_responds gt" by simp
  from Cons.IH[OF tick_well_formed[OF t Cons.prems(1,2)] Cons.prems(2) this]
  obtain s' where "run W dev gts s1 = Inr s'" by blast
  with t show ?case by simp
qed

lemma tick_fails_only_in_the_device:
  assumes wf: "well_formed s" and nr: "never_resized W" and f: "tick W dev gt s = Inl err"
  shows "err = DxException \<or> err = WaitNeverReturns"
proof (cases "Update W gt s")
  case (Inl e)
  with f have "e = err" by (simp add: tick_def)
  with Update_fails_only_at_the_gate[OF wf nr Inl] show ?thesis by blast
next
  case (Inr s1)
  with f have d: "Draw dev gt s1 = Inl err" by (simp add: tick_def)
  from Update_effect[OF Inr] have k: "mCurrFrameResource s1 = Some ((mCurrFrameResourceIndex s + 1) mod gNumFrameResources)"
    "(mCurrFrameResourceIndex s + 1) mod gNumFrameResources < length (mFrameResources s)"
    by blast+
  have len: "length (mFrameResources s1) = length (mFrameResources s)"
    using arg_cong[OF Update_capacities(1)[OF Inr], of length] by simp
  from Draw_fails_only_in_the_device[OF Update_pointers_valid[OF Inr wf] k(1) _ d] k(2) len
  show ?thesis by simp
qed

lemma run_fails_only_in_the_device:
  "run W dev gts s = Inl err \<Longrightarrow> well_formed s \<Longrightarrow> never_resized W \<Longrightarrow>
     err = DxException \<or> err = WaitNeverReturns"
proof (induction gts arbitrary: s)
  case Nil
  then show ?case by simp
next
  case (Cons gt gts)
  show ?case
  proof (cases "tick W dev gt s")
    case (Inl e)
    with Cons.prems(1) have "e = err" by simp
    with tick_fails_only_in_the_device[OF Cons.prems(2,3) Inl] show ?thesis by simp
  next
    case (Inr s1)
    with Cons.prems(1) have r: "run W dev gts s1 = Inl err" by simp
    from Cons.IH[OF r tick_well_formed[OF Inr Cons.prems(2,3)] Cons.prems(3)] show ?thesis .
  qed
qed

section \<open>Start-up\<close>

lemma AddRitem_Inr:
  "AddRitem P b (c, s) = Inr st' \<Longrightarrow>
     mGeometries s (block_Geo b) \<noteq> None \<and>
     st' = (c + 1,
            s\<lparr>mRitemLayer := (mRitemLayer s)
                 (block_Layer b := mRitemLayer s (block_Layer b) @ [length (mAllRitems s)]),
               mAllRitems := mAllRitems s @ [block_item P (mGeometries s) c b]\<rparr>)"
  by (auto simp: AddRitem_def block_item_def Let_def split: option.splits)

lemma AddRitem_succeeds:
  "mGeometries s (block_Geo b) \<noteq> None \<Longrightarrow> \<exists>st'. AddRitem P b (c, s) = Inr st'"
  by (auto simp: AddRitem_def Let_def split: option.splits)

lemma AddRitems_Inr:
  "AddRitems P bs (c, s) = Inr (c', s') \<Longrightarrow>
     c' = c + length bs \<and>
     (\<forall>b\<in>set bs. mGeometries s (block_Geo b) \<noteq> None) \<and>
     s' = s\<lparr>mRitemLayer := (\<lambda>layer. mRitemLayer s layer @ layer_positions layer (length (mAllRitems s)) bs),
            mAllRitems := mAllRitems s @
               map (\<lambda>(i, b). block_item P (mGeometries s) i b) (zip [c ..< c + length bs] bs)\<rparr>"
proof (induction bs arbitrary: c s)
  case Nil
  then show ?case by simp
next
  case (Cons b bs)
  from Cons.prems obtain st1 where a: "AddRitem P b (c, s) = Inr st1"
    and r: "AddRitems P bs st1 = Inr (c', s')"
    by (auto split: sum.splits)
  define s1 where "s1 = s\<lparr>mRitemLayer := (mRitemLayer s)
                 (block_Layer b := mRitemLayer s (block_Layer b) @ [length (mAllRitems s)]),
               mAllRitems := mAllRitems s @ [block_item P (mGeometries s) c b]\<rparr>"
  from AddRitem_Inr[OF a] have g: "mGeometries s (block_Geo b) \<noteq> None" and st1: "st1 = (c + 1, s1)"
    by (simp_all add: s1_def)
  from Cons.IH[OF r[unfolded st1]] have
    c': "c' = c + 1 + length bs" and
    gs: "\<forall>b\<in>set bs. mGeometries s1 (block_Geo b) \<noteq> None" and
    s': "s' = s1\<lparr>mRitemLayer := (\<lambda>layer. mRitemLayer s1 layer @ layer_positions layer (length (mAllRitems s1)) bs),
            mAllRitems := mAllRitems s1 @
               map (\<lambda>(i, b). block_item P (mGeometries s1) i b) (zip [c + 1 ..< c + 1 + length bs] bs)\<rparr>"
    by simp_all
  have g1: "mGeometries s1 = mGeometries s" by (simp add: s1_def)
  have u: "[c ..< c + length (b # bs)] = c # [c + 1 ..< c + 1 + length bs]"
    by (simp add: upt_conv_Cons del: upt_Suc)
  have l: "(\<lambda>layer. mRitemLayer s1 layer @ layer_positions layer (length (mAllRitems s1)) bs) =
           (\<lambda>layer. mRitemLayer s layer @ layer_positions layer (length (mAllRitems s)) (b # bs))"
    by (rule ext) (simp add: s1_def)
  have "s' = s\<lparr>mRitemLayer := (\<lambda>layer. mRitemLayer s layer @ layer_positions layer (length (mAllRitems s)) (b # bs)),
            mAllRitems := mAllRitems s @
               map (\<lambda>(i, b). block_item P (mGeometries s) i b) (zip [c ..< c + length (b # bs)] (b # bs))\<rparr>"
    unfolding s' l u g1 by (simp add: s1_def)
  with c' g gs g1 show ?case by simp
qed

lemma AddRitems_succeeds:
  "\<forall>b\<in>set bs. mGeometries (snd st) (block_Geo b) \<noteq> None \<Longrightarrow> \<exists>st'. AddRitems P bs st = Inr st'"
proof (induction bs arbitrary: st)
  case Nil
  then show ?case by simp
next
  case (Cons b bs)
  obtain c s where st: "st = (c, s)" by (cases st)
  from Cons.prems st have "mGeometries s (block_Geo b) \<noteq> None" by simp
  from AddRitem_succeeds[OF this] obtain st1 where a: "AddRitem P b (c, s) = Inr st1" by blast
  from AddRitem_Inr[OF a] have "mGeometries (snd st1) = mGeometries s" by auto
  with Cons.prems st have "\<forall>b\<in>set bs. mGeometries (snd st1) (block_Geo b) \<noteq> None" by simp
  from Cons.IH[OF this] a st show ?case by auto
qed

lemma layer_positions_range:
  "p \<in> set (layer_positions layer n bs) \<Longrightarrow> n \<le> p \<and> p < n + length bs"
  by (induction bs arbitrary: n) (fastforce split: if_splits)+

lemma length_repeat [simp]: "length (repeat n xs) = n * length xs"
  by (induction n) (simp_all add: repeat_def)

lemma set_repeat [simp]: "set (repeat n xs) = (if n = 0 then {} else set xs)"
  by (induction n) (auto simp: repeat_def)

lemma length_scene_blocks: "length scene_blocks = 143"
  by (simp add: scene_blocks_def Let_def)

lemma scene_blocks_geometries:
  "b \<in> set scene_blocks \<Longrightarrow> block_Geo b \<in> set geometry_names"
  by (auto simp: scene_blocks_def Let_def ritem_block_def opaque_block_def geometry_names_def)

lemma BuildMaterials_keys:
  "map fst BuildMaterials =
     [''grass'', ''grass2'', ''water'', ''bricks'', ''bricks2'', ''bricks3'', ''ice'', ''tile'',
      ''sand'', ''checkboard'', ''shiny'', ''treeSprites'']"
  by (simp add: BuildMaterials_def make_Material_def Let_def)

lemma BuildMaterials_indices:
  "map (\<lambda>nm. MatCBIndex (snd nm)) BuildMaterials = [0 ..< 12]"
  "map (\<lambda>nm. DiffuseSrvHeapIndex (snd nm)) BuildMaterials = [0 ..< 12]"
  "map (\<lambda>nm. Material.NumFramesDirty (snd nm)) BuildMaterials = replicate 12 (int gNumFrameResources)"
  by (simp_all add: BuildMaterials_def make_Material_def Let_def upt_rec numeral_eq_Suc)

lemma scene_blocks_materials:
  "b \<in> set scene_blocks \<Longrightarrow> block_Mat b \<in> set (map fst BuildMaterials)"
  unfolding BuildMaterials_keys
  by (auto simp: scene_blocks_def Let_def ritem_block_def opaque_block_def)

lemma hd_scene_blocks:
  "scene_blocks ! 0 = ritem_block (Some Identity4x4) (XMMatrixScaling 5 5 1)
                         ''water'' ''waterGeo'' ''grid'' TRIANGLELIST Transparent"
  by (simp add: scene_blocks_def Let_def)


lemma Initialize_Inr:
  assumes "Initialize scene = Inr s"
  shows "mAllRitems s =
           map (\<lambda>(i, b). block_item (placement scene) (geometries scene) i b)
               (zip [0 ..< 143] scene_blocks)"
    and "mRitemLayer s = (\<lambda>layer. layer_positions layer 0 scene_blocks)"
    and "mMaterials s = BuildMaterials"
    and "mWavesRitem s = Some 0"
    and "mGeometries s = geometries scene"
    and "mFrameResources s =
           map (\<lambda>i. NewFrameResource (buffer_address scene i) 1 143 12 45750) [0 ..< gNumFrameResources]"
    and "mCurrFrameResourceIndex s = 0"
    and "mCurrFrameResource s = None"
    and "log s = []"
    and "mCurrentFence s = 0"
    and "t_base s = 0"
    and "RowCount (mWaves s) = 305 \<and> ColumnCount (mWaves s) = 150 \<and> VertexCount (mWaves s) = 45750"
    and "\<forall>b\<in>set scene_blocks. geometries scene (block_Geo b) \<noteq> None"
proof -
  define s0 where "s0 = \<lparr>mFrameResources = [],
               mCurrFrameResource = None,
               mCurrFrameResourceIndex = 0,
               mGeometries = geometries scene,
               mMaterials = BuildMaterials,
               mWavesRitem = None,
               mAllRitems = [],
               mRitemLayer = (\<lambda>_. []),
               mWaves = \<lparr>RowCount = 305, ColumnCount = 150, VertexCount = 305 * 150,
                          Width = waves_Width scene, Depth = waves_Depth scene,
                          Waves.Position = waves_Position scene,
                          Waves.Normal = waves_Normal scene\<rparr>,
               mMainPassCB = initial_PassConstants scene,
               mCurrentFence = 0,
               t_base = 0,
               log = []\<rparr>"
  from assms obtain s1 where b: "BuildRenderItems (placement scene) s0 = Inr s1"
    and s: "s = BuildFrameResources (buffer_address scene) s1"
    by (auto simp: Initialize_def Let_def s0_def split: sum.splits)
  from b obtain c s2 where a: "AddRitems (placement scene) scene_blocks (0, s0) = Inr (c, s2)"
    and s1: "s1 = s2\<lparr>mWavesRitem := Some 0\<rparr>"
    by (auto simp: BuildRenderItems_def split: sum.splits)
  from AddRitems_Inr[OF a] have
    g: "\<forall>b\<in>set scene_blocks. mGeometries s0 (block_Geo b) \<noteq> None" and
    s2: "s2 = s0\<lparr>mRitemLayer := (\<lambda>layer. mRitemLayer s0 layer @ layer_positions layer (length (mAllRitems s0)) scene_blocks),
            mAllRitems := mAllRitems s0 @
               map (\<lambda>(i, b). block_item (placement scene) (mGeometries s0) i b)
                   (zip [0 ..< 0 + length scene_blocks] scene_blocks)\<rparr>"
    by simp_all
  have s2f: "mAllRitems s2 = map (\<lambda>(i, b). block_item (placement scene) (geometries scene) i b)
               (zip [0 ..< 143] scene_blocks)"
    "mRitemLayer s2 = (\<lambda>layer. layer_positions layer 0 scene_blocks)"
    "mMaterials s2 = BuildMaterials" "mGeometries s2 = geometries scene"
    "mFrameResources s2 = []" "mCurrFrameResourceIndex s2 = 0" "mCurrFrameResource s2 = None"
    "log s2 = []" "mCurrentFence s2 = 0" "t_base s2 = 0"
    "mWaves s2 = \<lparr>RowCount = 305, ColumnCount = 150, VertexCount = 305 * 150,
                          Width = waves_Width scene, Depth = waves_Depth scene,
                          Waves.Position = waves_Position scene,
                          Waves.Normal = waves_Normal scene\<rparr>"
    by (simp_all add: s2 s0_def length_scene_blocks)
  have l: "length (mAllRitems s2) = 143"
    by (simp add: s2f length_scene_blocks)
  have lm: "length BuildMaterials = 12"
    using arg_cong[OF BuildMaterials_keys, of length] by simp
  show "mAllRitems s =
           map (\<lambda>(i, b). block_item (placement scene) (geometries scene) i b)
               (zip [0 ..< 143] scene_blocks)"
    by (simp add: s s1 BuildFrameResources_def s2f)
  show "mRitemLayer s = (\<lambda>layer. layer_positions layer 0 scene_blocks)"
    by (simp add: s s1 BuildFrameResources_def s2f)
  show "mMaterials s = BuildMaterials" "mWavesRitem s = Some 0" "mGeometries s = geometries scene"
    "mCurrFrameResourceIndex s = 0" "mCurrFrameResource s = None" "log s = []"
    "mCurrentFence s = 0" "t_base s = 0"
    by (simp_all add: s s1 BuildFrameResources_def s2f)
  show "mFrameResources s =
           map (\<lambda>i. NewFrameResource (buffer_address scene i) 1 143 12 45750) [0 ..< gNumFrameResources]"
    by (simp add: s s1 BuildFrameResources_def s2f(3,5,11) l lm)
  show "RowCount (mWaves s) = 305 \<and> ColumnCount (mWaves s) = 150 \<and> VertexCount (mWaves s) = 45750"
    by (simp add: s s1 BuildFrameResources_def s2f)
  from g show "\<forall>b\<in>set scene_blocks. geometries scene (block_Geo b) \<noteq> None"
    by (simp add: s0_def)
qed

lemma Initialize_succeeds:
  assumes "geometries_built (geometries scene)"
  shows "\<exists>s. Initialize scene = Inr s"
proof -
  have "\<forall>b\<in>set scene_blocks. geometries scene (block_Geo b) \<noteq> None"
  proof
    fix b assume "b \<in> set scene_blocks"
    from scene_blocks_geometries[OF this] assms show "geometries scene (block_Geo b) \<noteq> None"
      unfolding geometries_built_def by blast
  qed
  then have "\<exists>st'. AddRitems (placement scene) scene_blocks
      (0, \<lparr>mFrameResources = [],
               mCurrFrameResource = None,
               mCurrFrameResourceIndex = 0,
               mGeometries = geometries scene,
               mMaterials = BuildMaterials,
               mWavesRitem = None,
               mAllRitems = [],
               mRitemLayer = (\<lambda>_. []),
               mWaves = \<lparr>RowCount = 305, ColumnCount = 150, VertexCount = 305 * 150,
                          Width = waves_Width scene, Depth = waves_Depth scene,
                          Waves.Position = waves_Position scene,
                          Waves.Normal = waves_Normal scene\<rparr>,
               mMainPassCB = initial_PassConstants scene,
               mCurrentFence = 0,
               t_base = 0,
               log = []\<rparr>) = Inr st'"
    by (intro AddRitems_succeeds) simp
  then show ?thesis
    by (auto simp: Initialize_def Let_def BuildRenderItems_def split: sum.splits prod.splits)
qed


lemma Initialize_indices:
  assumes "Initialize scene = Inr s"
  shows "map ObjCBIndex (mAllRitems s) = [0 ..< 143]"
proof -
  have "map ObjCBIndex (map (\<lambda>(i, b). block_item P geos i b) (zip [0 ..< 143] scene_blocks)) =
        map fst (zip [0 ..< 143] scene_blocks)" for P geos
    by (simp add: block_item_def Let_def comp_def case_prod_unfold)
  also have "map fst (zip [0 ..< 143] scene_blocks) = [0 ..< 143]"
    by (rule map_fst_zip) (simp add: length_scene_blocks)
  finally show ?thesis
    by (simp add: Initialize_Inr(1)[OF assms])
qed

lemma Initialize_well_formed:
  assumes i: "Initialize scene = Inr s" and gb: "geometries_built (geometries scene)"
  shows "well_formed s"
proof -
  note f = Initialize_Inr[OF i]
  have len: "length (mAllRitems s) = 143"
    using arg_cong[OF Initialize_indices[OF i], of length] by simp
  have nth: "mAllRitems s ! p = block_item (placement scene) (geometries scene) p (scene_blocks ! p)"
    if "p < 143" for p
    using that by (simp add: f(1) length_scene_blocks)
  have bf: "buffers_fit s"
    unfolding buffers_fit_def
  proof
    fix fr assume "fr \<in> set (mFrameResources s)"
    then obtain i where fr: "fr = NewFrameResource (buffer_address scene i) 1 143 12 45750"
      by (auto simp: f(6))
    have "\<forall>e\<in>set (mAllRitems s). ObjCBIndex e < 143"
    proof
      fix e assume "e \<in> set (mAllRitems s)"
      then have "ObjCBIndex e \<in> set (map ObjCBIndex (mAllRitems s))" by simp
      then show "ObjCBIndex e < 143" unfolding Initialize_indices[OF i] by simp
    qed
    moreover have "\<forall>nm\<in>set (mMaterials s). MatCBIndex (snd nm) < 12"
    proof
      fix nm assume "nm \<in> set (mMaterials s)"
      then have "MatCBIndex (snd nm) \<in> set (map (\<lambda>nm. MatCBIndex (snd nm)) BuildMaterials)"
        by (simp add: f(3))
      then show "MatCBIndex (snd nm) < 12" unfolding BuildMaterials_indices by simp
    qed
    ultimately show "(\<forall>e\<in>set (mAllRitems s). ObjCBIndex e < length (mMappedData (ObjectCB fr))) \<and>
        (\<forall>nm\<in>set (mMaterials s). MatCBIndex (snd nm) < length (mMappedData (MaterialCB fr))) \<and>
        0 < length (mMappedData (PassCB fr)) \<and>
        nat (VertexCount (mWaves s)) \<le> length (mMappedData (WavesVB fr))"
      using f(12) by (simp add: fr NewFrameResource_def NewUploadBuffer_def)
  qed
  have keys: "distinct (map fst (mMaterials s))"
    unfolding f(3) BuildMaterials_keys by simp
  have water: "map_of (mMaterials s) ''water'' \<noteq> None"
    unfolding f(3) map_of_eq_None_iff set_map[symmetric] BuildMaterials_keys by simp
  have g0: "Geo (mAllRitems s ! 0) = ''waterGeo''"
    by (simp add: nth hd_scene_blocks block_item_def ritem_block_def Let_def)
  from gb have wg: "geometries scene ''waterGeo'' \<noteq> None"
    unfolding geometries_built_def geometry_names_def by auto
  have wave: "\<exists>p. mWavesRitem s = Some p \<and> p < length (mAllRitems s) \<and>
          mGeometries s (Geo (mAllRitems s ! p)) \<noteq> None"
    using wg by (intro exI[of _ 0]) (simp add: f(4,5) len g0)
  have "drawable s False p" if p: "p \<in> set (mRitemLayer s layer)" for p layer
  proof -
    from p have "p \<in> set (layer_positions layer 0 scene_blocks)" by (simp add: f(2))
    from layer_positions_range[OF this] have pl: "p < 143" by (simp add: length_scene_blocks)
    then have b: "scene_blocks ! p \<in> set scene_blocks" by (simp add: length_scene_blocks)
    have m: "Mat (mAllRitems s ! p) = block_Mat (scene_blocks ! p)"
      and g: "Geo (mAllRitems s ! p) = block_Geo (scene_blocks ! p)"
      by (simp_all add: nth[OF pl] block_item_def Let_def)
    from scene_blocks_materials[OF b] have "map_of (mMaterials s) (Mat (mAllRitems s ! p)) \<noteq> None"
      unfolding m f(3) map_of_eq_None_iff by simp
    moreover from scene_blocks_geometries[OF b] gb obtain geo where
      "geometries scene (block_Geo (scene_blocks ! p)) = Some geo" "IndexBufferGPU geo \<noteq> None"
      "block_Geo (scene_blocks ! p) = ''waterGeo'' \<or> VertexBufferGPU geo \<noteq> None"
      unfolding geometries_built_def by blast
    ultimately show ?thesis
      using pl g0 by (auto simp: drawable_def len g f(4,5))
  qed
  then have "\<forall>layer. \<forall>p\<in>set (mRitemLayer s layer). drawable s False p" by blast
  with keys water wave have "pointers_valid s False"
    by (simp add: pointers_valid_def f(6))
  with bf show ?thesis by (simp add: well_formed_def)
qed

section \<open>The concrete run exists\<close>

lemma example_scene_built: "geometries_built (geometries example_scene)"
  by (simp add: geometries_built_def example_scene_def geometry_names_def example_geometry_def)

lemma still_water_never_resized: "never_resized still_water"
  by (simp add: never_resized_def still_water_def)

lemma example_tick_responds: "device_responds (example_tick t)"
  by (simp add: device_responds_def example_tick_def)

lemma WinMain_Inr:
  "WinMain W dev scene gts = Inr s \<Longrightarrow>
     \<exists>s0. Initialize scene = Inr s0 \<and> run W dev gts s0 = Inr s"
  by (auto simp: WinMain_def split: sum.splits)

lemma WinMain_succeeds:
  assumes "geometries_built (geometries scene)" "never_resized W" "\<forall>gt\<in>set gts. device_responds gt"
  shows "\<exists>s. WinMain W dev scene gts = Inr s"
proof -
  from Initialize_succeeds[OF assms(1)] obtain s0 where i: "Initialize scene = Inr s0" by blast
  from run_succeeds[OF Initialize_well_formed[OF i assms(1)] assms(2,3), of dev]
  obtain s where "run W dev gts s0 = Inr s" by blast
  with i show ?thesis by (simp add: WinMain_def)
qed

lemma example_run_exists:
  "\<exists>s. WinMain still_water example_device example_scene (map example_tick ts) = Inr s"
  by (rule WinMain_succeeds[OF example_scene_built still_water_never_resized])
     (simp add: example_tick_responds)

lemma WinMain_selected_slots:
  assumes "WinMain W dev scene gts = Inr s"
  shows "selected_slots (log s) = map (\<lambda>i. (i + 1) mod 3) [0 ..< length gts]"
    and "mCurrFrameResourceIndex s = length gts mod 3"
proof -
  from WinMain_Inr[OF assms] obtain s0 where i: "Initialize scene = Inr s0"
    and r: "run W dev gts s0 = Inr s" by blast
  note f = Initialize_Inr[OF i]
  from run_selected_slots[OF r] f(7,9) have
    sel: "selected_slots (log s) = map (\<lambda>i. (1 + i) mod gNumFrameResources) [0 ..< length gts]" and
    idx: "mCurrFrameResourceIndex s mod gNumFrameResources = length gts mod gNumFrameResources"
    by simp_all
  have "mCurrFrameResourceIndex s < gNumFrameResources"
  proof (cases gts rule: rev_cases)
    case Nil
    with r f(7) show ?thesis by (simp add: gNumFrameResources_def)
  next
    case (snoc gts' gt)
    with r obtain s1 where t: "tick W dev gt s1 = Inr s"
      by (auto simp: run_append split: sum.splits)
    from tick_selected_slots(2)[OF t] show ?thesis
      by (simp add: gNumFrameResources_def)
  qed
  with idx show "mCurrFrameResourceIndex s = length gts mod 3"
    by (simp add: gNumFrameResources_def)
  from sel show "selected_slots (log s) = map (\<lambda>i. (i + 1) mod 3) [0 ..< length gts]"
    by (simp add: gNumFrameResources_def add.commute)
qed


section \<open>The layout of the scene does not change\<close>

lemma tick_layout:
  assumes t: "tick W dev gt s = Inr s'" and d: "distinct (map fst (mMaterials s))"
  shows "layout s' = layout s"
proof -
  from tick_Inr[OF t] obtain s1 where u: "Update W gt s = Inr s1" and dr: "Draw dev gt s1 = Inr s'"
    by blast
  from Update_effect[OF u] have
    items: "mAllRitems s1 = map ritem_tick (mAllRitems s)" and
    wr: "mWavesRitem s1 = mWavesRitem s" and
    ly: "mRitemLayer s1 = mRitemLayer s"
    by blast+
  note mats = Update_materials[OF u d]
  from Draw_Inr[OF dr] have
    same: "mAllRitems s' = mAllRitems s1" "mMaterials s' = mMaterials s1"
      "mWavesRitem s' = mWavesRitem s1" "mRitemLayer s' = mRitemLayer s1"
    by auto
  show ?thesis
    unfolding layout_def
    by (simp add: same items wr ly mats comp_def Draw_capacities[OF dr] Update_capacities(1)[OF u])
qed

lemma run_layout:
  "run W dev gts s = Inr s' \<Longrightarrow> well_formed s \<Longrightarrow> never_resized W \<Longrightarrow> layout s' = layout s"
proof (induction gts arbitrary: s)
  case Nil
  then show ?case by simp
next
  case (Cons gt gts)
  from Cons.prems(1) obtain s1 where t: "tick W dev gt s = Inr s1" and r: "run W dev gts s1 = Inr s'"
    by (auto split: sum.splits)
  from Cons.prems(2) have d: "distinct (map fst (mMaterials s))"
    by (simp add: well_formed_def pointers_valid_def)
  from Cons.IH[OF r tick_well_formed[OF t Cons.prems(2,3)] Cons.prems(3)] tick_layout[OF t d]
  show ?case by simp
qed

lemma layout_fields:
  assumes "layout s' = layout s"
  shows "map ObjCBIndex (mAllRitems s') = map ObjCBIndex (mAllRitems s)"
    and "map Mat (mAllRitems s') = map Mat (mAllRitems s)"
    and "map Geo (mAllRitems s') = map Geo (mAllRitems s)"
    and "length (mAllRitems s') = length (mAllRitems s)"
    and "map fst (mMaterials s') = map fst (mMaterials s)"
    and "map (\<lambda>nm. MatCBIndex (snd nm)) (mMaterials s') = map (\<lambda>nm. MatCBIndex (snd nm)) (mMaterials s)"
    and "map (\<lambda>nm. DiffuseSrvHeapIndex (snd nm)) (mMaterials s') = map (\<lambda>nm. DiffuseSrvHeapIndex (snd nm)) (mMaterials s)"
    and "length (mMaterials s') = length (mMaterials s)"
    and "map capacities (mFrameResources s') = map capacities (mFrameResources s)"
    and "mRitemLayer s' = mRitemLayer s"
    and "mWavesRitem s' = mWavesRitem s"
proof -
  from assms have
    i: "map (\<lambda>e. (ObjCBIndex e, Mat e, Geo e)) (mAllRitems s') = map (\<lambda>e. (ObjCBIndex e, Mat e, Geo e)) (mAllRitems s)" and
    m: "map (\<lambda>nm. (fst nm, MatCBIndex (snd nm), DiffuseSrvHeapIndex (snd nm))) (mMaterials s') =
        map (\<lambda>nm. (fst nm, MatCBIndex (snd nm), DiffuseSrvHeapIndex (snd nm))) (mMaterials s)" and
    r: "map capacities (mFrameResources s') = map capacities (mFrameResources s)"
       "mRitemLayer s' = mRitemLayer s" "mWavesRitem s' = mWavesRitem s"
    by (simp_all add: layout_def)
  from arg_cong[OF i, of "map fst"] show "map ObjCBIndex (mAllRitems s') = map ObjCBIndex (mAllRitems s)"
    by (simp add: comp_def)
  from arg_cong[OF i, of "map (\<lambda>t. fst (snd t))"] show "map Mat (mAllRitems s') = map Mat (mAllRitems s)"
    by (simp add: comp_def)
  from arg_cong[OF i, of "map (\<lambda>t. snd (snd t))"] show "map Geo (mAllRitems s') = map Geo (mAllRitems s)"
    by (simp add: comp_def)
  from arg_cong[OF i, of length] show "length (mAllRitems s') = length (mAllRitems s)"
    by simp
  from arg_cong[OF m, of "map fst"] show "map fst (mMaterials s') = map fst (mMaterials s)"
    by (simp add: comp_def)
  from arg_cong[OF m, of "map (\<lambda>t. fst (snd t))"]
  show "map (\<lambda>nm. MatCBIndex (snd nm)) (mMaterials s') = map (\<lambda>nm. MatCBIndex (snd nm)) (mMaterials s)"
    by (simp add: comp_def)
  from arg_cong[OF m, of "map (\<lambda>t. snd (snd t))"]
  show "map (\<lambda>nm. DiffuseSrvHeapIndex (snd nm)) (mMaterials s') = map (\<lambda>nm. DiffuseSrvHeapIndex (snd nm)) (mMaterials s)"
    by (simp add: comp_def)
  from arg_cong[OF m, of length] show "length (mMaterials s') = length (mMaterials s)"
    by simp
  from r show "map capacities (mFrameResources s') = map capacities (mFrameResources s)"
    "mRitemLayer s' = mRitemLayer s" "mWavesRitem s' = mWavesRitem s"
    by simp_all
qed

lemma Initialize_Inl: "Initialize scene = Inl err \<Longrightarrow> err = InvalidPointer"
proof -
  have a: "AddRitems P bs st = Inl err \<Longrightarrow> err = InvalidPointer" for P bs st
  proof (induction bs arbitrary: st)
    case Nil
    then show ?case by simp
  next
    case (Cons b bs)
    then show ?case
      by (auto simp: AddRitem_def Let_def split: sum.splits prod.splits option.splits)
  qed
  assume "Initialize scene = Inl err"
  then show ?thesis
    by (auto simp: Initialize_def BuildRenderItems_def Let_def split: sum.splits prod.splits dest: a)
qed

lemma WinMain_fails_only_in_the_device:
  assumes gb: "geometries_built (geometries scene)" and nr: "never_resized W"
    and f: "WinMain W dev scene gts = Inl err"
  shows "err = DxException \<or> err = WaitNeverReturns"
proof -
  from Initialize_succeeds[OF gb] obtain s0 where i: "Initialize scene = Inr s0" by blast
  with f have "run W dev gts s0 = Inl err" by (simp add: WinMain_def)
  from run_fails_only_in_the_device[OF this Initialize_well_formed[OF i gb] nr] show ?thesis .
qed

lemma WinMain_layout:
  assumes gb: "geometries_built (geometries scene)" and nr: "never_resized W"
    and r: "WinMain W dev scene gts = Inr s"
  shows "map ObjCBIndex (mAllRitems s) = [0 ..< 143]"
    and "length (mAllRitems s) = 143"
    and "map fst (mMaterials s) = map fst BuildMaterials"
    and "map (\<lambda>nm. MatCBIndex (snd nm)) (mMaterials s) = [0 ..< 12]"
    and "length (mMaterials s) = 12"
    and "\<forall>fr\<in>set (mFrameResources s).
           length (mMappedData (ObjectCB fr)) = 143 \<and> length (mMappedData (MaterialCB fr)) = 12 \<and>
           length (mMappedData (PassCB fr)) = 1 \<and> length (mMappedData (WavesVB fr)) = 45750"
    and "mRitemLayer s = (\<lambda>layer. layer_positions layer 0 scene_blocks)"
    and "well_formed s"
proof -
  from WinMain_Inr[OF r] obtain s0 where i: "Initialize scene = Inr s0"
    and rr: "run W dev gts s0 = Inr s" by blast
  note wf0 = Initialize_well_formed[OF i gb]
  note f = Initialize_Inr[OF i]
  note l = layout_fields[OF run_layout[OF rr wf0 nr]]
  show "well_formed s" by (rule run_well_formed[OF rr wf0 nr])
  show "map ObjCBIndex (mAllRitems s) = [0 ..< 143]"
    using l(1) Initialize_indices[OF i] by simp
  show "length (mAllRitems s) = 143"
    using l(4) arg_cong[OF Initialize_indices[OF i], of length] by simp
  show "map fst (mMaterials s) = map fst BuildMaterials"
    using l(5) f(3) by simp
  show "map (\<lambda>nm. MatCBIndex (snd nm)) (mMaterials s) = [0 ..< 12]"
    using l(6) f(3) BuildMaterials_indices(1) by simp
  show "length (mMaterials s) = 12"
    using l(8) f(3) arg_cong[OF BuildMaterials_keys, of length] by simp
  show "mRitemLayer s = (\<lambda>layer. layer_positions layer 0 scene_blocks)"
    using l(10) f(2) by simp
  show "\<forall>fr\<in>set (mFrameResources s).
           length (mMappedData (ObjectCB fr)) = 143 \<and> length (mMappedData (MaterialCB fr)) = 12 \<and>
           length (mMappedData (PassCB fr)) = 1 \<and> length (mMappedData (WavesVB fr)) = 45750"
  proof
    fix fr assume "fr \<in> set (mFrameResources s)"
    then have "capacities fr \<in> set (map capacities (mFrameResources s0))"
      using l(9) by (metis imageI set_map)
    then obtain j where "capacities fr = capacities (NewFrameResource (buffer_address scene j) 1 143 12 45750)"
      by (auto simp: f(6))
    then show "length (mMappedData (ObjectCB fr)) = 143 \<and> length (mMappedData (MaterialCB fr)) = 12 \<and>
           length (mMappedData (PassCB fr)) = 1 \<and> length (mMappedData (WavesVB fr)) = 45750"
      by (simp add: capacities_def NewFrameResource_def NewUploadBuffer_def)
  qed
qed

section \<open>The monitor accepts what the loop does\<close>

lemma monitor_append:
  "monitor (evs @ evs') mon =
     (case monitor evs mon of None \<Rightarrow> None | Some mon' \<Rightarrow> monitor evs' mon')"
  by (induction evs arbitrary: mon) (auto split: option.splits)

lemma monitor_obj_writes:
  "selected mon = Some k \<Longrightarrow> gate_open mon \<Longrightarrow> monitor (map (obj_write k) es) mon = Some mon"
  by (induction es) (simp_all add: obj_write_def monitor_write_def)

lemma monitor_mat_writes:
  "selected mon = Some k \<Longrightarrow> gate_open mon \<Longrightarrow> monitor (map (mat_write k) ms) mon = Some mon"
  by (induction ms) (simp_all add: mat_write_def monitor_write_def)

lemma monitor_wave_writes:
  "selected mon = Some k \<Longrightarrow> gate_open mon \<Longrightarrow> monitor (map (wave_write k w) ns) mon = Some mon"
  by (induction ns) (simp_all add: wave_write_def monitor_write_def)

lemma monitor_records: "monitor (map Record cs) mon = Some mon"
  by (induction cs) simp_all

lemma monitor_rejects_unfenced_write: "\<not> wait_then_write unfenced_log"
  by (simp add: wait_then_write_def unfenced_log_def initial_monitor_def monitor_write_def)

lemma monitor_rejects_early_write: "\<not> wait_then_write early_log"
  by (simp add: wait_then_write_def early_log_def initial_monitor_def monitor_write_def)

lemma Update_monitor:
  assumes u: "Update W gt s = Inr s'" and a: "agrees mon s"
  shows "\<exists>evs. log s' = log s @ evs \<and>
           monitor evs mon =
             Some (mon\<lparr>selected := Some ((mCurrFrameResourceIndex s + 1) mod gNumFrameResources),
                       gate_open := True\<rparr>)"
proof -
  define k where "k = (mCurrFrameResourceIndex s + 1) mod gNumFrameResources"
  define f where "f = Fence (mFrameResources s ! k)"
  define c where "c = GetCompletedValue gt"
  define mon1 where "mon1 = mon\<lparr>selected := Some k, gate_open := False\<rparr>"
  define mon2 where "mon2 = mon\<lparr>selected := Some k, gate_open := True\<rparr>"
  from Update_effect[OF u] obtain objs mats pc dist w n p r where
    kl: "k < length (mFrameResources s)" and
    lg: "log s' = log s
        @ [SelectSlot k, FenceCheck k f c]
        @ (if f \<noteq> 0 \<and> c < f then [WaitForSingleObject k f] else [])
        @ map (obj_write k) objs
        @ map (mat_write k) mats
        @ [WritePassCB k 0 pc]
        @ (if binary32 (gt_TotalTime gt - t_base s) \<ge> 0.25
           then [DisturbCall (Rand 4 (RowCount (mWaves s) - 5) (rand_i gt))
                             (Rand 4 (ColumnCount (mWaves s) - 5) (rand_j gt))
                             (RandF (binary32 0.2) 0.5 (rand_r gt))]
           else [])
        @ [WavesUpdateCall (gt_DeltaTime gt)]
        @ map (wave_write k w) n
        @ [RebindWavesVB p r]"
    unfolding k_def f_def c_def by blast
  from a kl have rf: "recorded_fence mon k = f"
    by (simp add: agrees_def f_def)
  have g: "monitor ([SelectSlot k, FenceCheck k f c]
        @ (if f \<noteq> 0 \<and> c < f then [WaitForSingleObject k f] else [])) mon = Some mon2"
    using rf by (auto simp: mon2_def)
  have o: "selected mon2 = Some k" "gate_open mon2" by (simp_all add: mon2_def)
  have rest: "monitor (map (obj_write k) objs
        @ map (mat_write k) mats
        @ [WritePassCB k 0 pc]
        @ (if binary32 (gt_TotalTime gt - t_base s) \<ge> 0.25
           then [DisturbCall (Rand 4 (RowCount (mWaves s) - 5) (rand_i gt))
                             (Rand 4 (ColumnCount (mWaves s) - 5) (rand_j gt))
                             (RandF (binary32 0.2) 0.5 (rand_r gt))]
           else [])
        @ [WavesUpdateCall (gt_DeltaTime gt)]
        @ map (wave_write k w) n
        @ [RebindWavesVB p r]) mon2 = Some mon2"
    using o by (simp add: monitor_append monitor_obj_writes monitor_mat_writes monitor_wave_writes
                      monitor_write_def)
  have "monitor ([SelectSlot k, FenceCheck k f c]
        @ (if f \<noteq> 0 \<and> c < f then [WaitForSingleObject k f] else [])
        @ map (obj_write k) objs
        @ map (mat_write k) mats
        @ [WritePassCB k 0 pc]
        @ (if binary32 (gt_TotalTime gt - t_base s) \<ge> 0.25
           then [DisturbCall (Rand 4 (RowCount (mWaves s) - 5) (rand_i gt))
                             (Rand 4 (ColumnCount (mWaves s) - 5) (rand_j gt))
                             (RandF (binary32 0.2) 0.5 (rand_r gt))]
           else [])
        @ [WavesUpdateCall (gt_DeltaTime gt)]
        @ map (wave_write k w) n
        @ [RebindWavesVB p r]) mon = Some mon2"
    using g rest by (simp only: append_assoc[symmetric] monitor_append[of "_ @ _"])
       (simp add: monitor_append)
  with lg show ?thesis
    unfolding mon2_def k_def by (metis append_assoc)
qed

lemma Draw_monitor:
  assumes d: "Draw dev gt s = Inr s'" and sel: "selected mon = mCurrFrameResource s"
    and rf: "\<forall>k < length (mFrameResources s). recorded_fence mon k = Fence (mFrameResources s ! k)"
  shows "\<exists>evs mon'. log s' = log s @ evs \<and> monitor evs mon = Some mon' \<and> agrees mon' s'"
proof -
  from Draw_Inr[OF d] obtain k cs where
    k: "mCurrFrameResource s = Some k" "k < length (mFrameResources s)" and
    s': "s' = s\<lparr>mCurrentFence := (mCurrentFence s + 1) mod 2 ^ 64,
                  mFrameResources := (mFrameResources s)
                    [k := (mFrameResources s ! k)\<lparr>Fence := (mCurrentFence s + 1) mod 2 ^ 64\<rparr>],
                  log := log s
                    @ [AllocatorReset k, CommandListReset ''opaque'']
                    @ map Record cs
                    @ [CommandListClose, ExecuteCommandLists, Present,
                       Signal ((mCurrentFence s + 1) mod 2 ^ 64)]\<rparr>"
    by blast
  define mon' where "mon' = mon\<lparr>gate_open := False,
      recorded_fence := (recorded_fence mon)(k := (mCurrentFence s + 1) mod 2 ^ 64)\<rparr>"
  have m: "monitor ([AllocatorReset k, CommandListReset ''opaque'']
                    @ map Record cs
                    @ [CommandListClose, ExecuteCommandLists, Present,
                       Signal ((mCurrentFence s + 1) mod 2 ^ 64)]) mon = Some mon'"
    using sel k by (simp add: monitor_append monitor_records mon'_def)
  have "agrees mon' s'"
    unfolding agrees_def
  proof (intro conjI allI impI)
    show "selected mon' = mCurrFrameResource s'"
      using sel by (simp add: mon'_def s')
    show "\<not> gate_open mon'" by (simp add: mon'_def)
    fix j assume "j < length (mFrameResources s')"
    then have jl: "j < length (mFrameResources s)" by (simp add: s')
    show "recorded_fence mon' j = Fence (mFrameResources s' ! j)"
    proof (cases "j = k")
      case True
      with k show ?thesis by (simp add: mon'_def s')
    next
      case False
      with rf jl show ?thesis by (simp add: mon'_def s')
    qed
  qed
  with m show ?thesis
    by (intro exI[of _ "[AllocatorReset k, CommandListReset ''opaque'']
                    @ map Record cs
                    @ [CommandListClose, ExecuteCommandLists, Present,
                       Signal ((mCurrentFence s + 1) mod 2 ^ 64)]"] exI[of _ mon'])
       (simp add: s')
qed

lemma tick_monitor:
  assumes t: "tick W dev gt s = Inr s'" and a: "agrees mon s"
  shows "\<exists>evs mon'. log s' = log s @ evs \<and> monitor evs mon = Some mon' \<and> agrees mon' s'"
proof -
  from tick_Inr[OF t] obtain s1 where u: "Update W gt s = Inr s1" and d: "Draw dev gt s1 = Inr s'"
    by blast
  define mon1 where "mon1 = mon\<lparr>selected := Some ((mCurrFrameResourceIndex s + 1) mod gNumFrameResources),
                       gate_open := True\<rparr>"
  from Update_monitor[OF u a] obtain evs1 where
    l1: "log s1 = log s @ evs1" and m1: "monitor evs1 mon = Some mon1"
    unfolding mon1_def by blast
  from Update_effect[OF u] have c: "mCurrFrameResource s1 = Some ((mCurrFrameResourceIndex s + 1) mod gNumFrameResources)"
    by blast
  have len: "length (mFrameResources s1) = length (mFrameResources s)"
    using arg_cong[OF Update_capacities(1)[OF u], of length] by simp
  have fences: "\<forall>k < length (mFrameResources s1). recorded_fence mon1 k = Fence (mFrameResources s1 ! k)"
  proof (intro allI impI)
    fix k assume k: "k < length (mFrameResources s1)"
    from Update_capacities(2)[OF u] have "map Fence (mFrameResources s1) ! k = map Fence (mFrameResources s) ! k"
      by simp
    with k len have "Fence (mFrameResources s1 ! k) = Fence (mFrameResources s ! k)" by simp
    with a k len show "recorded_fence mon1 k = Fence (mFrameResources s1 ! k)"
      by (simp add: agrees_def mon1_def)
  qed
  from Draw_monitor[OF d _ fences] c obtain evs2 mon' where
    l2: "log s' = log s1 @ evs2" and m2: "monitor evs2 mon1 = Some mon'" and a': "agrees mon' s'"
    by (auto simp: mon1_def)
  from m1 m2 have "monitor (evs1 @ evs2) mon = Some mon'" by (simp add: monitor_append)
  with l1 l2 a' show ?thesis
    by (intro exI[of _ "evs1 @ evs2"] exI[of _ mon']) simp
qed

lemma run_monitor:
  "run W dev gts s = Inr s' \<Longrightarrow> agrees mon s \<Longrightarrow>
     \<exists>evs mon'. log s' = log s @ evs \<and> monitor evs mon = Some mon' \<and> agrees mon' s'"
proof (induction gts arbitrary: s mon)
  case Nil
  then show ?case by simp
next
  case (Cons gt gts)
  from Cons.prems(1) obtain s1 where t: "tick W dev gt s = Inr s1" and r: "run W dev gts s1 = Inr s'"
    by (auto split: sum.splits)
  from tick_monitor[OF t Cons.prems(2)] obtain evs1 mon1 where
    l1: "log s1 = log s @ evs1" and m1: "monitor evs1 mon = Some mon1" and a1: "agrees mon1 s1"
    by blast
  from Cons.IH[OF r a1] obtain evs2 mon' where
    l2: "log s' = log s1 @ evs2" and m2: "monitor evs2 mon1 = Some mon'" and a': "agrees mon' s'"
    by blast
  from m1 m2 have "monitor (evs1 @ evs2) mon = Some mon'" by (simp add: monitor_append)
  with l1 l2 a' show ?case
    by (intro exI[of _ "evs1 @ evs2"] exI[of _ mon']) simp
qed

lemma WinMain_monitor:
  assumes "WinMain W dev scene gts = Inr s"
  shows "wait_then_write (log s)"
proof -
  from WinMain_Inr[OF assms] obtain s0 where i: "Initialize scene = Inr s0"
    and r: "run W dev gts s0 = Inr s" by blast
  note f = Initialize_Inr[OF i]
  have "agrees initial_monitor s0"
    by (simp add: agrees_def initial_monitor_def f(6,8) NewFrameResource_def)
  from run_monitor[OF r this] f(9) show ?thesis
    by (auto simp: wait_then_write_def)
qed

lemma tick_writes_pass_constants:
  assumes "tick W dev gt s = Inr s'"
  shows "WritePassCB ((mCurrFrameResourceIndex s + 1) mod gNumFrameResources) 0
           (main_pass_constants gt (mMainPassCB s)) \<in> set (log s')"
proof -
  from tick_Inr[OF assms] obtain s1 where u: "Update W gt s = Inr s1" and d: "Draw dev gt s1 = Inr s'"
    by blast
  from Update_effect[OF u] have
    "WritePassCB ((mCurrFrameResourceIndex s + 1) mod gNumFrameResources) 0
           (main_pass_constants gt (mMainPassCB s)) \<in> set (log s1)"
    by auto
  moreover from Draw_Inr[OF d] have "set (log s1) \<subseteq> set (log s')" by auto
  ultimately show ?thesis by blast
qed

section \<open>The disturbances of a run\<close>

lemma disturb_calls_simps [simp]:
  "disturb_calls [] = []"
  "disturb_calls (e # evs) = disturb_of e @ disturb_calls evs"
  "disturb_calls (evs @ evs') = disturb_calls evs @ disturb_calls evs'"
  by (simp_all add: disturb_calls_def)

lemma disturb_calls_obj [simp]: "disturb_calls (map (obj_write k) es) = []"
  by (induction es) (simp_all add: obj_write_def)

lemma disturb_calls_mat [simp]: "disturb_calls (map (mat_write k) ms) = []"
  by (induction ms) (simp_all add: mat_write_def)

lemma disturb_calls_wave [simp]: "disturb_calls (map (wave_write k w) ns) = []"
  by (induction ns) (simp_all add: wave_write_def)

lemma disturb_calls_Record [simp]: "disturb_calls (map Record cs) = []"
  by (induction cs) simp_all

lemma tick_disturb:
  assumes t: "tick W dev gt s = Inr s'"
  shows "disturb_calls (log s') = disturb_calls (log s) @
           (if binary32 (gt_TotalTime gt - t_base s) \<ge> 0.25
            then [(Rand 4 (RowCount (mWaves s) - 5) (rand_i gt),
                   Rand 4 (ColumnCount (mWaves s) - 5) (rand_j gt),
                   RandF (binary32 0.2) 0.5 (rand_r gt))]
            else [])"
    and "t_base s' = (if binary32 (gt_TotalTime gt - t_base s) \<ge> 0.25 then binary32 (t_base s + 0.25) else t_base s)"
    and "mWaves s' = Waves_Update W (gt_DeltaTime gt) (mWaves (UpdateWaves_disturb W gt s))"
proof -
  from tick_Inr[OF t] obtain s1 where u: "Update W gt s = Inr s1" and d: "Draw dev gt s1 = Inr s'"
    by blast
  from Update_effect[OF u] have
    l1: "disturb_calls (log s1) = disturb_calls (log s) @
           (if binary32 (gt_TotalTime gt - t_base s) \<ge> 0.25
            then [(Rand 4 (RowCount (mWaves s) - 5) (rand_i gt),
                   Rand 4 (ColumnCount (mWaves s) - 5) (rand_j gt),
                   RandF (binary32 0.2) 0.5 (rand_r gt))]
            else [])" and
    t1: "t_base s1 = t_base (UpdateWaves_disturb W gt s)" and
    w1: "mWaves s1 = Waves_Update W (gt_DeltaTime gt) (mWaves (UpdateWaves_disturb W gt s))"
    by auto
  from Draw_Inr[OF d] have
    l2: "disturb_calls (log s') = disturb_calls (log s1)" and
    same: "t_base s' = t_base s1" "mWaves s' = mWaves s1"
    by auto
  from l1 l2 show "disturb_calls (log s') = disturb_calls (log s) @
           (if binary32 (gt_TotalTime gt - t_base s) \<ge> 0.25
            then [(Rand 4 (RowCount (mWaves s) - 5) (rand_i gt),
                   Rand 4 (ColumnCount (mWaves s) - 5) (rand_j gt),
                   RandF (binary32 0.2) 0.5 (rand_r gt))]
            else [])"
    by simp
  from t1 same show "t_base s' = (if binary32 (gt_TotalTime gt - t_base s) \<ge> 0.25 then binary32 (t_base s + 0.25) else t_base s)"
    by (simp add: UpdateWaves_disturb_def Let_def)
  from w1 same show "mWaves s' = Waves_Update W (gt_DeltaTime gt) (mWaves (UpdateWaves_disturb W gt s))"
    by simp
qed


subsection \<open>Single precision at the quarter seconds\<close>

lemma floor_log2:
  assumes "2 powr of_int e \<le> x" "x < 2 powr (of_int e + 1)"
  shows "\<lfloor>Transcendental.log 2 x\<rfloor> = e"
proof -
  have "0 < x" using assms(1) by (smt (verit) powr_gt_zero)
  then show ?thesis using assms
    by (simp add: floor_log_eq_powr_iff)
qed

text \<open>A multiple of \<open>2^(e-23)\<close> in \<open>[2^e, 2^(e+1))\<close> is a float: rounding returns it.\<close>

lemma binary32_representable:
  assumes "2 powr of_int e \<le> x" "x < 2 powr (of_int e + 1)"
    and "x = of_int m * 2 powr (of_int e - 23)"
  shows "binary32 x = x"
proof -
  define u :: real where "u = 2 powr (of_int e - 23)"
  have u: "u > 0" by (simp add: u_def)
  have x: "0 < x" using assms(1) by (smt (verit) powr_gt_zero)
  then have a: "\<bar>x\<bar> = x" by simp
  have e: "\<lfloor>Transcendental.log 2 x\<rfloor> = e" by (rule floor_log2[OF assms(1,2)])
  from assms(3) have q: "x / u = of_int m" using u by (simp add: u_def)
  have "binary32 x = of_int m * u"
    using x unfolding binary32_def a e u_def[symmetric] Let_def q by simp
  also have "\<dots> = x" using assms(3) by (simp add: u_def)
  finally show ?thesis .
qed

text \<open>The multiples of a quarter up to \<open>2^22\<close> have at most 24 significant bits.\<close>

lemma binary32_quarters:
  assumes "1 \<le> n" "n \<le> 2 ^ 24"
  shows "binary32 (real n / 4) = real n / 4"
proof -
  define x where "x = real n / 4"
  define e where "e = \<lfloor>Transcendental.log 2 x\<rfloor>"
  have x: "0 < x" "x \<le> 2 ^ 22" using assms by (simp_all add: x_def)
  from x(1) have b: "2 powr of_int e \<le> x" "x < 2 powr (of_int e + 1)"
    using floor_log_eq_powr_iff[of x 2 e] by (simp_all add: e_def)
  have "(2::real) powr 22 = 2 ^ 22" by (simp add: powr_realpow[symmetric])
  with b(1) x(2) have "(2::real) powr of_int e \<le> 2 powr of_int 22" by simp
  then have e22: "e \<le> 22" by (simp only: powr_le_cancel_iff of_int_le_iff)
  show ?thesis unfolding x_def[symmetric]
  proof (cases "e \<le> 21")
    case True
    define m where "m = int n * 2 ^ nat (21 - e)"
    have "(of_int e - 23 :: real) = (- 2) - of_int (21 - e)" by simp
    then have "(2::real) powr (of_int e - 23) = 2 powr (- 2) / 2 powr (of_int (21 - e))"
      by (simp only: powr_diff)
    also have "(2::real) powr (of_int (21 - e)) = 2 ^ nat (21 - e)"
    proof -
      from True have "(of_int (21 - e) :: real) = real (nat (21 - e))" by simp
      then show ?thesis by (simp only: powr_realpow[of 2, simplified])
    qed
    finally have "x = of_int m * 2 powr (of_int e - 23)"
      by (simp add: m_def x_def powr_minus_divide)
    then show "binary32 x = x" by (rule binary32_representable[OF b])
  next
    case False
    with e22 have e: "e = 22" by simp
    with b(1) x(2) have "x = 2 ^ 22" by (simp add: powr_realpow[symmetric])
    moreover have "(2::real) powr (- 1) = 1 / 2" by (simp add: powr_minus_divide)
    ultimately have "x = of_int (2 ^ 23) * 2 powr (of_int e - 23)"
      by (simp add: e)
    then show "binary32 x = x" by (rule binary32_representable[OF b])
  qed
qed

lemma binary32_next_quarter:
  assumes "n < 2 ^ 24"
  shows "binary32 (real n / 4 + 0.25) = real (Suc n) / 4"
proof -
  have "real n / 4 + 0.25 = real (Suc n) / 4" by simp
  moreover have "binary32 (real (Suc n) / 4) = real (Suc n) / 4"
    by (rule binary32_quarters) (use assms in simp_all)
  ultimately show ?thesis by (simp only:)
qed

lemma binary32_quarter: "binary32 0.25 = 0.25"
  using binary32_quarters[of 1] by simp

lemma binary32_half: "binary32 0.5 = 0.5"
  using binary32_quarters[of 2] by simp

text \<open>
  From \<open>2^22\<close> on the floats are half a unit apart: \<open>2^22 + 0.25\<close> lies midway between
  \<open>2^22\<close> and \<open>2^22 + 0.5\<close> and is rounded to the one with the even significand.
\<close>

lemma binary32_saturates: "binary32 (4194304 + 0.25) = 4194304"
proof -
  have e: "\<lfloor>Transcendental.log 2 (4194304 + 1/4::real)\<rfloor> = 22"
    by (rule floor_log2) (simp_all add: powr_realpow[symmetric] powr_add)
  have u: "2 powr (of_int (22::int) - 23) = (1/2::real)"
    by (simp add: powr_minus_divide)
  have f: "\<lfloor>(4194304 + 1/4) / (1/2::real)\<rfloor> = 8388608" by (simp add: floor_eq_iff)
  have a: "\<bar>4194304 + 1/4::real\<bar> = 4194304 + 1/4" by simp
  have "binary32 (4194304 + 1/4) = 4194304"
    unfolding binary32_def Let_def a e u f by simp
  then show ?thesis by simp
qed

subsection \<open>A session that outlasts the precision of \<open>t_base\<close>\<close>

lemma quarter_second_ticks_Suc:
  "quarter_second_ticks (Suc n) = quarter_second_ticks n @ [example_tick (real (Suc n) / 4)]"
proof -
  have "[1 ..< Suc (Suc n)] = [1 ..< Suc n] @ [Suc n]" by simp
  then show ?thesis by (simp only: quarter_second_ticks_def map_append list.map)
qed

lemma one_tick:
  "run W dev [gt] s = Inr s' \<Longrightarrow> tick W dev gt s = Inr s'"
  by (simp split: sum.splits)

text \<open>While \<open>t_base\<close> is exact, a tick every quarter second disturbs once per tick.\<close>

lemma run_quarter_second_ticks:
  assumes "run W dev (quarter_second_ticks n) s = Inr s'" "t_base s = 0" "n \<le> 2 ^ 24"
  shows "t_base s' = real n / 4 \<and>
         length (disturb_calls (log s')) = length (disturb_calls (log s)) + n"
  using assms
proof (induction n arbitrary: s')
  case 0
  then show ?case by (simp add: quarter_second_ticks_def)
next
  case (Suc n)
  from Suc.prems(1) obtain s1 where
    r: "run W dev (quarter_second_ticks n) s = Inr s1" and
    t: "tick W dev (example_tick (real (Suc n) / 4)) s1 = Inr s'"
    unfolding quarter_second_ticks_Suc run_append
    by (auto split: sum.splits dest: one_tick)
  from Suc.prems(3) have n: "n < 2 ^ 24" by simp
  from Suc.IH[OF r Suc.prems(2)] n have
    tb: "t_base s1 = real n / 4" and
    c: "length (disturb_calls (log s1)) = length (disturb_calls (log s)) + n"
    by simp_all
  have "real (Suc n) / 4 - real n / 4 = 0.25" by (simp add: field_simps)
  then have "gt_TotalTime (example_tick (real (Suc n) / 4)) - t_base s1 = 0.25"
    by (simp only: tb) (simp add: example_tick_def)
  then have fires: "binary32 (gt_TotalTime (example_tick (real (Suc n) / 4)) - t_base s1) \<ge> 0.25"
    by (simp only: binary32_quarter)
  note td = tick_disturb[OF t]
  from td(2) fires have "t_base s' = binary32 (real n / 4 + 0.25)" by (simp add: tb)
  then have "t_base s' = real (Suc n) / 4" by (simp only: binary32_next_quarter[OF n])
  moreover from td(1) fires have "length (disturb_calls (log s')) = Suc (length (disturb_calls (log s1)))"
    by simp
  ultimately show ?case using c by simp
qed

text \<open>Once \<open>t_base\<close> is \<open>2^22\<close> it stays there, and every tick disturbs.\<close>

lemma run_late_ticks:
  assumes "run W dev (replicate n late_tick) s = Inr s'" "t_base s = 4194304"
  shows "t_base s' = 4194304 \<and>
         length (disturb_calls (log s')) = length (disturb_calls (log s)) + n"
  using assms
proof (induction n arbitrary: s)
  case 0
  then show ?case by simp
next
  case (Suc n)
  from Suc.prems(1) obtain s1 where t: "tick W dev late_tick s = Inr s1"
    and r: "run W dev (replicate n late_tick) s1 = Inr s'"
    by (auto split: sum.splits)
  have "gt_TotalTime late_tick - t_base s = 0.5"
    by (simp add: late_tick_def example_tick_def Suc.prems(2))
  then have fires: "binary32 (gt_TotalTime late_tick - t_base s) \<ge> 0.25"
    by (simp only: binary32_half) simp
  note td = tick_disturb[OF t]
  from td(2) fires have "t_base s1 = binary32 (4194304 + 0.25)" by (simp add: Suc.prems(2))
  then have tb: "t_base s1 = 4194304" by (simp only: binary32_saturates)
  from td(1) fires have "length (disturb_calls (log s1)) = Suc (length (disturb_calls (log s)))"
    by simp
  with Suc.IH[OF r tb] show ?case by simp
qed

lemma late_session:
  assumes "WinMain W dev scene (quarter_second_ticks (2 ^ 24) @ replicate n late_tick) = Inr s"
  shows "length (disturb_calls (log s)) = 2 ^ 24 + n" and "t_base s = 4194304"
proof -
  from WinMain_Inr[OF assms] obtain s0 where i: "Initialize scene = Inr s0"
    and r: "run W dev (quarter_second_ticks (2 ^ 24) @ replicate n late_tick) s0 = Inr s" by blast
  note f = Initialize_Inr[OF i]
  from r obtain s1 where
    r1: "run W dev (quarter_second_ticks (2 ^ 24)) s0 = Inr s1" and
    r2: "run W dev (replicate n late_tick) s1 = Inr s"
    unfolding run_append by (auto split: sum.splits)
  from run_quarter_second_ticks[OF r1 f(11)] f(9) have
    a: "t_base s1 = 4194304" "length (disturb_calls (log s1)) = 2 ^ 24"
    by simp_all
  from run_late_ticks[OF r2 a(1)] a(2)
  show "length (disturb_calls (log s)) = 2 ^ 24 + n" and "t_base s = 4194304"
    by simp_all
qed

lemma late_session_exists:
  "\<exists>s. WinMain still_water example_device example_scene
          (quarter_second_ticks (2 ^ 24) @ replicate n late_tick) = Inr s"
proof -
  have "quarter_second_ticks (2 ^ 24) @ replicate n late_tick =
        map example_tick (map (\<lambda>k. real k / 4) [1 ..< Suc (2 ^ 24)] @ replicate n 4194304.5)"
    by (simp only: quarter_second_ticks_def late_tick_def map_append map_replicate)
  then show ?thesis by (simp only: example_run_exists)
qed

section \<open>The constant writes of a tick\<close>

lemma object_writes_simps [simp]:
  "object_writes i [] = []"
  "object_writes i (e # evs) = object_write_of i e @ object_writes i evs"
  "object_writes i (evs @ evs') = object_writes i evs @ object_writes i evs'"
  by (simp_all add: object_writes_def)

lemma object_writes_obj [simp]:
  "object_writes i (map (obj_write k) es) =
     map (\<lambda>e. (k, objConstants_of e)) (filter (\<lambda>e. ObjCBIndex e = i) es)"
  by (induction es) (simp_all add: obj_write_def)

lemma object_writes_mat [simp]: "object_writes i (map (mat_write k) ms) = []"
  by (induction ms) (simp_all add: mat_write_def)

lemma object_writes_wave [simp]: "object_writes i (map (wave_write k w) ns) = []"
  by (induction ns) (simp_all add: wave_write_def)

lemma object_writes_Record [simp]: "object_writes i (map Record cs) = []"
  by (induction cs) simp_all

lemma material_writes_simps [simp]:
  "material_writes i [] = []"
  "material_writes i (e # evs) = material_write_of i e @ material_writes i evs"
  "material_writes i (evs @ evs') = material_writes i evs @ material_writes i evs'"
  by (simp_all add: material_writes_def)

lemma material_writes_mat [simp]:
  "material_writes i (map (mat_write k) ms) =
     map (\<lambda>m. (k, matConstants_of m)) (filter (\<lambda>m. MatCBIndex m = i) ms)"
  by (induction ms) (simp_all add: mat_write_def)

lemma material_writes_obj [simp]: "material_writes i (map (obj_write k) es) = []"
  by (induction es) (simp_all add: obj_write_def)

lemma material_writes_wave [simp]: "material_writes i (map (wave_write k w) ns) = []"
  by (induction ns) (simp_all add: wave_write_def)

lemma material_writes_Record [simp]: "material_writes i (map Record cs) = []"
  by (induction cs) simp_all

lemma filter_by_distinct_key:
  assumes "distinct (map f xs)" "p < length xs"
  shows "filter (\<lambda>x. f x = f (xs ! p)) xs = [xs ! p]"
  using assms
proof (induction xs arbitrary: p)
  case Nil
  then show ?case by simp
next
  case (Cons x xs)
  show ?case
  proof (cases p)
    case 0
    from Cons.prems(1) have "f x \<notin> f ` set xs" by simp
    then have "\<forall>y\<in>set xs. f y \<noteq> f x" by (metis imageI)
    then have "filter (\<lambda>y. f y = f x) xs = []" by (simp add: filter_empty_conv)
    with 0 show ?thesis by simp
  next
    case (Suc q)
    with Cons.prems have q: "q < length xs" and d: "distinct (map f xs)" by simp_all
    from Cons.prems(1) have "f x \<notin> f ` set xs" by simp
    moreover from q have "xs ! q \<in> set xs" by (rule nth_mem)
    ultimately have "f (xs ! q) \<noteq> f x" by (metis imageI)
    with Cons.IH[OF d q] Suc show ?thesis by simp
  qed
qed

lemma Draw_log_shape:
  assumes "Draw dev gt s = Inr s'"
  shows "\<exists>k cs fence. log s' = log s @ [AllocatorReset k, CommandListReset ''opaque'']
           @ map Record cs @ [CommandListClose, ExecuteCommandLists, Present, Signal fence]"
proof -
  from Draw_Inr[OF assms] obtain k cs fence where
    "s' = s\<lparr>mCurrentFence := fence,
             mFrameResources := (mFrameResources s)[k := (mFrameResources s ! k)\<lparr>Fence := fence\<rparr>],
             log := log s @ [AllocatorReset k, CommandListReset ''opaque'']
                    @ map Record cs
                    @ [CommandListClose, ExecuteCommandLists, Present, Signal fence]\<rparr>"
    by blast
  then have "log s' = log s @ [AllocatorReset k, CommandListReset ''opaque'']
           @ map Record cs @ [CommandListClose, ExecuteCommandLists, Present, Signal fence]"
    by simp
  then show ?thesis by blast
qed

lemma tick_constant_writes:
  assumes t: "tick W dev gt s = Inr s'" and d: "distinct (map fst (mMaterials s))"
  shows "\<exists>evs. log s' = log s @ evs \<and>
           object_writes i evs =
             map (\<lambda>e. ((mCurrFrameResourceIndex s + 1) mod gNumFrameResources, objConstants_of e))
                 (filter (\<lambda>e. ObjCBIndex e = i) (filter ritem_dirty (mAllRitems s))) \<and>
           material_writes j evs =
             map (\<lambda>m. ((mCurrFrameResourceIndex s + 1) mod gNumFrameResources, matConstants_of m))
                 (filter (\<lambda>m. MatCBIndex m = j) (filter mat_dirty (map (mat_seen gt) (mMaterials s))))"
    and "mAllRitems s' = map ritem_tick (mAllRitems s)"
    and "mMaterials s' = map (mat_step gt) (mMaterials s)"
    and "mCurrFrameResourceIndex s' = (mCurrFrameResourceIndex s + 1) mod gNumFrameResources"
proof -
  define k where "k = (mCurrFrameResourceIndex s + 1) mod gNumFrameResources"
  from tick_Inr[OF t] obtain s1 where u: "Update W gt s = Inr s1" and dr: "Draw dev gt s1 = Inr s'"
    by blast
  define f where "f = Fence (mFrameResources s ! k)"
  define c where "c = GetCompletedValue gt"
  define mats where "mats = map snd (AList.update ''water''
           (the (map_of (mMaterials s) ''water'')
              \<lparr>Material.MatTransform := scroll_water (gt_DeltaTime gt)
                 (Material.MatTransform (the (map_of (mMaterials s) ''water''))),
               Material.NumFramesDirty := int gNumFrameResources\<rparr>) (mMaterials s))"
  from Update_effect[OF u] obtain wm where wm: "map_of (mMaterials s) ''water'' = Some wm"
    by blast
  from Update_effect[OF u] have items: "mAllRitems s1 = map ritem_tick (mAllRitems s)"
    and idx: "mCurrFrameResourceIndex s1 = k"
    unfolding k_def by blast+
  from Update_effect[OF u] wm obtain pc dc w ns p r where
    lg: "log s1 = log s
        @ [SelectSlot k, FenceCheck k f c]
        @ (if f \<noteq> 0 \<and> c < f then [WaitForSingleObject k f] else [])
        @ map (obj_write k) (filter ritem_dirty (mAllRitems s))
        @ map (mat_write k) (filter mat_dirty mats)
        @ [WritePassCB k 0 pc]
        @ (if binary32 (gt_TotalTime gt - t_base s) \<ge> 0.25 then [DisturbCall (fst dc) (fst (snd dc)) (snd (snd dc))] else [])
        @ [WavesUpdateCall (gt_DeltaTime gt)]
        @ map (wave_write k w) ns
        @ [RebindWavesVB p r]"
    unfolding k_def f_def c_def mats_def by fastforce
  have up: "mats = map (mat_seen gt) (mMaterials s)"
    unfolding mats_def using animate_as_map[OF d wm, of gt] wm by (simp add: water_rearm_def comp_def)
  from Draw_log_shape[OF dr] obtain k' cs fence where
    l2: "log s' = log s1 @ [AllocatorReset k', CommandListReset ''opaque''] @ map Record cs
           @ [CommandListClose, ExecuteCommandLists, Present, Signal fence]"
    by blast
  from Draw_Inr[OF dr] have same: "mAllRitems s' = mAllRitems s1" "mMaterials s' = mMaterials s1"
      "mCurrFrameResourceIndex s' = mCurrFrameResourceIndex s1"
    by auto
  show "\<exists>evs. log s' = log s @ evs \<and>
           object_writes i evs =
             map (\<lambda>e. ((mCurrFrameResourceIndex s + 1) mod gNumFrameResources, objConstants_of e))
                 (filter (\<lambda>e. ObjCBIndex e = i) (filter ritem_dirty (mAllRitems s))) \<and>
           material_writes j evs =
             map (\<lambda>m. ((mCurrFrameResourceIndex s + 1) mod gNumFrameResources, matConstants_of m))
                 (filter (\<lambda>m. MatCBIndex m = j) (filter mat_dirty (map (mat_seen gt) (mMaterials s))))"
    unfolding k_def[symmetric]
    by (rule exI[of _ "[SelectSlot k, FenceCheck k f c]
        @ (if f \<noteq> 0 \<and> c < f then [WaitForSingleObject k f] else [])
        @ map (obj_write k) (filter ritem_dirty (mAllRitems s))
        @ map (mat_write k) (filter mat_dirty mats)
        @ [WritePassCB k 0 pc]
        @ (if binary32 (gt_TotalTime gt - t_base s) \<ge> 0.25 then [DisturbCall (fst dc) (fst (snd dc)) (snd (snd dc))] else [])
        @ [WavesUpdateCall (gt_DeltaTime gt)]
        @ map (wave_write k w) ns
        @ [RebindWavesVB p r] @ [AllocatorReset k', CommandListReset ''opaque''] @ map Record cs
           @ [CommandListClose, ExecuteCommandLists, Present, Signal fence]"])
       (simp add: l2 lg up)
  show "mAllRitems s' = map ritem_tick (mAllRitems s)" by (simp add: same items)
  show "mMaterials s' = map (mat_step gt) (mMaterials s)"
    by (simp add: same Update_materials[OF u d])
  show "mCurrFrameResourceIndex s' = (mCurrFrameResourceIndex s + 1) mod gNumFrameResources"
    by (simp add: same idx k_def)
qed

section \<open>Dirty counters over a run\<close>

lemma filter_dirty_by_key:
  assumes "distinct (map f xs)" "p < length xs"
  shows "filter (\<lambda>x. f x = f (xs ! p)) (filter P xs) = (if P (xs ! p) then [xs ! p] else [])"
proof -
  have "filter (\<lambda>x. f x = f (xs ! p)) (filter P xs) = filter P (filter (\<lambda>x. f x = f (xs ! p)) xs)"
    by (simp add: conj_commute)
  then show ?thesis by (simp add: filter_by_distinct_key[OF assms])
qed

lemma cyclic_shift_map:
  "map (\<lambda>i. g ((a + 1 + i) mod (c::nat))) [0 ..< Suc n] =
     g ((a + 1) mod c) # map (\<lambda>i. g (((a + 1) mod c + 1 + i) mod c)) [0 ..< n]"
  using arg_cong[OF cyclic_shift[of a c n], of "map g"]
  by (simp add: comp_def del: upt_Suc)

lemma objConstants_of_tick [simp]: "objConstants_of (ritem_tick e) = objConstants_of e"
  by (simp add: objConstants_of_def)

lemma matConstants_of_tick [simp]: "matConstants_of (mat_tick m) = matConstants_of m"
  by (simp add: matConstants_of_def)


lemma mat_tick_counter:
  "Material.NumFramesDirty m = int d \<Longrightarrow> mat_tick m = m\<lparr>Material.NumFramesDirty := int (d - 1)\<rparr>"
  by (cases d) (simp_all add: mat_tick_def mat_dirty_def)


lemma run_material_writes:
  assumes "run W dev gts s = Inr s'"
    and "distinct (map fst (mMaterials s))"
    and "distinct (map (\<lambda>nm. MatCBIndex (snd nm)) (mMaterials s))"
    and "q < length (mMaterials s)"
    and "fst (mMaterials s ! q) \<noteq> ''water''"
    and "Material.NumFramesDirty (snd (mMaterials s ! q)) = int d"
  shows "(\<exists>evs. log s' = log s @ evs \<and>
           material_writes (MatCBIndex (snd (mMaterials s ! q))) evs =
             map (\<lambda>j. ((mCurrFrameResourceIndex s + 1 + j) mod gNumFrameResources,
                        matConstants_of (snd (mMaterials s ! q)))) [0 ..< min (length gts) d]) \<and>
         mMaterials s' ! q =
           (fst (mMaterials s ! q),
            (snd (mMaterials s ! q))\<lparr>Material.NumFramesDirty := int (d - min (length gts) d)\<rparr>) \<and>
         length (mMaterials s') = length (mMaterials s)"
  using assms
proof (induction gts arbitrary: s d)
  case Nil
  then show ?case by (simp add: prod_eq_iff)
next
  case (Cons gt gts)
  define name where "name = fst (mMaterials s ! q)"
  define m where "m = snd (mMaterials s ! q)"
  define k where "k = (mCurrFrameResourceIndex s + 1) mod gNumFrameResources"
  define seen where "seen = map (mat_seen gt) (mMaterials s)"
  from Cons.prems(1) obtain s1 where t: "tick W dev gt s = Inr s1" and r: "run W dev gts s1 = Inr s'"
    by (auto split: sum.splits)
  note tw = tick_constant_writes[OF t Cons.prems(2)]
  have nw: "name \<noteq> ''water''" using Cons.prems(5) by (simp add: name_def)
  have sq: "seen ! q = m" "q < length seen"
    using Cons.prems(4) nw by (simp_all add: seen_def mat_seen_def m_def name_def)
  have sd: "distinct (map MatCBIndex seen)"
    using Cons.prems(3) by (simp add: seen_def comp_def)
  from tw(1)[of 0 "MatCBIndex m"] obtain evs1 where
    l1: "log s1 = log s @ evs1" and
    w1: "material_writes (MatCBIndex m) evs1 =
           map (\<lambda>m. (k, matConstants_of m))
               (filter (\<lambda>m'. MatCBIndex m' = MatCBIndex (seen ! q)) (filter mat_dirty seen))"
    unfolding k_def seen_def[symmetric] sq(1) by blast
  have fk: "filter (\<lambda>m'. MatCBIndex m' = MatCBIndex (seen ! q)) (filter mat_dirty seen) =
            (if mat_dirty (seen ! q) then [seen ! q] else [])"
    by (rule filter_dirty_by_key[OF sd sq(2)])
  have rd: "mat_dirty m \<longleftrightarrow> 0 < d"
    using Cons.prems(6) by (simp add: m_def mat_dirty_def)
  have w1': "material_writes (MatCBIndex m) evs1 = (if 0 < d then [(k, matConstants_of m)] else [])"
    by (simp only: w1[unfolded sq(1)] fk[unfolded sq(1)] rd) simp
  have e1: "mMaterials s1 ! q = (name, m\<lparr>Material.NumFramesDirty := int (d - 1)\<rparr>)"
    using Cons.prems(4,6) nw mat_tick_counter[of m d]
    by (simp add: tw(3) mat_step_def m_def name_def)
  have keys: "distinct (map fst (mMaterials s1))"
    using Cons.prems(2) by (simp add: tw(3) comp_def)
  have idxs: "distinct (map (\<lambda>nm. MatCBIndex (snd nm)) (mMaterials s1))"
    using Cons.prems(3) by (simp add: tw(3) comp_def)
  have len: "q < length (mMaterials s1)" using Cons.prems(4) by (simp add: tw(3))
  have nw1: "fst (mMaterials s1 ! q) \<noteq> ''water''" using nw by (simp add: e1)
  have cnt: "Material.NumFramesDirty (snd (mMaterials s1 ! q)) = int (d - 1)" by (simp add: e1)
  have oc: "matConstants_of (m\<lparr>Material.NumFramesDirty := int (d - 1)\<rparr>) = matConstants_of m"
    by (simp add: matConstants_of_def)
  have n1: "length (mMaterials s1) = length (mMaterials s)" by (simp add: tw(3))
  have k1: "mCurrFrameResourceIndex s1 = k" by (simp add: tw(4) k_def)
  note ih = Cons.IH[OF r keys idxs len nw1 cnt, unfolded e1 fst_conv snd_conv oc n1 k1]
  from ih obtain evs2 where
    l2: "log s' = log s1 @ evs2" and
    w2: "material_writes (MatCBIndex (m\<lparr>Material.NumFramesDirty := int (d - 1)\<rparr>)) evs2 =
           map (\<lambda>j. ((k + 1 + j) mod gNumFrameResources, matConstants_of m)) [0 ..< min (length gts) (d - 1)]"
    by blast
  from ih have
    f2: "mMaterials s' ! q = (name, m\<lparr>Material.NumFramesDirty := int (d - 1 - min (length gts) (d - 1))\<rparr>)" and
    n2: "length (mMaterials s') = length (mMaterials s)"
    by simp_all
  have w2': "material_writes (MatCBIndex m) evs2 =
           map (\<lambda>j. ((k + 1 + j) mod gNumFrameResources, matConstants_of m)) [0 ..< min (length gts) (d - 1)]"
    using w2 by simp
  have w: "material_writes (MatCBIndex m) (evs1 @ evs2) =
             map (\<lambda>j. ((mCurrFrameResourceIndex s + 1 + j) mod gNumFrameResources, matConstants_of m))
                 [0 ..< min (length (gt # gts)) d]"
  proof (cases d)
    case 0
    then show ?thesis by (simp add: w1' w2')
  next
    case (Suc d')
    have mn: "min (length (gt # gts)) d = Suc (min (length gts) d')" using Suc by simp
    have "material_writes (MatCBIndex m) (evs1 @ evs2) =
            (k, matConstants_of m) #
            map (\<lambda>j. ((k + 1 + j) mod gNumFrameResources, matConstants_of m)) [0 ..< min (length gts) d']"
      using Suc by (simp add: w1' w2')
    also have "\<dots> = map (\<lambda>j. ((mCurrFrameResourceIndex s + 1 + j) mod gNumFrameResources, matConstants_of m))
                        [0 ..< Suc (min (length gts) d')]"
      unfolding k_def by (rule cyclic_shift_map[of "\<lambda>x. (x, matConstants_of m)", symmetric])
    finally show ?thesis unfolding mn .
  qed
  have f: "mMaterials s' ! q = (name, m\<lparr>Material.NumFramesDirty := int (d - min (length (gt # gts)) d)\<rparr>)"
    unfolding f2 by (cases d) simp_all
  from l1 l2 have "log s' = log s @ (evs1 @ evs2)" by simp
  with w f n2 show ?case unfolding m_def name_def by blast
qed


section \<open>The constant buffers after a tick\<close>

lemma find_by_distinct_key:
  assumes "distinct (map f xs)" "p < length xs"
  shows "find (\<lambda>x. f x = f (xs ! p)) xs = Some (xs ! p)"
  using assms
proof (induction xs arbitrary: p)
  case Nil
  then show ?case by simp
next
  case (Cons x xs)
  show ?case
  proof (cases p)
    case 0
    then show ?thesis by simp
  next
    case (Suc q)
    with Cons.prems have q: "q < length xs" and d: "distinct (map f xs)" by simp_all
    from Cons.prems(1) have "f x \<notin> f ` set xs" by simp
    moreover from q have "xs ! q \<in> set xs" by (rule nth_mem)
    ultimately have "f x \<noteq> f (xs ! q)" by (metis imageI)
    with Cons.IH[OF d q] Suc show ?thesis by simp
  qed
qed

lemma Draw_keeps_buffers:
  assumes "Draw dev gt s = Inr s'"
  shows "map ObjectCB (mFrameResources s') = map ObjectCB (mFrameResources s)"
    and "map MaterialCB (mFrameResources s') = map MaterialCB (mFrameResources s)"
    and "map WavesVB (mFrameResources s') = map WavesVB (mFrameResources s)"
    and "map PassCB (mFrameResources s') = map PassCB (mFrameResources s)"
proof -
  from Draw_Inr[OF assms] obtain k fence where
    k: "k < length (mFrameResources s)" and
    f: "mFrameResources s' = (mFrameResources s)[k := (mFrameResources s ! k)\<lparr>Fence := fence\<rparr>]"
    by auto
  show "map ObjectCB (mFrameResources s') = map ObjectCB (mFrameResources s)"
    "map MaterialCB (mFrameResources s') = map MaterialCB (mFrameResources s)"
    "map WavesVB (mFrameResources s') = map WavesVB (mFrameResources s)"
    "map PassCB (mFrameResources s') = map PassCB (mFrameResources s)"
    unfolding f using k by (simp_all add: list_update_same_image)
qed


lemma tick_frames_length:
  assumes "tick W dev gt s = Inr s'"
  shows "length (mFrameResources s') = length (mFrameResources s)"
proof -
  from tick_Inr[OF assms] obtain s1 where u: "Update W gt s = Inr s1" and dr: "Draw dev gt s1 = Inr s'"
    by blast
  from arg_cong[OF Update_capacities(1)[OF u], of length] arg_cong[OF Draw_keeps_buffers(1)[OF dr], of length]
  show ?thesis by simp
qed

lemma tick_material_buffer:
  assumes t: "tick W dev gt s = Inr s'"
    and dk: "distinct (map fst (mMaterials s))"
    and d: "distinct (map (\<lambda>nm. MatCBIndex (snd nm)) (mMaterials s))"
    and q: "q < length (mMaterials s)"
    and k': "k' < length (mFrameResources s)"
  shows "mMappedData (MaterialCB (mFrameResources s' ! k')) ! MatCBIndex (snd (mMaterials s ! q)) =
           (if k' = (mCurrFrameResourceIndex s + 1) mod gNumFrameResources \<and>
               mat_dirty (mat_seen gt (mMaterials s ! q))
            then Some (matConstants_of (mat_seen gt (mMaterials s ! q)))
            else mMappedData (MaterialCB (mFrameResources s ! k')) ! MatCBIndex (snd (mMaterials s ! q)))"
proof -
  define k where "k = (mCurrFrameResourceIndex s + 1) mod gNumFrameResources"
  define fr where "fr = mFrameResources s ! k"
  define seen where "seen = map (mat_seen gt) (mMaterials s)"
  from tick_Inr[OF t] obtain s1 where u: "Update W gt s = Inr s1" and dr: "Draw dev gt s1 = Inr s'"
    by blast
  from Update_effect[OF u] obtain wm where wm: "map_of (mMaterials s) ''water'' = Some wm"
    by blast
  have up: "AList.update ''water''
           (wm\<lparr>Material.MatTransform := scroll_water (gt_DeltaTime gt) (Material.MatTransform wm),
               Material.NumFramesDirty := int gNumFrameResources\<rparr>) (mMaterials s) =
           map (\<lambda>nm. (fst nm, mat_seen gt nm)) (mMaterials s)"
    using animate_as_map[OF dk wm, of gt] by (simp add: water_rearm_def)
  from Update_effect[OF u] wm obtain cbM ms' evs fr1 where
    kl: "k < length (mFrameResources s)" and
    lp: "UpdateMaterialCBs_loop k (map (\<lambda>nm. (fst nm, mat_seen gt nm)) (mMaterials s)) (MaterialCB fr) =
           Inr (ms', cbM, evs)" and
    f1: "mFrameResources s1 = (mFrameResources s)[k := fr1]" and
    o1: "MaterialCB fr1 = cbM"
    unfolding k_def fr_def up[symmetric] by fastforce
  have sn: "map snd (map (\<lambda>nm. (fst nm, mat_seen gt nm)) (mMaterials s)) = seen"
    by (simp add: seen_def comp_def)
  have sd: "distinct (map MatCBIndex seen)"
    using d by (simp add: seen_def comp_def)
  have sq: "q < length seen" "seen ! q = mat_seen gt (mMaterials s ! q)"
    using q by (simp_all add: seen_def)
  have ix: "MatCBIndex (seen ! q) = MatCBIndex (snd (mMaterials s ! q))" by (simp add: sq(2))
  note data = UpdateMaterialCBs_loop_data[OF lp, unfolded sn, OF sd, of "MatCBIndex (seen ! q)",
      unfolded find_by_distinct_key[OF sd sq(1)] option.case]
  note keep = Draw_keeps_buffers(2)[OF dr]
  have l1: "length (mFrameResources s1) = length (mFrameResources s)" by (simp add: f1)
  from arg_cong[OF keep, of length] have "length (mFrameResources s') = length (mFrameResources s)"
    by (simp add: l1)
  from arg_cong[OF keep, of "\<lambda>xs. xs ! k'"] k' l1 this
  have "MaterialCB (mFrameResources s' ! k') = MaterialCB (mFrameResources s1 ! k')" by simp
  also have "\<dots> = (if k' = k then cbM else MaterialCB (mFrameResources s ! k'))"
    using k' kl by (simp add: f1 o1 nth_list_update)
  finally show ?thesis
    using data unfolding k_def[symmetric] ix sq(2) by (simp add: fr_def)
qed
section \<open>The constant buffers over a run\<close>




section \<open>The water material over a run\<close>

lemma water_after_snoc:
  "water_after (gts @ [gt]) m = mat_tick (water_rearm gt (water_after gts m))"
  by (induction gts arbitrary: m) simp_all

lemma water_after_index [simp]: "MatCBIndex (water_after gts m) = MatCBIndex m"
  by (induction gts arbitrary: m) simp_all

lemma water_after_counter:
  "gts \<noteq> [] \<Longrightarrow> Material.NumFramesDirty (water_after gts m) = int gNumFrameResources - 1"
proof (induction gts rule: rev_induct)
  case Nil
  then show ?case by simp
next
  case (snoc gt gts)
  show ?case
    by (simp add: water_after_snoc mat_tick_def mat_dirty_def gNumFrameResources_def)
qed

lemma water_writes_slots:
  "map fst (water_writes c gts m) = map (\<lambda>j. (c + 1 + j) mod gNumFrameResources) [0 ..< length gts]"
proof (induction gts arbitrary: c m)
  case Nil
  then show ?case by simp
next
  case (Cons gt gts)
  show ?case
    unfolding list.size(4) add_Suc_right add_0_right cyclic_shift
    by (simp add: Cons.IH)
qed

lemma run_water_writes:
  assumes "run W dev gts s = Inr s'"
    and "distinct (map fst (mMaterials s))"
    and "distinct (map (\<lambda>nm. MatCBIndex (snd nm)) (mMaterials s))"
    and "q < length (mMaterials s)"
    and "mMaterials s ! q = (''water'', m)"
  shows "(\<exists>evs. log s' = log s @ evs \<and>
           material_writes (MatCBIndex m) evs = water_writes (mCurrFrameResourceIndex s) gts m) \<and>
         mMaterials s' ! q = (''water'', water_after gts m) \<and>
         length (mMaterials s') = length (mMaterials s)"
  using assms
proof (induction gts arbitrary: s m)
  case Nil
  then show ?case by simp
next
  case (Cons gt gts)
  define k where "k = (mCurrFrameResourceIndex s + 1) mod gNumFrameResources"
  define seen where "seen = map (mat_seen gt) (mMaterials s)"
  define m1 where "m1 = mat_tick (water_rearm gt m)"
  from Cons.prems(1) obtain s1 where t: "tick W dev gt s = Inr s1" and r: "run W dev gts s1 = Inr s'"
    by (auto split: sum.splits)
  note tw = tick_constant_writes[OF t Cons.prems(2)]
  have sq: "seen ! q = water_rearm gt m" "q < length seen"
    using Cons.prems(4,5) by (simp_all add: seen_def mat_seen_def)
  have sd: "distinct (map MatCBIndex seen)"
    using Cons.prems(3) by (simp add: seen_def comp_def)
  have ix: "MatCBIndex (seen ! q) = MatCBIndex m" by (simp add: sq(1))
  from tw(1)[of 0 "MatCBIndex m"] obtain evs1 where
    l1: "log s1 = log s @ evs1" and
    w1: "material_writes (MatCBIndex m) evs1 =
           map (\<lambda>m. (k, matConstants_of m))
               (filter (\<lambda>m'. MatCBIndex m' = MatCBIndex (seen ! q)) (filter mat_dirty seen))"
    unfolding k_def seen_def[symmetric] ix by blast
  have fk: "filter (\<lambda>m'. MatCBIndex m' = MatCBIndex (seen ! q)) (filter mat_dirty seen) =
            (if mat_dirty (seen ! q) then [seen ! q] else [])"
    by (rule filter_dirty_by_key[OF sd sq(2)])
  have rd: "mat_dirty (water_rearm gt m)"
    by (simp add: mat_dirty_def gNumFrameResources_def)
  have w1': "material_writes (MatCBIndex m) evs1 = [(k, matConstants_of (water_rearm gt m))]"
    by (simp only: w1[unfolded sq(1)] fk[unfolded sq(1)] rd if_True) simp
  have e1: "mMaterials s1 ! q = (''water'', m1)"
    using Cons.prems(4,5) by (simp add: tw(3) mat_step_def m1_def)
  have keys: "distinct (map fst (mMaterials s1))"
    using Cons.prems(2) by (simp add: tw(3) comp_def)
  have idxs: "distinct (map (\<lambda>nm. MatCBIndex (snd nm)) (mMaterials s1))"
    using Cons.prems(3) by (simp add: tw(3) comp_def)
  have len: "q < length (mMaterials s1)" using Cons.prems(4) by (simp add: tw(3))
  have n1: "length (mMaterials s1) = length (mMaterials s)" by (simp add: tw(3))
  have k1: "mCurrFrameResourceIndex s1 = k" by (simp add: tw(4) k_def)
  have i1: "MatCBIndex m1 = MatCBIndex m" by (simp add: m1_def)
  note ih = Cons.IH[OF r keys idxs len e1, unfolded n1 k1 i1]
  from ih obtain evs2 where
    l2: "log s' = log s1 @ evs2" and
    w2: "material_writes (MatCBIndex m) evs2 = water_writes k gts m1"
    by blast
  from l1 l2 have "log s' = log s @ (evs1 @ evs2)" by simp
  moreover have "material_writes (MatCBIndex m) (evs1 @ evs2) =
                   water_writes (mCurrFrameResourceIndex s) (gt # gts) m"
    by (simp add: w1' w2 k_def m1_def)
  moreover from ih have "mMaterials s' ! q = (''water'', water_after (gt # gts) m)"
    by (simp add: m1_def)
  moreover from ih have "length (mMaterials s') = length (mMaterials s)" by simp
  ultimately show ?case by blast
qed

lemma run_material_keys:
  assumes "run W dev gts s = Inr s'" "distinct (map fst (mMaterials s))"
  shows "map fst (mMaterials s') = map fst (mMaterials s) \<and>
         map (\<lambda>nm. MatCBIndex (snd nm)) (mMaterials s') = map (\<lambda>nm. MatCBIndex (snd nm)) (mMaterials s) \<and>
         length (mFrameResources s') = length (mFrameResources s)"
  using assms
proof (induction gts arbitrary: s)
  case Nil
  then show ?case by simp
next
  case (Cons gt gts)
  from Cons.prems(1) obtain s1 where t: "tick W dev gt s = Inr s1" and r: "run W dev gts s1 = Inr s'"
    by (auto split: sum.splits)
  note tw = tick_constant_writes[OF t Cons.prems(2)]
  have a: "map fst (mMaterials s1) = map fst (mMaterials s)"
    "map (\<lambda>nm. MatCBIndex (snd nm)) (mMaterials s1) = map (\<lambda>nm. MatCBIndex (snd nm)) (mMaterials s)"
    by (simp_all add: tw(3) comp_def)
  from Cons.prems(2) a(1) have "distinct (map fst (mMaterials s1))" by simp
  from Cons.IH[OF r this] a tick_frames_length[OF t] show ?case by simp
qed

lemma BuildMaterials_water:
  "BuildMaterials ! 2 = (''water'', the (map_of BuildMaterials ''water''))"
  "map_of BuildMaterials ''water'' \<noteq> None"
  "length BuildMaterials = 12"
  "MatCBIndex (the (map_of BuildMaterials ''water'')) = 2"
  "Material.NumFramesDirty (the (map_of BuildMaterials ''water'')) = int gNumFrameResources"
  by (simp_all add: BuildMaterials_def make_Material_def Let_def)

lemma BuildMaterials_counters:
  assumes "q < 12"
  shows "Material.NumFramesDirty (snd (BuildMaterials ! q)) = int gNumFrameResources"
proof -
  from assms have "map (\<lambda>nm. Material.NumFramesDirty (snd nm)) BuildMaterials ! q =
                   Material.NumFramesDirty (snd (BuildMaterials ! q))"
    by (simp add: BuildMaterials_water(3))
  with assms show ?thesis by (simp add: BuildMaterials_indices(3))
qed


section \<open>C2: the ring of frame resources\<close>

text \<open>
  C2, as amended. Slot selection is a pure cyclic sequence: every tick selects slot
  \<open>(current + 1) mod N\<close> with \<open>N = gNumFrameResources = 3\<close>. The current index is 0 at
  start-up and is advanced before its first use, so over any run the selected slots are
  1, 2, 0, 1, 2, 0, ...: tick number \<open>i\<close>, counted from 0, selects slot \<open>(i + 1) mod 3\<close>, and
  after \<open>n\<close> ticks the current index is \<open>n mod 3\<close>.
\<close>

theorem slot_selection_is_cyclic:
  assumes "WinMain W dev scene gts = Inr s"
  shows "gNumFrameResources = 3 \<and>
         selected_slots (log s) = map (\<lambda>i. (i + 1) mod gNumFrameResources) [0 ..< length gts] \<and>
         mCurrFrameResourceIndex s = length gts mod gNumFrameResources"
  using WinMain_selected_slots[OF assms] by (simp add: gNumFrameResources_def)

theorem slot_selection_is_cyclic_witness:
  "\<exists>s. WinMain still_water example_device example_scene (map example_tick [0, 0.1, 0.2, 0.3]) = Inr s \<and>
       selected_slots (log s) = [1, 2, 0, 1] \<and> mCurrFrameResourceIndex s = 1"
proof -
  from example_run_exists[of "[0, 0.1, 0.2, 0.3]"] obtain s where
    s: "WinMain still_water example_device example_scene (map example_tick [0, 0.1, 0.2, 0.3]) = Inr s"
    by blast
  from slot_selection_is_cyclic[OF s] have
    "selected_slots (log s) = [1, 2, 0, 1] \<and> mCurrFrameResourceIndex s = 1"
    by (simp add: upt_conv_Cons gNumFrameResources_def)
  with s show ?thesis by blast
qed

text \<open>
  The claim as stated has the sequence start at slot 0. The first three ticks of the
  concrete run select the slots 1, 2, 0.
\<close>

theorem slot_sequence_starts_at_one:
  "slots_selected_in
     (WinMain still_water example_device example_scene (map example_tick [0, 0.1, 0.2])) = Some [1, 2, 0]
   \<and> slots_selected_in
     (WinMain still_water example_device example_scene (map example_tick [0, 0.1, 0.2])) \<noteq> Some [0, 1, 2]"
proof -
  from example_run_exists[of "[0, 0.1, 0.2]"] obtain s where
    s: "WinMain still_water example_device example_scene (map example_tick [0, 0.1, 0.2]) = Inr s"
    by blast
  from WinMain_selected_slots(1)[OF s] have "selected_slots (log s) = [1, 2, 0]"
    by (simp add: upt_conv_Cons)
  with s show ?thesis by (simp add: slots_selected_in_def)
qed

section \<open>C10: constant-buffer indices stay in bounds\<close>

text \<open>
  C10. Every render item's \<open>ObjCBIndex\<close> comes from one counter incremented once per
  constructed item, so the values are exactly \<open>0 .. mAllRitems.size() - 1\<close> and pairwise
  distinct; the \<open>MatCBIndex\<close> values are \<open>0 .. 11\<close>. Every frame resource's object-constant
  buffer has capacity \<open>mAllRitems.size()\<close> and its material-constant buffer capacity
  \<open>mMaterials.size()\<close>. Hence, from start-up on and after any number of ticks, no write into
  an upload buffer is out of bounds, and the object and material index of every render item
  of every layer, which the draw pass turns into addresses, is below the capacity of the
  buffer it indexes.
\<close>

theorem constant_buffer_indices_stay_in_bounds:
  assumes "geometries_built (geometries scene)" and "never_resized W"
  shows "(\<forall>kind. WinMain W dev scene gts \<noteq> Inl (OutOfBounds kind)) \<and>
         (\<forall>s. WinMain W dev scene gts = Inr s \<longrightarrow>
            map ObjCBIndex (mAllRitems s) = [0 ..< length (mAllRitems s)] \<and>
            distinct (map ObjCBIndex (mAllRitems s)) \<and>
            map (\<lambda>nm. MatCBIndex (snd nm)) (mMaterials s) = [0 ..< 12] \<and>
            length (mMaterials s) = 12 \<and>
            (\<forall>fr\<in>set (mFrameResources s).
               length (mMappedData (ObjectCB fr)) = length (mAllRitems s) \<and>
               length (mMappedData (MaterialCB fr)) = length (mMaterials s) \<and>
               (\<forall>layer. \<forall>p\<in>set (mRitemLayer s layer).
                  p < length (mAllRitems s) \<and>
                  ObjCBIndex (mAllRitems s ! p) < length (mMappedData (ObjectCB fr)) \<and>
                  (\<exists>mat. map_of (mMaterials s) (Mat (mAllRitems s ! p)) = Some mat \<and>
                         MatCBIndex mat < length (mMappedData (MaterialCB fr))))))"
proof (intro conjI allI impI)
  fix kind
  show "WinMain W dev scene gts \<noteq> Inl (OutOfBounds kind)"
    using WinMain_fails_only_in_the_device[OF assms, of dev gts "OutOfBounds kind"] by auto
next
  fix s assume r: "WinMain W dev scene gts = Inr s"
  note l = WinMain_layout[OF assms r]
  show "map ObjCBIndex (mAllRitems s) = [0 ..< length (mAllRitems s)]"
    by (simp add: l(1,2))
  show "distinct (map ObjCBIndex (mAllRitems s))"
    by (simp add: l(1))
  show "map (\<lambda>nm. MatCBIndex (snd nm)) (mMaterials s) = [0 ..< 12]"
    by (rule l(4))
  show "length (mMaterials s) = 12"
    by (rule l(5))
  show "\<forall>fr\<in>set (mFrameResources s).
               length (mMappedData (ObjectCB fr)) = length (mAllRitems s) \<and>
               length (mMappedData (MaterialCB fr)) = length (mMaterials s) \<and>
               (\<forall>layer. \<forall>p\<in>set (mRitemLayer s layer).
                  p < length (mAllRitems s) \<and>
                  ObjCBIndex (mAllRitems s ! p) < length (mMappedData (ObjectCB fr)) \<and>
                  (\<exists>mat. map_of (mMaterials s) (Mat (mAllRitems s ! p)) = Some mat \<and>
                         MatCBIndex mat < length (mMappedData (MaterialCB fr))))"
  proof (intro ballI conjI allI)
    fix fr assume fr: "fr \<in> set (mFrameResources s)"
    with l(6) have c: "length (mMappedData (ObjectCB fr)) = 143" "length (mMappedData (MaterialCB fr)) = 12"
      by blast+
    show "length (mMappedData (ObjectCB fr)) = length (mAllRitems s)" by (simp add: c l(2))
    show "length (mMappedData (MaterialCB fr)) = length (mMaterials s)" by (simp add: c l(5))
    fix layer p assume p: "p \<in> set (mRitemLayer s layer)"
    from l(8) p have d: "drawable s False p"
      by (simp add: well_formed_def pointers_valid_def)
    then show pl: "p < length (mAllRitems s)" by (simp add: drawable_def)
    from pl have "ObjCBIndex (mAllRitems s ! p) = map ObjCBIndex (mAllRitems s) ! p" by simp
    also have "\<dots> = p" using pl by (simp add: l(1,2))
    finally show "ObjCBIndex (mAllRitems s ! p) < length (mMappedData (ObjectCB fr))"
      using pl by (simp add: c l(2))
    from d obtain mat where m: "map_of (mMaterials s) (Mat (mAllRitems s ! p)) = Some mat"
      by (auto simp: drawable_def)
    then have "(Mat (mAllRitems s ! p), mat) \<in> set (mMaterials s)" by (rule map_of_SomeD)
    then have "MatCBIndex mat \<in> set (map (\<lambda>nm. MatCBIndex (snd nm)) (mMaterials s))" by force
    then have "MatCBIndex mat < 12" unfolding l(4) by simp
    with m show "\<exists>mat. map_of (mMaterials s) (Mat (mAllRitems s ! p)) = Some mat \<and>
                         MatCBIndex mat < length (mMappedData (MaterialCB fr))"
      by (simp add: c)
  qed
qed

theorem constant_buffer_indices_stay_in_bounds_witness:
  "geometries_built (geometries example_scene) \<and> never_resized still_water \<and>
   (\<exists>s. WinMain still_water example_device example_scene (map example_tick [0, 0.1]) = Inr s \<and>
        map ObjCBIndex (mAllRitems s) = [0 ..< 143] \<and>
        map (\<lambda>nm. MatCBIndex (snd nm)) (mMaterials s) = [0 ..< 12] \<and>
        (\<forall>fr\<in>set (mFrameResources s).
           length (mMappedData (ObjectCB fr)) = 143 \<and> length (mMappedData (MaterialCB fr)) = 12))"
proof -
  from example_run_exists[of "[0, 0.1]"] obtain s where
    s: "WinMain still_water example_device example_scene (map example_tick [0, 0.1]) = Inr s"
    by blast
  from constant_buffer_indices_stay_in_bounds[OF example_scene_built still_water_never_resized,
         of example_device "map example_tick [0, 0.1]"] s
  have f: "map ObjCBIndex (mAllRitems s) = [0 ..< length (mAllRitems s)]"
    "map (\<lambda>nm. MatCBIndex (snd nm)) (mMaterials s) = [0 ..< 12]"
    "length (mMaterials s) = 12"
    "\<forall>fr\<in>set (mFrameResources s).
               length (mMappedData (ObjectCB fr)) = length (mAllRitems s) \<and>
               length (mMappedData (MaterialCB fr)) = length (mMaterials s)"
    by blast+
  have "length (mAllRitems s) = 143"
    by (rule WinMain_layout(2)[OF example_scene_built still_water_never_resized s])
  with f s example_scene_built still_water_never_resized show ?thesis
    by auto
qed

section \<open>C1: wait, then write\<close>

text \<open>
  C1. In every tick all CPU writes into the buffers of the selected frame resource (object
  constants, material constants, pass constants, wave vertices) come after the slot
  selection has found the slot's recorded fence zero or not above the device's completed
  fence, or after the blocking wait for that fence has returned: in the log of every state
  the loop reaches from start-up, no write into a slot's buffers precedes the completion of
  the fence recorded for that slot by its previous submission. When the wait is needed and
  never returns, or cannot be set up, \<open>Update\<close> ends there and writes nothing.
\<close>

theorem writes_wait_for_the_fence:
  assumes "WinMain W dev scene gts = Inr s"
  shows "wait_then_write (log s) \<and>
         (\<forall>t gt err. well_formed t \<and> never_resized W \<and> Update W gt t = Inl err \<longrightarrow>
            Fence (mFrameResources t ! ((mCurrFrameResourceIndex t + 1) mod gNumFrameResources)) \<noteq> 0 \<and>
            GetCompletedValue gt
              < Fence (mFrameResources t ! ((mCurrFrameResourceIndex t + 1) mod gNumFrameResources)) \<and>
            (err = DxException \<and> \<not> SetEventOnCompletion_succeeds gt \<or>
             err = WaitNeverReturns \<and> \<not> WaitForSingleObject_returns gt))"
  using WinMain_monitor[OF assms] Update_fails_only_at_the_gate by blast

theorem writes_wait_for_the_fence_witness:
  "\<exists>s. WinMain still_water example_device example_scene (map example_tick [0, 0.1, 0.2, 0.3]) = Inr s \<and>
       wait_then_write (log s) \<and>
       WritePassCB 1 0 (main_pass_constants (example_tick 0) example_PassConstants) \<in> set (log s)"
proof -
  from example_run_exists[of "[0, 0.1, 0.2, 0.3]"] obtain s where
    s: "WinMain still_water example_device example_scene (map example_tick [0, 0.1, 0.2, 0.3]) = Inr s"
    by blast
  from WinMain_Inr[OF s] obtain s0 where i: "Initialize example_scene = Inr s0"
    and r: "run still_water example_device (map example_tick [0, 0.1, 0.2, 0.3]) s0 = Inr s"
    by blast
  from r obtain s1 where t: "tick still_water example_device (example_tick 0) s0 = Inr s1"
    and r1: "run still_water example_device (map example_tick [0.1, 0.2, 0.3]) s1 = Inr s"
    by (auto split: sum.splits)
  have agr: "agrees \<lparr>selected = mCurrFrameResource s1, gate_open = False,
                     recorded_fence = (\<lambda>k. Fence (mFrameResources s1 ! k))\<rparr> s1"
    by (simp add: agrees_def)
  from run_monitor[OF r1 agr] have sub: "set (log s1) \<subseteq> set (log s)" by auto
  from tick_writes_pass_constants[OF t] Initialize_Inr(7)[OF i] Initialize_Inr(1-6)[OF i]
  have "WritePassCB 1 0 (main_pass_constants (example_tick 0) (mMainPassCB s0)) \<in> set (log s1)"
    by (simp add: gNumFrameResources_def)
  moreover have "mMainPassCB s0 = example_PassConstants"
    using i by (auto simp: Initialize_def Let_def BuildRenderItems_def BuildFrameResources_def
                  example_scene_def split: sum.splits prod.splits dest!: AddRitems_Inr)
  ultimately have "WritePassCB 1 0 (main_pass_constants (example_tick 0) example_PassConstants) \<in> set (log s)"
    using sub by auto
  with s writes_wait_for_the_fence[OF s] show ?thesis by blast
qed

section \<open>C8: the caller of Disturb\<close>

text \<open>
  C8. The claim: every \<open>Disturb(i, j, r)\<close> call of the wave-update step is made at most
  once per 0.25 seconds of accumulated total time (the source says: every quarter second,
  generate a random wave). The code keeps the time of the last disturbance in the float
  \<open>t_base\<close> and advances it by \<open>t_base += 0.25f\<close>. In a session that ticks every quarter
  second, \<open>t_base\<close> follows the timer up to 4194304 seconds, with one call per tick. From
  there on the sum is rounded back to 4194304, \<open>t_base\<close> no longer advances, and every tick
  calls \<open>Disturb\<close>: three ticks that all read the total time 4194304.5 make three calls.
\<close>

theorem disturbance_on_every_tick_once_t_base_stops:
  "disturbances_in
     (WinMain still_water example_device example_scene (quarter_second_ticks (2 ^ 24))) =
     Some (2 ^ 24) \<and>
   disturbances_in
     (WinMain still_water example_device example_scene
        (quarter_second_ticks (2 ^ 24) @ [late_tick, late_tick, late_tick])) =
     Some (2 ^ 24 + 3) \<and>
   gt_TotalTime (last (quarter_second_ticks (2 ^ 24))) = 4194304 \<and>
   gt_TotalTime late_tick = 4194304.5"
proof -
  from late_session_exists[of 0] obtain s where
    s: "WinMain still_water example_device example_scene (quarter_second_ticks (2 ^ 24)) = Inr s"
    by auto
  from late_session(1)[of _ _ _ 0] s have "length (disturb_calls (log s)) = 2 ^ 24"
    by simp
  then have a: "disturbances_in
     (WinMain still_water example_device example_scene (quarter_second_ticks (2 ^ 24))) =
     Some (2 ^ 24)"
    unfolding s disturbances_in_def by (simp only: sum.case)
  have l: "[late_tick, late_tick, late_tick] = replicate 3 late_tick"
    by (simp only: numeral_3_eq_3 replicate.simps)
  from late_session_exists[of 3] obtain s' where
    s': "WinMain still_water example_device example_scene
           (quarter_second_ticks (2 ^ 24) @ replicate 3 late_tick) = Inr s'"
    by blast
  from late_session(1)[OF s'] have "length (disturb_calls (log s')) = 2 ^ 24 + 3" .
  then have b: "disturbances_in
     (WinMain still_water example_device example_scene
        (quarter_second_ticks (2 ^ 24) @ [late_tick, late_tick, late_tick])) =
     Some (2 ^ 24 + 3)"
    unfolding l s' disturbances_in_def by (simp only: sum.case)
  have "quarter_second_ticks (2 ^ 24) = quarter_second_ticks (Suc (2 ^ 24 - 1))" by simp
  then have c: "gt_TotalTime (last (quarter_second_ticks (2 ^ 24))) = 4194304"
    by (simp only: quarter_second_ticks_Suc) (simp add: example_tick_def)
  have d: "gt_TotalTime late_tick = 4194304.5" by (simp add: late_tick_def example_tick_def)
  from a b c d show ?thesis by (intro conjI)
qed

section \<open>C3: a dirty entity reaches every frame resource once\<close>



section \<open>C9: the water material is rewritten on every tick\<close>

text \<open>
  C9. \<open>AnimateMaterials\<close> sets the water material's dirty counter to
  \<open>gNumFrameResources = 3\<close> whenever it returns, and it runs before \<open>UpdateMaterialCBs\<close> in
  every tick. In every run from start-up the constant record of the water material (index 2)
  is therefore written on every tick, once, into the material buffer of the slot of that
  tick, and after the last tick that slot's buffer holds the record. The counter is 3 at
  start-up and 2 after every tick: it never reaches 0. The counter of every other material
  is \<open>3 - n\<close> after \<open>n \<le> 3\<close> ticks and 0 from the third tick on.
\<close>

theorem water_constants_are_rewritten_every_tick:
  assumes "WinMain W dev scene gts = Inr s"
  shows "\<exists>water0 water.
           map_of BuildMaterials ''water'' = Some water0 \<and>
           map_of (mMaterials s) ''water'' = Some water \<and>
           water = water_after gts water0 \<and>
           MatCBIndex water = 2 \<and>
           material_writes 2 (log s) = water_writes 0 gts water0 \<and>
           map fst (material_writes 2 (log s)) =
             map (\<lambda>i. (i + 1) mod gNumFrameResources) [0 ..< length gts] \<and>
           Material.NumFramesDirty water = (if gts = [] then 3 else 2) \<and>
           (gts \<noteq> [] \<longrightarrow>
              mMappedData (MaterialCB (mFrameResources s ! mCurrFrameResourceIndex s)) ! 2 =
                Some (matConstants_of (water_rearm (last gts) (water_after (butlast gts) water0)))) \<and>
           (\<forall>nm \<in> set (mMaterials s). fst nm \<noteq> ''water'' \<longrightarrow>
              Material.NumFramesDirty (snd nm) =
                int (gNumFrameResources - min (length gts) gNumFrameResources)) \<and>
           (\<forall>gt t t1. AnimateMaterials gt t = Inr t1 \<longrightarrow>
              (\<exists>w. map_of (mMaterials t1) ''water'' = Some w \<and>
                    Material.NumFramesDirty w = int gNumFrameResources))"
proof -
  define water0 where "water0 = the (map_of BuildMaterials ''water'')"
  define water where "water = water_after gts water0"
  from WinMain_Inr[OF assms] obtain s0 where i: "Initialize scene = Inr s0"
    and r: "run W dev gts s0 = Inr s" by blast
  note f = Initialize_Inr[OF i]
  have d2: "distinct (map fst (mMaterials s0))" by (simp add: f(3) BuildMaterials_keys)
  have d3: "distinct (map (\<lambda>nm. MatCBIndex (snd nm)) (mMaterials s0))"
    by (simp add: f(3) BuildMaterials_indices(1))
  have q: "2 < length (mMaterials s0)" by (simp add: f(3) BuildMaterials_water(3))
  have w0: "mMaterials s0 ! 2 = (''water'', water0)"
    by (simp add: f(3) BuildMaterials_water(1) water0_def)
  have ix: "MatCBIndex water0 = 2" by (simp add: water0_def BuildMaterials_water(4))
  have c0: "Material.NumFramesDirty water0 = int gNumFrameResources"
    by (simp add: water0_def BuildMaterials_water(5))
  note keys = run_material_keys[OF r d2]
  note ww = run_water_writes[OF r d2 d3 q w0, unfolded ix f(7) f(9) append_Nil]
  have a: "map_of BuildMaterials ''water'' = Some water0"
    using BuildMaterials_water(2) by (auto simp: water0_def)
  have dk: "distinct (map fst (mMaterials s))" using keys d2 by simp
  have len: "length (mMaterials s) = 12"
    using ww by (simp add: f(3) BuildMaterials_water(3))
  from ww have at2: "mMaterials s ! 2 = (''water'', water)" by (simp add: water_def)
  with len have "(''water'', water) \<in> set (mMaterials s)" by (metis nth_mem numeral_less_iff semiring_norm(76,78))
  with dk have b: "map_of (mMaterials s) ''water'' = Some water" by (rule map_of_is_SomeI)
  have c: "MatCBIndex water = 2" by (simp add: water_def ix)
  from ww have d: "material_writes 2 (log s) = water_writes 0 gts water0" by auto
  have e: "map fst (material_writes 2 (log s)) = map (\<lambda>i. (i + 1) mod gNumFrameResources) [0 ..< length gts]"
    unfolding d water_writes_slots by simp
  have g: "Material.NumFramesDirty water = (if gts = [] then 3 else 2)"
    using water_after_counter[of gts water0] c0
    by (simp add: water_def gNumFrameResources_def)
  have h: "mMappedData (MaterialCB (mFrameResources s ! mCurrFrameResourceIndex s)) ! 2 =
             Some (matConstants_of (water_rearm (last gts) (water_after (butlast gts) water0)))"
    if ne: "gts \<noteq> []"
  proof -
    from ne have sp: "gts = butlast gts @ [last gts]" by simp
    from r obtain s1 where r1: "run W dev (butlast gts) s0 = Inr s1"
      and t: "tick W dev (last gts) s1 = Inr s"
      by (subst (asm) sp) (auto simp: run_append split: sum.splits)
    note k1 = run_material_keys[OF r1 d2]
    note w1 = run_water_writes[OF r1 d2 d3 q w0]
    have dk1: "distinct (map fst (mMaterials s1))" using k1 d2 by simp
    have di1: "distinct (map (\<lambda>nm. MatCBIndex (snd nm)) (mMaterials s1))" using k1 d3 by simp
    have q1: "2 < length (mMaterials s1)" using w1 q by simp
    from w1 have m1: "mMaterials s1 ! 2 = (''water'', water_after (butlast gts) water0)" by simp
    note tw = tick_constant_writes(4)[OF t dk1]
    have "(mCurrFrameResourceIndex s1 + 1) mod gNumFrameResources < gNumFrameResources"
      by (simp add: gNumFrameResources_def)
    then have kl: "mCurrFrameResourceIndex s < length (mFrameResources s1)"
      using k1 by (simp add: tw f(6))
    from tick_material_buffer[OF t dk1 di1 q1 kl]
    show ?thesis
      by (simp add: m1 ix tw mat_seen_def mat_dirty_def gNumFrameResources_def)
  qed
  have others: "Material.NumFramesDirty (snd nm) = int (gNumFrameResources - min (length gts) gNumFrameResources)"
    if nm: "nm \<in> set (mMaterials s)" and nw: "fst nm \<noteq> ''water''" for nm
  proof -
    from nm obtain p where p: "p < length (mMaterials s)" "mMaterials s ! p = nm"
      by (auto simp: in_set_conv_nth)
    from p(1) len have p12: "p < 12" by simp
    then have p0: "p < length (mMaterials s0)" by (simp add: f(3) BuildMaterials_water(3))
    from arg_cong[OF conjunct1[OF keys], of "\<lambda>xs. xs ! p"] p p0
    have "fst (mMaterials s0 ! p) = fst nm" by simp
    with nw have nw0: "fst (mMaterials s0 ! p) \<noteq> ''water''" by simp
    have c: "Material.NumFramesDirty (snd (mMaterials s0 ! p)) = int gNumFrameResources"
      by (simp add: f(3) BuildMaterials_counters[OF p12])
    from run_material_writes[OF r d2 d3 p0 nw0 c] p(2) show ?thesis by simp
  qed
  have anim: "\<exists>w. map_of (mMaterials t1) ''water'' = Some w \<and>
                  Material.NumFramesDirty w = int gNumFrameResources"
    if "AnimateMaterials gt t = Inr t1" for gt t t1
    using AnimateMaterials_Inr[OF that] by (auto simp: update_conv')
  from a b c d e g h others anim show ?thesis unfolding water_def by blast
qed

theorem water_constants_are_rewritten_every_tick_witness:
  "\<exists>s t1 water0 water grass water1.
     WinMain still_water example_device example_scene (map example_tick [0, 0.1, 0.2, 0.3]) = Inr s \<and>
     map_of BuildMaterials ''water'' = Some water0 \<and>
     map fst (material_writes 2 (log s)) = [1, 2, 0, 1] \<and>
     map_of (mMaterials s) ''water'' = Some water \<and> Material.NumFramesDirty water = 2 \<and>
     map_of (mMaterials s) ''grass'' = Some grass \<and> Material.NumFramesDirty grass = 0 \<and>
     mMappedData (MaterialCB (mFrameResources s ! 1)) ! 2 =
       Some (matConstants_of (water_rearm (example_tick 0.3)
               (water_after (map example_tick [0, 0.1, 0.2]) water0))) \<and>
     AnimateMaterials (example_tick 0.4) s = Inr t1 \<and>
     map_of (mMaterials t1) ''water'' = Some water1 \<and> Material.NumFramesDirty water1 = 3"
proof -
  from example_run_exists[of "[0, 0.1, 0.2, 0.3]"] obtain s where
    s: "WinMain still_water example_device example_scene (map example_tick [0, 0.1, 0.2, 0.3]) = Inr s"
    by blast
  from water_constants_are_rewritten_every_tick[OF s] obtain water0 water where
    w: "map_of BuildMaterials ''water'' = Some water0"
       "map_of (mMaterials s) ''water'' = Some water"
       "map fst (material_writes 2 (log s)) =
             map (\<lambda>i. (i + 1) mod gNumFrameResources) [0 ..< length (map example_tick [0, 0.1, 0.2, 0.3::real])]"
       "Material.NumFramesDirty water = 2"
       "mMappedData (MaterialCB (mFrameResources s ! mCurrFrameResourceIndex s)) ! 2 =
          Some (matConstants_of (water_rearm (example_tick 0.3)
                  (water_after (map example_tick [0, 0.1, 0.2]) water0)))" and
    o: "\<forall>nm \<in> set (mMaterials s). fst nm \<noteq> ''water'' \<longrightarrow>
              Material.NumFramesDirty (snd nm) = 0" and
    an: "\<forall>gt t t1. AnimateMaterials gt t = Inr t1 \<longrightarrow>
              (\<exists>w. map_of (mMaterials t1) ''water'' = Some w \<and>
                    Material.NumFramesDirty w = int gNumFrameResources)"
    by (auto simp: gNumFrameResources_def)
  from w(2) have "\<exists>t1. AnimateMaterials (example_tick 0.4) s = Inr t1"
    by (intro AnimateMaterials_succeeds) simp
  then obtain t1 where t1: "AnimateMaterials (example_tick 0.4) s = Inr t1" by blast
  with an obtain water1 where a3: "map_of (mMaterials t1) ''water'' = Some water1"
    "Material.NumFramesDirty water1 = 3"
    by (fastforce simp: gNumFrameResources_def)
  have idx: "mCurrFrameResourceIndex s = 1"
    using WinMain_selected_slots(2)[OF s] by simp
  from WinMain_Inr[OF s] obtain s0 where i: "Initialize example_scene = Inr s0"
    and r: "run still_water example_device (map example_tick [0, 0.1, 0.2, 0.3]) s0 = Inr s" by blast
  have ks: "map fst (mMaterials s) = map fst BuildMaterials"
    using run_material_keys[OF r] by (simp add: Initialize_Inr(3)[OF i] BuildMaterials_keys)
  have "''grass'' \<in> set (map fst (mMaterials s))"
    unfolding ks BuildMaterials_keys by simp
  then have gk: "map_of (mMaterials s) ''grass'' \<noteq> None"
    by (simp only: map_of_eq_None_iff set_map not_not)
  then obtain g where g: "map_of (mMaterials s) ''grass'' = Some g" by blast
  then have "(''grass'', g) \<in> set (mMaterials s)" by (rule map_of_SomeD)
  with o have g0: "Material.NumFramesDirty g = 0" by fastforce
  from w(3) have sl: "map fst (material_writes 2 (log s)) = [1, 2, 0, 1]"
    by (simp add: upt_conv_Cons gNumFrameResources_def)
  show ?thesis
    apply (rule exI[of _ s], rule exI[of _ t1], rule exI[of _ water0], rule exI[of _ water],
           rule exI[of _ g], rule exI[of _ water1])
    using s w(1,2,4) w(5)[unfolded idx] sl t1 a3 g g0 by simp
qed

end
